theory Spec2Isabelle
  imports Complex_Main "HOL-Library.Multiset" "HOL-Library.Word"
begin

section \<open>Matrix-free Laplace kernels (src/matrix-free.hpp)\<close>

text \<open>
  The kernels are written for a scalar type \<open>T\<close> but compute in \<open>double\<close>. The
  embedding computes in exact arithmetic: every scalar is a \<^typ>\<open>real\<close>, and a decimal
  literal of the source denotes its decimal value. Device arrays are lists; the
  dofmaps hold non-negative 32-bit indices and are lists of \<^typ>\<open>nat\<close>. The source
  has no bounds checks: a read \<open>xs ! i\<close> beyond the end of an array is undefined
  behaviour there and unspecified here, so the general theorems below assume a mesh
  whose indices are in range.
\<close>

subsection \<open>Loop nests\<close>

text \<open>
  \<open>for (i0 = 0; i0 < n; ++i0) for (i1 = 0; i1 < n; ++i1) for (i2 = 0; i2 < n; ++i2) body\<close>,
  threading the state the body updates.
\<close>

definition loop3 :: "nat \<Rightarrow> (nat \<Rightarrow> nat \<Rightarrow> nat \<Rightarrow> 's \<Rightarrow> 's) \<Rightarrow> 's \<Rightarrow> 's" where
  "loop3 n body = fold (\<lambda>i0. fold (\<lambda>i1. fold (\<lambda>i2. body i0 i1 i2) [0..<n]) [0..<n]) [0..<n]"

text \<open>
  A scalar accumulator \<open>double s = 0.0;\<close> with \<open>s += term\<close> in the innermost loop body.
  In the Jacobian and Coefficient sections the outer \<open>ic0\<close> loop is shared by several
  accumulators, each with its own \<open>ic1\<close>, \<open>ic2\<close> loops; every accumulator receives its
  terms in the order \<open>ic0\<close>, \<open>ic1\<close>, \<open>ic2\<close>.
\<close>

definition acc3 :: "nat \<Rightarrow> (nat \<Rightarrow> nat \<Rightarrow> nat \<Rightarrow> real) \<Rightarrow> real" where
  "acc3 n term = loop3 n (\<lambda>i0 i1 i2 s. s + term i0 i1 i2) 0.0"

subsection \<open>Quadrature weights and basis tables\<close>

text \<open>
  The tables are function-local statics of the two kernels. \<open>FE_TF0\<close> and \<open>FE_TF1\<close>
  name different tables in \<open>tabulate_tensor_Q1\<close> and \<open>tabulate_tensor_Q2\<close>, so they
  carry the kernel as a prefix here. Dimensions: [permutation][entities][points][dofs].
\<close>

definition weights_461 :: "real list" where
  "weights_461 =
     [0.02143347050754454, 0.03429355281207129, 0.02143347050754456, 0.03429355281207129,
     0.05486968449931409, 0.03429355281207132, 0.02143347050754457, 0.03429355281207132,
     0.02143347050754458, 0.03429355281207129, 0.05486968449931409, 0.03429355281207132,
     0.05486968449931409, 0.0877914951989026, 0.05486968449931414, 0.03429355281207132,
     0.05486968449931413, 0.03429355281207135, 0.02143347050754457, 0.03429355281207132,
     0.02143347050754458, 0.03429355281207132, 0.05486968449931413, 0.03429355281207135,
     0.02143347050754458, 0.03429355281207135, 0.0214334705075446]"

definition Q1_FE_TF0 :: "real list list list list" where
  "Q1_FE_TF0 = [[[[-1.0, 1.0], [-1.0, 1.0], [-1.0, 1.0]]]]"

definition Q1_FE_TF1 :: "real list list list list" where
  "Q1_FE_TF1 =
     [[[[0.8872983346207417, 0.1127016653792582], [0.5, 0.5], [0.1127016653792582,
     0.8872983346207417]]]]"

definition weights_be1 :: "real list" where
  "weights_be1 =
     [0.005261434686316431, 0.009863939474383817, 0.009863939474383819, 0.00526143468631643,
     0.009863939474383817, 0.01849254200709766, 0.01849254200709766, 0.009863939474383814,
     0.009863939474383819, 0.01849254200709766, 0.01849254200709766, 0.009863939474383816,
     0.00526143468631643, 0.009863939474383814, 0.009863939474383816, 0.005261434686316428,
     0.009863939474383817, 0.01849254200709766, 0.01849254200709766, 0.009863939474383814,
     0.01849254200709766, 0.03466912086923912, 0.03466912086923912, 0.01849254200709765,
     0.01849254200709766, 0.03466912086923912, 0.03466912086923913, 0.01849254200709766,
     0.009863939474383814, 0.01849254200709765, 0.01849254200709766, 0.00986393947438381,
     0.009863939474383819, 0.01849254200709766, 0.01849254200709766, 0.009863939474383816,
     0.01849254200709766, 0.03466912086923912, 0.03466912086923913, 0.01849254200709766,
     0.01849254200709766, 0.03466912086923912, 0.03466912086923913, 0.01849254200709766,
     0.009863939474383817, 0.01849254200709766, 0.01849254200709766, 0.009863939474383814,
     0.00526143468631643, 0.009863939474383814, 0.009863939474383816, 0.005261434686316428,
     0.009863939474383814, 0.01849254200709765, 0.01849254200709766, 0.00986393947438381,
     0.009863939474383817, 0.01849254200709766, 0.01849254200709766, 0.009863939474383814,
     0.005261434686316428, 0.00986393947438381, 0.009863939474383812, 0.005261434686316426]"

definition Q2_FE_TF0 :: "real list list list list" where
  "Q2_FE_TF0 =
     [[[[-2.722272623188105, -0.7222726231881051, 3.44454524637621], [-1.679962087169713,
     0.3200379128302875, 1.359924174339425], [-0.3200379128302875, 1.679962087169713,
     -1.359924174339425], [0.7222726231881049, 2.722272623188105, -3.444545246376209]]]]"

definition Q2_FE_TF1 :: "real list list list list" where
  "Q2_FE_TF1 =
     [[[[0.8013460293699309, -0.05979028222412167, 0.2584442528541908], [0.227784076790952,
     -0.1121969667939042, 0.884412890002952], [-0.1121969667939043, 0.2277840767909521,
     0.884412890002952], [-0.05979028222412186, 0.8013460293699308, 0.258444252854191]]]]"

definition Q2_FE_TF2 :: "real list list list list" where
  "Q2_FE_TF2 =
     [[[[0.9305681557970263, 0.06943184420297366], [0.6699905217924281, 0.3300094782075719],
     [0.3300094782075719, 0.6699905217924281], [0.06943184420297371, 0.9305681557970262]]]]"

definition Q2_FE_TF3 :: "real list list list list" where
  "Q2_FE_TF3 = [[[[-1.0, 1.0], [-1.0, 1.0], [-1.0, 1.0], [-1.0, 1.0]]]]"

subsection \<open>Section: Intermediates\<close>

text \<open>
  The block of named temporaries \<open>sv_461_0 .. sv_461_89\<close> of \<open>tabulate_tensor_Q1\<close>; the
  block \<open>sv_be1_0 .. sv_be1_89\<close> of \<open>tabulate_tensor_Q2\<close> is the same text with the
  other prefix. Inputs are the nine Jacobian entries, the three reference derivatives
  of the coefficient, \<open>c[0]\<close> and the weight of the quadrature point; the result is
  \<open>(fw0, fw1, fw2)\<close>.
\<close>

definition intermediates ::
  "real \<Rightarrow> real \<Rightarrow> real \<Rightarrow> real \<Rightarrow> real \<Rightarrow> real \<Rightarrow> real \<Rightarrow> real \<Rightarrow> real \<Rightarrow> real \<Rightarrow>
   real \<Rightarrow> real \<Rightarrow> real \<Rightarrow> real \<Rightarrow> real \<times> real \<times> real" where
  "intermediates c0 J_c0 J_c1 J_c2 J_c3 J_c4 J_c5 J_c6 J_c7 J_c8 w0_d100 w0_d010 w0_d001 weight =
     (let
      sv_0 = J_c4 * J_c8;
      sv_1 = J_c5 * J_c7;
      sv_2 = - sv_1;
      sv_3 = sv_0 + sv_2;
      sv_4 = J_c0 * sv_3;
      sv_5 = J_c3 * J_c8;
      sv_6 = J_c5 * J_c6;
      sv_7 = - sv_6;
      sv_8 = sv_5 + sv_7;
      sv_9 = - J_c1;
      sv_10 = sv_8 * sv_9;
      sv_11 = sv_4 + sv_10;
      sv_12 = J_c3 * J_c7;
      sv_13 = J_c4 * J_c6;
      sv_14 = - sv_13;
      sv_15 = sv_12 + sv_14;
      sv_16 = J_c2 * sv_15;
      sv_17 = sv_11 + sv_16;
      sv_18 = sv_3 / sv_17;
      sv_19 = - J_c8;
      sv_20 = J_c3 * sv_19;
      sv_21 = sv_6 + sv_20;
      sv_22 = sv_21 / sv_17;
      sv_23 = sv_15 / sv_17;
      sv_24 = w0_d100 * sv_18;
      sv_25 = w0_d010 * sv_22;
      sv_26 = sv_24 + sv_25;
      sv_27 = w0_d001 * sv_23;
      sv_28 = sv_26 + sv_27;
      sv_29 = sv_28 * sv_18;
      sv_30 = sv_28 * sv_22;
      sv_31 = sv_28 * sv_23;
      sv_32 = J_c2 * J_c7;
      sv_33 = J_c8 * sv_9;
      sv_34 = sv_32 + sv_33;
      sv_35 = sv_34 / sv_17;
      sv_36 = J_c0 * J_c8;
      sv_37 = - J_c2;
      sv_38 = J_c6 * sv_37;
      sv_39 = sv_36 + sv_38;
      sv_40 = sv_39 / sv_17;
      sv_41 = J_c1 * J_c6;
      sv_42 = J_c0 * J_c7;
      sv_43 = - sv_42;
      sv_44 = sv_41 + sv_43;
      sv_45 = sv_44 / sv_17;
      sv_46 = w0_d100 * sv_35;
      sv_47 = w0_d010 * sv_40;
      sv_48 = sv_46 + sv_47;
      sv_49 = w0_d001 * sv_45;
      sv_50 = sv_48 + sv_49;
      sv_51 = sv_50 * sv_35;
      sv_52 = sv_50 * sv_40;
      sv_53 = sv_50 * sv_45;
      sv_54 = sv_51 + sv_29;
      sv_55 = sv_52 + sv_30;
      sv_56 = sv_31 + sv_53;
      sv_57 = J_c1 * J_c5;
      sv_58 = J_c2 * J_c4;
      sv_59 = - sv_58;
      sv_60 = sv_57 + sv_59;
      sv_61 = sv_60 / sv_17;
      sv_62 = J_c2 * J_c3;
      sv_63 = J_c0 * J_c5;
      sv_64 = - sv_63;
      sv_65 = sv_62 + sv_64;
      sv_66 = sv_65 / sv_17;
      sv_67 = J_c0 * J_c4;
      sv_68 = J_c1 * J_c3;
      sv_69 = - sv_68;
      sv_70 = sv_67 + sv_69;
      sv_71 = sv_70 / sv_17;
      sv_72 = w0_d100 * sv_61;
      sv_73 = w0_d010 * sv_66;
      sv_74 = sv_72 + sv_73;
      sv_75 = w0_d001 * sv_71;
      sv_76 = sv_74 + sv_75;
      sv_77 = sv_76 * sv_61;
      sv_78 = sv_76 * sv_66;
      sv_79 = sv_76 * sv_71;
      sv_80 = sv_54 + sv_77;
      sv_81 = sv_55 + sv_78;
      sv_82 = sv_56 + sv_79;
      sv_83 = c0 * sv_80;
      sv_84 = c0 * sv_81;
      sv_85 = c0 * sv_82;
      sv_86 = abs (sv_17);
      sv_87 = sv_83 * sv_86;
      sv_88 = sv_84 * sv_86;
      sv_89 = sv_85 * sv_86
      in (sv_87 * weight, sv_88 * weight, sv_89 * weight))"

subsection \<open>Sections: Jacobian and Coefficient\<close>

text \<open>
  The Jacobian section at the quadrature point \<open>(iq0, iq1, iq2)\<close>: the nine
  accumulators, listed as \<open>[J_c0, ..., J_c8]\<close>. \<open>Dg\<close> is the derivative table and \<open>Vg\<close>
  the value table of the geometry, two dofs per direction: \<open>FE_TF0\<close> and \<open>FE_TF1\<close> in
  \<open>tabulate_tensor_Q1\<close>, \<open>FE_TF3\<close> and \<open>FE_TF2\<close> in \<open>tabulate_tensor_Q2\<close>.
\<close>

definition jacobian_section ::
  "real list list list list \<Rightarrow> real list list list list \<Rightarrow> real list \<Rightarrow> nat \<Rightarrow> nat \<Rightarrow> nat \<Rightarrow> real list" where
  "jacobian_section Dg Vg coordinate_dofs iq0 iq1 iq2 =
     [\<comment> \<open>\<open>J_c0\<close>\<close>
      acc3 2 (\<lambda>ic0 ic1 ic2. coordinate_dofs ! ((4 * ic0 + 2 * ic1 + ic2) * 3)
               * (Dg ! 0 ! 0 ! iq0 ! ic0 * Vg ! 0 ! 0 ! iq1 ! ic1 * Vg ! 0 ! 0 ! iq2 ! ic2)),
      \<comment> \<open>\<open>J_c1\<close>\<close>
      acc3 2 (\<lambda>ic0 ic1 ic2. coordinate_dofs ! ((4 * ic0 + 2 * ic1 + ic2) * 3)
               * (Vg ! 0 ! 0 ! iq0 ! ic0 * Dg ! 0 ! 0 ! iq1 ! ic1 * Vg ! 0 ! 0 ! iq2 ! ic2)),
      \<comment> \<open>\<open>J_c2\<close>\<close>
      acc3 2 (\<lambda>ic0 ic1 ic2. coordinate_dofs ! ((4 * ic0 + 2 * ic1 + ic2) * 3)
               * (Vg ! 0 ! 0 ! iq0 ! ic0 * Vg ! 0 ! 0 ! iq1 ! ic1 * Dg ! 0 ! 0 ! iq2 ! ic2)),
      \<comment> \<open>\<open>J_c3\<close>\<close>
      acc3 2 (\<lambda>ic0 ic1 ic2. coordinate_dofs ! ((4 * ic0 + 2 * ic1 + ic2) * 3 + 1)
               * (Dg ! 0 ! 0 ! iq0 ! ic0 * Vg ! 0 ! 0 ! iq1 ! ic1 * Vg ! 0 ! 0 ! iq2 ! ic2)),
      \<comment> \<open>\<open>J_c4\<close>\<close>
      acc3 2 (\<lambda>ic0 ic1 ic2. coordinate_dofs ! ((4 * ic0 + 2 * ic1 + ic2) * 3 + 1)
               * (Vg ! 0 ! 0 ! iq0 ! ic0 * Dg ! 0 ! 0 ! iq1 ! ic1 * Vg ! 0 ! 0 ! iq2 ! ic2)),
      \<comment> \<open>\<open>J_c5\<close>\<close>
      acc3 2 (\<lambda>ic0 ic1 ic2. coordinate_dofs ! ((4 * ic0 + 2 * ic1 + ic2) * 3 + 1)
               * (Vg ! 0 ! 0 ! iq0 ! ic0 * Vg ! 0 ! 0 ! iq1 ! ic1 * Dg ! 0 ! 0 ! iq2 ! ic2)),
      \<comment> \<open>\<open>J_c6\<close>\<close>
      acc3 2 (\<lambda>ic0 ic1 ic2. coordinate_dofs ! ((4 * ic0 + 2 * ic1 + ic2) * 3 + 2)
               * (Dg ! 0 ! 0 ! iq0 ! ic0 * Vg ! 0 ! 0 ! iq1 ! ic1 * Vg ! 0 ! 0 ! iq2 ! ic2)),
      \<comment> \<open>\<open>J_c7\<close>\<close>
      acc3 2 (\<lambda>ic0 ic1 ic2. coordinate_dofs ! ((4 * ic0 + 2 * ic1 + ic2) * 3 + 2)
               * (Vg ! 0 ! 0 ! iq0 ! ic0 * Dg ! 0 ! 0 ! iq1 ! ic1 * Vg ! 0 ! 0 ! iq2 ! ic2)),
      \<comment> \<open>\<open>J_c8\<close>\<close>
      acc3 2 (\<lambda>ic0 ic1 ic2. coordinate_dofs ! ((4 * ic0 + 2 * ic1 + ic2) * 3 + 2)
               * (Vg ! 0 ! 0 ! iq0 ! ic0 * Vg ! 0 ! 0 ! iq1 ! ic1 * Dg ! 0 ! 0 ! iq2 ! ic2))]"

text \<open>
  The Coefficient section: \<open>[w0_d100, w0_d010, w0_d001]\<close>. \<open>Dw\<close> and \<open>Vw\<close> are the
  derivative and value tables of the coefficient (\<open>FE_TF0\<close> and \<open>FE_TF1\<close> in both
  kernels), \<open>nd\<close> is its number of dofs per direction (2 or 3) and \<open>ix\<close> the flattening
  of a dof triple (\<open>4 * ic0 + 2 * ic1 + ic2\<close> or \<open>9 * ic0 + 3 * ic1 + ic2\<close>).
\<close>

definition coefficient_section ::
  "nat \<Rightarrow> (nat \<Rightarrow> nat \<Rightarrow> nat \<Rightarrow> nat) \<Rightarrow> real list list list list \<Rightarrow> real list list list list \<Rightarrow>
   real list \<Rightarrow> nat \<Rightarrow> nat \<Rightarrow> nat \<Rightarrow> real list" where
  "coefficient_section nd ix Dw Vw w iq0 iq1 iq2 =
     [\<comment> \<open>\<open>w0_d100\<close>\<close>
      acc3 nd (\<lambda>ic0 ic1 ic2. w ! ix ic0 ic1 ic2
               * (Dw ! 0 ! 0 ! iq0 ! ic0 * Vw ! 0 ! 0 ! iq1 ! ic1 * Vw ! 0 ! 0 ! iq2 ! ic2)),
      \<comment> \<open>\<open>w0_d010\<close>\<close>
      acc3 nd (\<lambda>ic0 ic1 ic2. w ! ix ic0 ic1 ic2
               * (Vw ! 0 ! 0 ! iq0 ! ic0 * Dw ! 0 ! 0 ! iq1 ! ic1 * Vw ! 0 ! 0 ! iq2 ! ic2)),
      \<comment> \<open>\<open>w0_d001\<close>\<close>
      acc3 nd (\<lambda>ic0 ic1 ic2. w ! ix ic0 ic1 ic2
               * (Vw ! 0 ! 0 ! iq0 ! ic0 * Vw ! 0 ! 0 ! iq1 ! ic1 * Dw ! 0 ! 0 ! iq2 ! ic2))]"

text \<open>
  One quadrature point: the three sections that end in \<open>(fw0, fw1, fw2)\<close>.
\<close>

definition quadrature_point ::
  "real list list list list \<Rightarrow> real list list list list \<Rightarrow> nat \<Rightarrow> (nat \<Rightarrow> nat \<Rightarrow> nat \<Rightarrow> nat) \<Rightarrow>
   real list list list list \<Rightarrow> real list list list list \<Rightarrow> real \<Rightarrow>
   real list \<Rightarrow> real list \<Rightarrow> real list \<Rightarrow> nat \<Rightarrow> nat \<Rightarrow> nat \<Rightarrow> real \<times> real \<times> real" where
  "quadrature_point Dg Vg nd ix Dw Vw weight coordinate_dofs w c iq0 iq1 iq2 =
     (let J = jacobian_section Dg Vg coordinate_dofs iq0 iq1 iq2;
          g = coefficient_section nd ix Dw Vw w iq0 iq1 iq2
      in intermediates (c ! 0) (J ! 0) (J ! 1) (J ! 2) (J ! 3) (J ! 4) (J ! 5) (J ! 6) (J ! 7) (J ! 8)
           (g ! 0) (g ! 1) (g ! 2) weight)"

subsection \<open>Section: Tensor Computation\<close>

text \<open>
  The three \<open>A[...] += ...\<close> statements for every triple of test-function indices, at
  one quadrature point.
\<close>

definition tensor_computation ::
  "nat \<Rightarrow> (nat \<Rightarrow> nat \<Rightarrow> nat \<Rightarrow> nat) \<Rightarrow> real list list list list \<Rightarrow> real list list list list \<Rightarrow>
   real \<times> real \<times> real \<Rightarrow> nat \<Rightarrow> nat \<Rightarrow> nat \<Rightarrow> real list \<Rightarrow> real list" where
  "tensor_computation nd ix Dw Vw fw iq0 iq1 iq2 =
     (case fw of (fw0, fw1, fw2) \<Rightarrow>
      loop3 nd (\<lambda>i0 i1 i2 A.
        let A1 = A[ix i0 i1 i2 := A ! ix i0 i1 i2
                   + fw0 * (Dw ! 0 ! 0 ! iq0 ! i0 * Vw ! 0 ! 0 ! iq1 ! i1 * Vw ! 0 ! 0 ! iq2 ! i2)];
            A2 = A1[ix i0 i1 i2 := A1 ! ix i0 i1 i2
                   + fw1 * (Vw ! 0 ! 0 ! iq0 ! i0 * Dw ! 0 ! 0 ! iq1 ! i1 * Vw ! 0 ! 0 ! iq2 ! i2)];
            A3 = A2[ix i0 i1 i2 := A2 ! ix i0 i1 i2
                   + fw2 * (Vw ! 0 ! 0 ! iq0 ! i0 * Vw ! 0 ! 0 ! iq1 ! i1 * Dw ! 0 ! 0 ! iq2 ! i2)]
        in A3))"

subsection \<open>The quadrature loop\<close>

text \<open>
  The triple loop over the quadrature points, \<open>nq\<close> per direction, starting from the
  contents \<open>A\<close> of the cell-local tensor. \<open>weights\<close> gives the weight of a point.
\<close>

definition quadrature_loop ::
  "nat \<Rightarrow> (nat \<Rightarrow> nat \<Rightarrow> nat \<Rightarrow> real) \<Rightarrow> real list list list list \<Rightarrow> real list list list list \<Rightarrow>
   nat \<Rightarrow> (nat \<Rightarrow> nat \<Rightarrow> nat \<Rightarrow> nat) \<Rightarrow> real list list list list \<Rightarrow> real list list list list \<Rightarrow>
   real list \<Rightarrow> real list \<Rightarrow> real list \<Rightarrow> real list \<Rightarrow> real list" where
  "quadrature_loop nq weights Dg Vg nd ix Dw Vw coordinate_dofs w c =
     loop3 nq (\<lambda>iq0 iq1 iq2.
       tensor_computation nd ix Dw Vw
         (quadrature_point Dg Vg nd ix Dw Vw (weights iq0 iq1 iq2) coordinate_dofs w c iq0 iq1 iq2)
         iq0 iq1 iq2)"

subsection \<open>Gather and scatter\<close>

text \<open>\<open>w[i] = wglobal[dofmap[id * space_dim + i]]\<close> for \<open>i < space_dim\<close>.\<close>

definition gather_w :: "nat \<Rightarrow> real list \<Rightarrow> nat list \<Rightarrow> nat \<Rightarrow> real list" where
  "gather_w space_dim wglobal dofmap cell_id =
     map (\<lambda>i. wglobal ! (dofmap ! (cell_id * space_dim + i))) [0..<space_dim]"

text \<open>The 24 entries of \<open>coordinate_dofs\<close>, three per corner of the cell.\<close>

definition gather_coordinate_dofs :: "real list \<Rightarrow> nat list \<Rightarrow> nat \<Rightarrow> real list" where
  "gather_coordinate_dofs coordinate_dofs_global geom_dofmap cell_id =
     concat (map (\<lambda>i. [coordinate_dofs_global ! (geom_dofmap ! (cell_id * 8 + i) * 3),
                        coordinate_dofs_global ! (geom_dofmap ! (cell_id * 8 + i) * 3 + 1),
                        coordinate_dofs_global ! (geom_dofmap ! (cell_id * 8 + i) * 3 + 2)])
             [0..<8])"

text \<open>\<open>atomicAdd(&Aglobal[d], v)\<close>: one indivisible read-modify-write of one entry.\<close>

definition atomicAdd :: "real list \<Rightarrow> nat \<Rightarrow> real \<Rightarrow> real list" where
  "atomicAdd Aglobal d v = Aglobal[d := Aglobal ! d + v]"

text \<open>\<open>for (i = 0; i < space_dim; ++i) atomicAdd(&Aglobal[dofmap[id * space_dim + i]], A[i]);\<close>\<close>

definition scatter :: "nat \<Rightarrow> nat list \<Rightarrow> nat \<Rightarrow> real list \<Rightarrow> real list \<Rightarrow> real list" where
  "scatter space_dim dofmap cell_id A =
     fold (\<lambda>i Aglobal. atomicAdd Aglobal (dofmap ! (cell_id * space_dim + i)) (A ! i))
       [0..<space_dim]"

subsection \<open>The two kernels\<close>

text \<open>
  The cell-local tensor of \<open>tabulate_tensor_Q1\<close> after its quadrature loop. The source
  declares \<open>double A[8];\<close> and never initialises it, so the contents the loop starts
  from are whatever the thread's stack holds: the argument \<open>A_uninit\<close>.
\<close>

definition cell_tensor_Q1 ::
  "real list \<Rightarrow> real list \<Rightarrow> real list \<Rightarrow> real list \<Rightarrow> nat list \<Rightarrow> nat list \<Rightarrow> nat \<Rightarrow> real list" where
  "cell_tensor_Q1 A_uninit wglobal c coordinate_dofs_global geom_dofmap dofmap cell_id =
     (let w = gather_w 8 wglobal dofmap cell_id;
          coordinate_dofs = gather_coordinate_dofs coordinate_dofs_global geom_dofmap cell_id
      in quadrature_loop 3 (\<lambda>iq0 iq1 iq2. weights_461 ! (9 * iq0 + 3 * iq1 + iq2))
           Q1_FE_TF0 Q1_FE_TF1 2 (\<lambda>i0 i1 i2. 4 * i0 + 2 * i1 + i2) Q1_FE_TF0 Q1_FE_TF1
           coordinate_dofs w c A_uninit)"

text \<open>
  \<open>tabulate_tensor_Q1\<close> for the thread with index \<open>id = blockIdx.x * blockDim.x + threadIdx.x\<close>
  (\<open>cell_id\<close> here: \<open>id\<close> is a constant of HOL).
\<close>

definition tabulate_tensor_Q1 ::
  "real list \<Rightarrow> nat \<Rightarrow> real list \<Rightarrow> real list \<Rightarrow> real list \<Rightarrow> real list \<Rightarrow> nat list \<Rightarrow> nat list \<Rightarrow>
   nat \<Rightarrow> real list" where
  "tabulate_tensor_Q1 A_uninit N Aglobal wglobal c coordinate_dofs_global geom_dofmap dofmap cell_id =
     (if cell_id < N then
        scatter 8 dofmap cell_id
          (cell_tensor_Q1 A_uninit wglobal c coordinate_dofs_global geom_dofmap dofmap cell_id)
          Aglobal
      else Aglobal)"

text \<open>
  The cell-local tensor of \<open>tabulate_tensor_Q2\<close>: \<open>A\<close> is set to zero by the loop
  \<open>for (i = 0; i < space_dim; ++i) A[i] = 0.0;\<close> before the quadrature loop.
\<close>

definition cell_tensor_Q2 ::
  "real list \<Rightarrow> real list \<Rightarrow> real list \<Rightarrow> nat list \<Rightarrow> nat list \<Rightarrow> nat \<Rightarrow> real list" where
  "cell_tensor_Q2 wglobal c coordinate_dofs_global geom_dofmap dofmap cell_id =
     (let space_dim = 27;
          w = gather_w space_dim wglobal dofmap cell_id;
          coordinate_dofs = gather_coordinate_dofs coordinate_dofs_global geom_dofmap cell_id;
          A = map (\<lambda>i. 0.0) [0..<space_dim]
      in quadrature_loop 4 (\<lambda>iq0 iq1 iq2. weights_be1 ! (16 * iq0 + 4 * iq1 + iq2))
           Q2_FE_TF3 Q2_FE_TF2 3 (\<lambda>i0 i1 i2. 9 * i0 + 3 * i1 + i2) Q2_FE_TF0 Q2_FE_TF1
           coordinate_dofs w c A)"

definition tabulate_tensor_Q2 ::
  "nat \<Rightarrow> real list \<Rightarrow> real list \<Rightarrow> real list \<Rightarrow> real list \<Rightarrow> nat list \<Rightarrow> nat list \<Rightarrow>
   nat \<Rightarrow> real list" where
  "tabulate_tensor_Q2 N Aglobal wglobal c coordinate_dofs_global geom_dofmap dofmap cell_id =
     (if cell_id < N then
        scatter 27 dofmap cell_id
          (cell_tensor_Q2 wglobal c coordinate_dofs_global geom_dofmap dofmap cell_id)
          Aglobal
      else Aglobal)"

subsection \<open>Kernel launch\<close>

text \<open>
  \<open>hipLaunchKernelGGL(kernel, grid_size, block_size, ...)\<close>, with the threads run one
  after the other in the order of their index \<open>blockIdx.x * blockDim.x + threadIdx.x\<close>.
  \<open>thread\<close> is the kernel with its arguments, as a function of that index and of the
  shared output array. The other schedules are the subject of \<open>run_schedule\<close> below.
\<close>

definition launch_sequential ::
  "nat \<Rightarrow> nat \<Rightarrow> (nat \<Rightarrow> real list \<Rightarrow> real list) \<Rightarrow> real list \<Rightarrow> real list" where
  "launch_sequential grid_size block_size thread =
     fold (\<lambda>blockIdx. fold (\<lambda>threadIdx. thread (blockIdx * block_size + threadIdx))
                          [0..<block_size])
       [0..<grid_size]"

subsection \<open>The operator facade \<open>MatFreeLaplace\<close>\<close>

text \<open>
  The member \<open>tabulate_tensor\<close> is a function pointer, declared without an
  initialiser. The constructor assigns it in the cases 1 and 2 of its \<open>switch\<close>; the
  \<open>default\<close> case is \<open>// TODO throw error\<close> followed by \<open>break\<close>, so for any other
  degree the constructor returns with the member as the storage of the object held it
  before the construction: \<open>tabulate_tensor_uninit\<close>. That content is the address of
  one of the two kernels (the storage of an operator that has gone out of scope, used
  again), or the address of no kernel: \<open>Kernel_unassigned\<close>. The class has no member
  for the degree: the pointer is all that tells the operators of different degrees
  apart.
\<close>

datatype kernel_pointer = Kernel_Q1 | Kernel_Q2 | Kernel_unassigned

record MatFreeLaplace =
  op_num_cells :: nat
  op_constants :: "real list"
  op_x :: "real list"
  op_x_dofmap :: "nat list"
  op_dofmap :: "nat list"
  op_tabulate_tensor :: kernel_pointer

definition MatFreeLaplace_new ::
  "kernel_pointer \<Rightarrow> int \<Rightarrow> nat \<Rightarrow> real list \<Rightarrow> real list \<Rightarrow> nat list \<Rightarrow> nat list \<Rightarrow>
   MatFreeLaplace" where
  "MatFreeLaplace_new tabulate_tensor_uninit degree num_cells constants x x_dofmap dofmap =
     \<lparr>op_num_cells = num_cells, op_constants = constants, op_x = x,
      op_x_dofmap = x_dofmap, op_dofmap = dofmap,
      op_tabulate_tensor =
        (if degree = 1 then Kernel_Q1
         else if degree = 2 then Kernel_Q2
         else tabulate_tensor_uninit)\<rparr>"

text \<open>
  \<open>hipGetLastError()\<close> after the launch is an input from the runtime.

  Modelled from the spec: the macro \<open>err_check\<close> is not part of the sources; the spec
  says that \<open>apply\<close> propagates a kernel-launch failure as an unrecoverable error.
\<close>

datatype hipError_t = hipSuccess | hipErrorLaunch

datatype apply_error = Launch_failed

text \<open>
  \<open>operator()(in, out)\<close>. The result is the state after the call: the operator object,
  the input vector and the output vector. \<open>A_uninit cell_id\<close> is the content of the
  uninitialised buffer \<open>A\<close> of the degree-1 kernel in thread \<open>cell_id\<close>. The launch is
  unconditional. Through a pointer that holds the address of no kernel the runtime
  has no kernel of this program to run: no thread writes the output, and the outcome
  of the call is what \<open>hipGetLastError()\<close> reports.
\<close>

definition operator_call ::
  "MatFreeLaplace \<Rightarrow> (nat \<Rightarrow> real list) \<Rightarrow> hipError_t \<Rightarrow> real list \<Rightarrow> real list \<Rightarrow>
   apply_error + (MatFreeLaplace \<times> real list \<times> real list)" where
  "operator_call op A_uninit last_error inp out =
     (let wglobal = inp;
          Aglobal = out;
          block_size = 256;
          grid_size = (op_num_cells op + block_size - 1) div block_size
      in case op_tabulate_tensor op of
           Kernel_unassigned \<Rightarrow>
             if last_error = hipSuccess then Inr (op, wglobal, Aglobal) else Inl Launch_failed
         | Kernel_Q1 \<Rightarrow>
             if last_error = hipSuccess then
               Inr (op, wglobal,
                    launch_sequential grid_size block_size
                      (\<lambda>cell_id Ag. tabulate_tensor_Q1 (A_uninit cell_id) (op_num_cells op) Ag wglobal
                          (op_constants op) (op_x op) (op_x_dofmap op) (op_dofmap op) cell_id)
                      Aglobal)
             else Inl Launch_failed
         | Kernel_Q2 \<Rightarrow>
             if last_error = hipSuccess then
               Inr (op, wglobal,
                    launch_sequential grid_size block_size
                      (\<lambda>cell_id Ag. tabulate_tensor_Q2 (op_num_cells op) Ag wglobal
                          (op_constants op) (op_x op) (op_x_dofmap op) (op_dofmap op) cell_id)
                      Aglobal)
             else Inl Launch_failed)"

text \<open>The output vector of a call, when the call returns one.\<close>

definition output_of :: "apply_error + (MatFreeLaplace \<times> real list \<times> real list) \<Rightarrow> real list option" where
  "output_of r = (case r of Inl e \<Rightarrow> None | Inr (op, inp, out) \<Rightarrow> Some out)"

definition space_dim_of :: "kernel_pointer \<Rightarrow> nat" where
  "space_dim_of k = (case k of Kernel_Q1 \<Rightarrow> 8 | Kernel_Q2 \<Rightarrow> 27 | Kernel_unassigned \<Rightarrow> 0)"

subsection \<open>Schedules of the atomic additions\<close>

text \<open>
  A thread touches the shared output array only through the \<open>atomicAdd\<close> calls of its
  scatter loop, and reads nothing that another thread writes. Its effect is the list
  of its additions \<open>(index, value)\<close>, in program order.
\<close>

definition cell_events :: "nat \<Rightarrow> nat list \<Rightarrow> nat \<Rightarrow> real list \<Rightarrow> (nat \<times> real) list" where
  "cell_events space_dim dofmap cell_id A =
     map (\<lambda>i. (dofmap ! (cell_id * space_dim + i), A ! i)) [0..<space_dim]"

definition thread_events ::
  "MatFreeLaplace \<Rightarrow> (nat \<Rightarrow> real list) \<Rightarrow> real list \<Rightarrow> nat \<Rightarrow> (nat \<times> real) list" where
  "thread_events op A_uninit wglobal cell_id =
     (if cell_id < op_num_cells op then
        (case op_tabulate_tensor op of
           Kernel_Q1 \<Rightarrow>
             cell_events 8 (op_dofmap op) cell_id
               (cell_tensor_Q1 (A_uninit cell_id) wglobal (op_constants op) (op_x op)
                  (op_x_dofmap op) (op_dofmap op) cell_id)
         | Kernel_Q2 \<Rightarrow>
             cell_events 27 (op_dofmap op) cell_id
               (cell_tensor_Q2 wglobal (op_constants op) (op_x op)
                  (op_x_dofmap op) (op_dofmap op) cell_id)
         | Kernel_unassigned \<Rightarrow> [])
      else [])"

text \<open>
  A parallel execution is a schedule: the list of the threads that perform their next
  addition, one at a time. \<open>run_schedule\<close> returns what every thread still has to do
  and the output array. A step of a thread that has finished, or of a thread that
  does not exist, does nothing.
\<close>

fun run_schedule ::
  "nat list \<Rightarrow> (nat \<times> real) list list \<Rightarrow> real list \<Rightarrow> (nat \<times> real) list list \<times> real list" where
  "run_schedule [] threads Aglobal = (threads, Aglobal)"
| "run_schedule (t # sched) threads Aglobal =
     (if t < length threads then
        (case threads ! t of
           [] \<Rightarrow> run_schedule sched threads Aglobal
         | e # rest \<Rightarrow> run_schedule sched (threads[t := rest]) (atomicAdd Aglobal (fst e) (snd e)))
      else run_schedule sched threads Aglobal)"

definition all_finished :: "(nat \<times> real) list list \<Rightarrow> bool" where
  "all_finished threads = list_all (\<lambda>t. t = []) threads"

section \<open>GPU telemetry: the ROCm SMI wrapper\<close>

text \<open>
  The file uses \<open>rsmi_memory_type_t\<close> and calls \<open>rsmi_num_monitor_devices\<close> outside
  every \<open>#ifdef ROCM_SMI\<close>, so it compiles only with \<open>ROCM_SMI\<close> defined; the model
  takes the branches under \<open>#ifdef ROCM_SMI\<close>.

  Status codes and memory types are declared in \<open>rocm_smi.h\<close>, a header of the
  library: \<open>rsmi_status_t\<close> is an enumeration of 32-bit codes (up to \<open>0xFFFFFFFF\<close>),
  \<open>RSMI_STATUS_SUCCESS\<close> is the code 0, and the memory types from
  \<open>RSMI_MEM_TYPE_FIRST\<close> to \<open>RSMI_MEM_TYPE_LAST\<close> are the three keys of
  \<open>kDevMemoryTypeNameMap\<close>.
\<close>

type_synonym rsmi_status_t = "32 word"

definition RSMI_STATUS_SUCCESS :: rsmi_status_t where
  "RSMI_STATUS_SUCCESS = 0"

datatype rsmi_memory_type_t = RSMI_MEM_TYPE_VRAM | RSMI_MEM_TYPE_VIS_VRAM | RSMI_MEM_TYPE_GTT

definition memory_types :: "rsmi_memory_type_t list" where
  "memory_types = [RSMI_MEM_TYPE_VRAM, RSMI_MEM_TYPE_VIS_VRAM, RSMI_MEM_TYPE_GTT]"

fun kDevMemoryTypeNameMap :: "rsmi_memory_type_t \<Rightarrow> string" where
  "kDevMemoryTypeNameMap RSMI_MEM_TYPE_VRAM = ''VRAM memory''"
| "kDevMemoryTypeNameMap RSMI_MEM_TYPE_VIS_VRAM = ''Visible VRAM memory''"
| "kDevMemoryTypeNameMap RSMI_MEM_TYPE_GTT = ''GTT memory''"

text \<open>The calls into the library, and the answers the library gives (the environment).\<close>

datatype rsmi_call =
    Rsmi_init
  | Rsmi_shut_down
  | Rsmi_num_monitor_devices
  | Rsmi_dev_memory_busy_percent_get nat
  | Rsmi_dev_memory_usage_get nat rsmi_memory_type_t
  | Rsmi_dev_memory_total_get nat rsmi_memory_type_t

record rsmi_library =
  lib_init :: rsmi_status_t
  lib_shut_down :: rsmi_status_t
  lib_num_monitor_devices :: nat
  lib_memory_busy_percent :: "nat \<Rightarrow> rsmi_status_t \<times> nat"
  lib_memory_usage :: "nat \<Rightarrow> rsmi_memory_type_t \<Rightarrow> rsmi_status_t \<times> nat"
  lib_memory_total :: "nat \<Rightarrow> rsmi_memory_type_t \<Rightarrow> rsmi_status_t \<times> nat"

text \<open>
  What is written to \<open>std::cout\<close>, one item per \<open><<\<close>. A \<open>float\<close> is a number, or the
  \<open>inf\<close> or \<open>nan\<close> of a division by zero.
\<close>

datatype out_item = Text string | SInt int | UInt nat | Float real | Float_inf | Float_nan

text \<open>
  The state: the global flag \<open>initialised\<close>, the calls made into the library so far,
  in order, and the output so far.
\<close>

record smi_state =
  initialised :: bool
  library_calls :: "rsmi_call list"
  cout :: "out_item list"

definition initial_state :: smi_state where
  "initial_state = \<lparr>initialised = False, library_calls = [], cout = []\<rparr>"

definition call_library :: "rsmi_call \<Rightarrow> smi_state \<Rightarrow> smi_state" where
  "call_library c s = s\<lparr>library_calls := library_calls s @ [c]\<rparr>"

definition write_cout :: "out_item list \<Rightarrow> smi_state \<Rightarrow> smi_state" where
  "write_cout items s = s\<lparr>cout := cout s @ items\<rparr>"

text \<open>
  \<open>initialise_rocm_smi\<close> and \<open>shutdown_rocm_smi\<close> return the status in an \<open>int\<close>: the
  32-bit code read as a signed number.
\<close>

definition initialise_rocm_smi :: "rsmi_library \<Rightarrow> smi_state \<Rightarrow> int \<times> smi_state" where
  "initialise_rocm_smi lib s =
     (let ret = lib_init lib;
          s1 = call_library Rsmi_init s;
          s2 = (if ret = RSMI_STATUS_SUCCESS then s1\<lparr>initialised := True\<rparr> else s1);
          return_code = sint ret
      in (return_code, s2))"

definition shutdown_rocm_smi :: "rsmi_library \<Rightarrow> smi_state \<Rightarrow> int \<times> smi_state" where
  "shutdown_rocm_smi lib s =
     (if initialised s then
        (let ret = lib_shut_down lib;
             return_code = sint ret
         in (return_code, call_library Rsmi_shut_down s))
      else (0, s))"

definition num_monitored_devices :: "rsmi_library \<Rightarrow> smi_state \<Rightarrow> nat \<times> smi_state" where
  "num_monitored_devices lib s =
     (if initialised s then (lib_num_monitor_devices lib, call_library Rsmi_num_monitor_devices s)
      else (0, s))"

text \<open>
  The device loop of \<open>print_amd_gpu_memory_busy\<close> from device \<open>i\<close> on. The loop
  condition calls \<open>num_monitored_devices()\<close> before every iteration; \<open>return\<close> on a
  failed query leaves the loop and the function.
\<close>

function busy_loop :: "rsmi_library \<Rightarrow> string \<Rightarrow> int \<Rightarrow> nat \<Rightarrow> smi_state \<Rightarrow> smi_state" where
  "busy_loop lib text rank i s =
     (if i < fst (num_monitored_devices lib s) then
        (let s1 = snd (num_monitored_devices lib s);
             err = fst (lib_memory_busy_percent lib i);
             mem_busy_percent = snd (lib_memory_busy_percent lib i);
             s2 = call_library (Rsmi_dev_memory_busy_percent_get i) s1
         in if err \<noteq> RSMI_STATUS_SUCCESS then s2
            else busy_loop lib text rank (i + 1)
                   (write_cout [Text text, Text '' MPI Rank '', SInt rank, Text '' GPU '', UInt i,
                           Text '' Memory Busy %: '', UInt mem_busy_percent, Text ''\<newline>''] s2))
      else snd (num_monitored_devices lib s))"
  by pat_completeness auto
termination
  by (relation "measure (\<lambda>(lib, text, rank, i, s). lib_num_monitor_devices lib - i)")
     (auto simp: num_monitored_devices_def split: if_splits)

definition print_amd_gpu_memory_busy :: "rsmi_library \<Rightarrow> string \<Rightarrow> int \<Rightarrow> smi_state \<Rightarrow> smi_state" where
  "print_amd_gpu_memory_busy lib text rank s =
     (if initialised s then busy_loop lib text rank 0 s
      else write_cout [Text ''ROCm SMI not initialised\<newline>''] s)"

text \<open>
  The loop over the memory types for one device, with the query \<open>get\<close> and the call
  it makes. The result says whether the loop ran to its end; \<open>False\<close> is the
  \<open>return\<close> on a failed query.
\<close>

fun memory_type_loop ::
  "(rsmi_memory_type_t \<Rightarrow> rsmi_status_t \<times> nat) \<Rightarrow> (rsmi_memory_type_t \<Rightarrow> rsmi_call) \<Rightarrow>
   rsmi_memory_type_t list \<Rightarrow> smi_state \<Rightarrow> bool \<times> smi_state" where
  "memory_type_loop get call [] s = (True, s)"
| "memory_type_loop get call (mem_type # rest) s =
     (let err = fst (get mem_type);
          amount = snd (get mem_type);
          s1 = call_library (call mem_type) s
      in if err \<noteq> RSMI_STATUS_SUCCESS then (False, s1)
         else memory_type_loop get call rest
                (write_cout [Text '' '', Text (kDevMemoryTypeNameMap mem_type), Text '' '', UInt amount] s1))"

text \<open>
  The device loop shared by \<open>print_amd_gpu_memory_used\<close> (\<open>label = '' memory used:''\<close>,
  query \<open>rsmi_dev_memory_usage_get\<close>) and \<open>print_amd_gpu_memory_total\<close>
  (\<open>label = '' total memory:''\<close>, query \<open>rsmi_dev_memory_total_get\<close>), which differ in
  nothing else.
\<close>

function memory_loop ::
  "rsmi_library \<Rightarrow> string \<Rightarrow> (nat \<Rightarrow> rsmi_memory_type_t \<Rightarrow> rsmi_status_t \<times> nat) \<Rightarrow>
   (nat \<Rightarrow> rsmi_memory_type_t \<Rightarrow> rsmi_call) \<Rightarrow> string \<Rightarrow> int \<Rightarrow> nat \<Rightarrow> smi_state \<Rightarrow> smi_state" where
  "memory_loop lib label get call text rank i s =
     (if i < fst (num_monitored_devices lib s) then
        (let s1 = snd (num_monitored_devices lib s);
             s2 = write_cout [Text text, Text '' MPI Rank '', SInt rank, Text '' GPU '', UInt i,
                         Text label] s1;
             r = memory_type_loop (get i) (call i) memory_types s2
         in if \<not> fst r then snd r
            else memory_loop lib label get call text rank (i + 1) (write_cout [Text ''\<newline>''] (snd r)))
      else snd (num_monitored_devices lib s))"
  by pat_completeness auto
termination
  by (relation "measure (\<lambda>(lib, label, get, call, text, rank, i, s). lib_num_monitor_devices lib - i)")
     (auto simp: num_monitored_devices_def split: if_splits)

definition print_amd_gpu_memory_used :: "rsmi_library \<Rightarrow> string \<Rightarrow> int \<Rightarrow> smi_state \<Rightarrow> smi_state" where
  "print_amd_gpu_memory_used lib text rank s =
     (if initialised s then
        memory_loop lib '' memory used:'' (lib_memory_usage lib) Rsmi_dev_memory_usage_get text rank 0 s
      else write_cout [Text ''ROCm SMI not initialised\<newline>''] s)"

definition print_amd_gpu_memory_total :: "rsmi_library \<Rightarrow> string \<Rightarrow> int \<Rightarrow> smi_state \<Rightarrow> smi_state" where
  "print_amd_gpu_memory_total lib text rank s =
     (if initialised s then
        memory_loop lib '' total memory:'' (lib_memory_total lib) Rsmi_dev_memory_total_get text rank 0 s
      else write_cout [Text ''ROCm SMI not initialised\<newline>''] s)"

text \<open>
  \<open>print_amd_gpu_memory_percentage_used\<close>: two queries per memory type, and the
  quotient \<open>(static_cast<float>(usage) * 100) / total\<close> printed as a \<open>float\<close>. The
  quotient is taken in exact arithmetic; a division by zero gives \<open>nan\<close> for
  \<open>0 / 0\<close> and \<open>inf\<close> otherwise.
\<close>

fun percentage_type_loop ::
  "rsmi_library \<Rightarrow> nat \<Rightarrow> rsmi_memory_type_t list \<Rightarrow> smi_state \<Rightarrow> bool \<times> smi_state" where
  "percentage_type_loop lib i [] s = (True, s)"
| "percentage_type_loop lib i (mem_type # rest) s =
     (let s1 = call_library (Rsmi_dev_memory_total_get i mem_type) s;
          total = snd (lib_memory_total lib i mem_type)
      in if fst (lib_memory_total lib i mem_type) \<noteq> RSMI_STATUS_SUCCESS then (False, s1)
         else
           (let s2 = call_library (Rsmi_dev_memory_usage_get i mem_type) s1;
                usage = snd (lib_memory_usage lib i mem_type)
            in if fst (lib_memory_usage lib i mem_type) \<noteq> RSMI_STATUS_SUCCESS then (False, s2)
               else percentage_type_loop lib i rest
                      (write_cout [Text '' '', Text (kDevMemoryTypeNameMap mem_type), Text '' '',
                              (if total = 0 then (if usage = 0 then Float_nan else Float_inf)
                               else Float ((real usage * 100) / real total))] s2)))"

function percentage_loop :: "rsmi_library \<Rightarrow> string \<Rightarrow> int \<Rightarrow> nat \<Rightarrow> smi_state \<Rightarrow> smi_state" where
  "percentage_loop lib text rank i s =
     (if i < fst (num_monitored_devices lib s) then
        (let s1 = snd (num_monitored_devices lib s);
             s2 = write_cout [Text text, Text '' MPI Rank '', SInt rank, Text '' GPU '', UInt i,
                         Text ''  % memory used:''] s1;
             r = percentage_type_loop lib i memory_types s2
         in if \<not> fst r then snd r
            else percentage_loop lib text rank (i + 1) (write_cout [Text ''\<newline>''] (snd r)))
      else snd (num_monitored_devices lib s))"
  by pat_completeness auto
termination
  by (relation "measure (\<lambda>(lib, text, rank, i, s). lib_num_monitor_devices lib - i)")
     (auto simp: num_monitored_devices_def split: if_splits)

definition print_amd_gpu_memory_percentage_used ::
  "rsmi_library \<Rightarrow> string \<Rightarrow> int \<Rightarrow> smi_state \<Rightarrow> smi_state" where
  "print_amd_gpu_memory_percentage_used lib text rank s =
     (if initialised s then percentage_loop lib text rank 0 s
      else write_cout [Text ''ROCm SMI not initialised\<newline>''] s)"

text \<open>A program's use of the module: a sequence of calls of its functions.\<close>

datatype telemetry_call =
    Initialise
  | Shutdown
  | Num_monitored_devices
  | Print_memory_busy
  | Print_memory_used
  | Print_memory_total
  | Print_memory_percentage_used

fun run_call :: "rsmi_library \<Rightarrow> string \<Rightarrow> int \<Rightarrow> telemetry_call \<Rightarrow> smi_state \<Rightarrow> smi_state" where
  "run_call lib text rank Initialise s = snd (initialise_rocm_smi lib s)"
| "run_call lib text rank Shutdown s = snd (shutdown_rocm_smi lib s)"
| "run_call lib text rank Num_monitored_devices s = snd (num_monitored_devices lib s)"
| "run_call lib text rank Print_memory_busy s = print_amd_gpu_memory_busy lib text rank s"
| "run_call lib text rank Print_memory_used s = print_amd_gpu_memory_used lib text rank s"
| "run_call lib text rank Print_memory_total s = print_amd_gpu_memory_total lib text rank s"
| "run_call lib text rank Print_memory_percentage_used s =
     print_amd_gpu_memory_percentage_used lib text rank s"

definition run_calls :: "rsmi_library \<Rightarrow> string \<Rightarrow> int \<Rightarrow> telemetry_call list \<Rightarrow> smi_state \<Rightarrow> smi_state" where
  "run_calls lib text rank calls = fold (run_call lib text rank) calls"

text \<open>
  The library's lifetime along a list of calls into it: \<open>rsmi_init\<close> opens it (when
  it succeeds, which the flag records), \<open>rsmi_shut_down\<close> closes it. A query is any
  other call. \<open>queries_after_shut_down\<close> lists the queries made after a
  \<open>rsmi_shut_down\<close> with no \<open>rsmi_init\<close> in between.
\<close>

fun is_query :: "rsmi_call \<Rightarrow> bool" where
  "is_query Rsmi_init = False"
| "is_query Rsmi_shut_down = False"
| "is_query c = True"

fun queries_after_shut_down :: "bool \<Rightarrow> rsmi_call list \<Rightarrow> rsmi_call list" where
  "queries_after_shut_down down [] = []"
| "queries_after_shut_down down (Rsmi_init # cs) = queries_after_shut_down False cs"
| "queries_after_shut_down down (Rsmi_shut_down # cs) = queries_after_shut_down True cs"
| "queries_after_shut_down down (c # cs) =
     (if down then c # queries_after_shut_down down cs else queries_after_shut_down down cs)"

section \<open>Notions used in the statements\<close>

subsection \<open>The flux of one quadrature point, in matrix terms\<close>

text \<open>
  The Jacobian is \<open>[J_c0, ..., J_c8]\<close>, row by row: row \<open>i\<close> holds the derivatives of the
  physical coordinate \<open>i\<close> in the three reference directions.
\<close>

definition jacobian_det :: "real list \<Rightarrow> real" where
  "jacobian_det J =
     J ! 0 * (J ! 4 * J ! 8 - J ! 5 * J ! 7)
     - J ! 1 * (J ! 3 * J ! 8 - J ! 5 * J ! 6)
     + J ! 2 * (J ! 3 * J ! 7 - J ! 4 * J ! 6)"

text \<open>The inverse Jacobian \<open>K\<close>, row by row: cofactors divided by the signed determinant.\<close>

definition inverse_jacobian :: "real list \<Rightarrow> real list" where
  "inverse_jacobian J =
     map (\<lambda>cofactor. cofactor / jacobian_det J)
       [J ! 4 * J ! 8 - J ! 5 * J ! 7, J ! 2 * J ! 7 - J ! 1 * J ! 8, J ! 1 * J ! 5 - J ! 2 * J ! 4,
        J ! 5 * J ! 6 - J ! 3 * J ! 8, J ! 0 * J ! 8 - J ! 2 * J ! 6, J ! 2 * J ! 3 - J ! 0 * J ! 5,
        J ! 3 * J ! 7 - J ! 4 * J ! 6, J ! 1 * J ! 6 - J ! 0 * J ! 7, J ! 0 * J ! 4 - J ! 1 * J ! 3]"

text \<open>The product of two 3 by 3 matrices given row by row, and the identity.\<close>

definition matrix_product :: "real list \<Rightarrow> real list \<Rightarrow> real list" where
  "matrix_product A B =
     concat (map (\<lambda>i. map (\<lambda>j. A ! (3 * i) * B ! j + A ! (3 * i + 1) * B ! (3 + j)
                                 + A ! (3 * i + 2) * B ! (6 + j)) [0, 1, 2]) [0, 1, 2])"

definition identity_matrix :: "real list" where
  "identity_matrix = [1, 0, 0, 0, 1, 0, 0, 0, 1]"

text \<open>
  The physical gradient: the reference gradient \<open>g\<close> contracted with the inverse
  Jacobian, \<open>p j = g 0 * K 0 j + g 1 * K 1 j + g 2 * K 2 j\<close>.
\<close>

definition physical_gradient :: "real list \<Rightarrow> real list \<Rightarrow> real list" where
  "physical_gradient J g =
     (let K = inverse_jacobian J
      in map (\<lambda>j. g ! 0 * K ! j + g ! 1 * K ! (3 + j) + g ! 2 * K ! (6 + j)) [0, 1, 2])"

text \<open>
  The weighted flux as the specification words it: each physical gradient component
  times \<open>c[0]\<close>, the absolute value of the determinant and the weight.
\<close>

definition specified_flux :: "real \<Rightarrow> real list \<Rightarrow> real list \<Rightarrow> real \<Rightarrow> real \<times> real \<times> real" where
  "specified_flux c0 J g weight =
     (let p = physical_gradient J g;
          s = c0 * \<bar>jacobian_det J\<bar> * weight
      in (p ! 0 * s, p ! 1 * s, p ! 2 * s))"

text \<open>
  The weighted flux with the physical gradient contracted once more with the inverse
  Jacobian: the component for the reference direction \<open>d\<close> is
  \<open>K d 0 * p 0 + K d 1 * p 1 + K d 2 * p 2\<close>, times the same three factors.
\<close>

definition pulled_back_flux :: "real \<Rightarrow> real list \<Rightarrow> real list \<Rightarrow> real \<Rightarrow> real \<times> real \<times> real" where
  "pulled_back_flux c0 J g weight =
     (let K = inverse_jacobian J;
          p = physical_gradient J g;
          s = c0 * \<bar>jacobian_det J\<bar> * weight
      in ((K ! 0 * p ! 0 + K ! 1 * p ! 1 + K ! 2 * p ! 2) * s,
          (K ! 3 * p ! 0 + K ! 4 * p ! 1 + K ! 5 * p ! 2) * s,
          (K ! 6 * p ! 0 + K ! 7 * p ! 1 + K ! 8 * p ! 2) * s))"

subsection \<open>Meshes of one cell\<close>

text \<open>
  A hexahedron with its corners at the corners of a cube of side \<open>h\<close>: corner
  \<open>4 * ic0 + 2 * ic1 + ic2\<close> is the point \<open>(h * ic0, h * ic1, h * ic2)\<close>.
\<close>

definition cube_x :: "real \<Rightarrow> real list" where
  "cube_x h = [0, 0, 0,  0, 0, h,  0, h, 0,  0, h, h,  h, 0, 0,  h, 0, h,  h, h, 0,  h, h, h]"

text \<open>
  Two such unit cubes side by side in the first direction, with degree-1 dofs: twelve
  nodes, node \<open>4 * a + 2 * b + c\<close> at \<open>(a, b, c)\<close>; the cells share the four nodes
  with \<open>a = 1\<close>.
\<close>

definition two_cubes_x :: "real list" where
  "two_cubes_x = [0, 0, 0,  0, 0, 1,  0, 1, 0,  0, 1, 1,  1, 0, 0,  1, 0, 1,  1, 1, 0,  1, 1, 1,
                  2, 0, 0,  2, 0, 1,  2, 1, 0,  2, 1, 1]"

definition two_cubes_Q1 :: MatFreeLaplace where
  "two_cubes_Q1 =
     MatFreeLaplace_new Kernel_unassigned 1 2 [1.0] two_cubes_x
       [0, 1, 2, 3, 4, 5, 6, 7, 4, 5, 6, 7, 8, 9, 10, 11]
       [0, 1, 2, 3, 4, 5, 6, 7, 4, 5, 6, 7, 8, 9, 10, 11]"

definition unit_cube_Q1 :: MatFreeLaplace where
  "unit_cube_Q1 = MatFreeLaplace_new Kernel_unassigned 1 1 [1.0] (cube_x 1) [0..<8] [0..<8]"

definition unit_cube_Q2 :: MatFreeLaplace where
  "unit_cube_Q2 = MatFreeLaplace_new Kernel_unassigned 2 1 [1.0] (cube_x 1) [0..<8] [0..<27]"

subsection \<open>Lines of the telemetry report\<close>

definition busy_line :: "rsmi_library \<Rightarrow> string \<Rightarrow> int \<Rightarrow> nat \<Rightarrow> out_item list" where
  "busy_line lib text rank i =
     [Text text, Text '' MPI Rank '', SInt rank, Text '' GPU '', UInt i,
      Text '' Memory Busy %: '', UInt (snd (lib_memory_busy_percent lib i)), Text ''\<newline>'']"

definition busy_ok :: "rsmi_library \<Rightarrow> nat \<Rightarrow> bool" where
  "busy_ok lib i = (fst (lib_memory_busy_percent lib i) = RSMI_STATUS_SUCCESS)"

text \<open>A library with two devices whose memory-busy query fails on device 0 only.\<close>

definition failing_library :: rsmi_library where
  "failing_library =
     \<lparr>lib_init = 0, lib_shut_down = 0, lib_num_monitor_devices = 2,
      lib_memory_busy_percent = (\<lambda>i. if i = 0 then (1, 0) else (0, 50)),
      lib_memory_usage = (\<lambda>i t. (0, 1024)),
      lib_memory_total = (\<lambda>i t. (0, 4096))\<rparr>"

text \<open>
  The report of the per-memory-type functions: the items of one memory type, the
  header of a device's line, the full line of a device all of whose queries succeed,
  and the part of a line written before the first failing query.
\<close>

definition type_items :: "(rsmi_memory_type_t \<Rightarrow> rsmi_status_t \<times> nat) \<Rightarrow> rsmi_memory_type_t \<Rightarrow> out_item list" where
  "type_items get mem_type =
     [Text '' '', Text (kDevMemoryTypeNameMap mem_type), Text '' '', UInt (snd (get mem_type))]"

definition type_ok :: "(rsmi_memory_type_t \<Rightarrow> rsmi_status_t \<times> nat) \<Rightarrow> rsmi_memory_type_t \<Rightarrow> bool" where
  "type_ok get mem_type = (fst (get mem_type) = RSMI_STATUS_SUCCESS)"

definition line_header :: "string \<Rightarrow> string \<Rightarrow> int \<Rightarrow> nat \<Rightarrow> out_item list" where
  "line_header label text rank i =
     [Text text, Text '' MPI Rank '', SInt rank, Text '' GPU '', UInt i, Text label]"

definition device_ok :: "(nat \<Rightarrow> rsmi_memory_type_t \<Rightarrow> rsmi_status_t \<times> nat) \<Rightarrow> nat \<Rightarrow> bool" where
  "device_ok get i = list_all (type_ok (get i)) memory_types"

definition full_line ::
  "string \<Rightarrow> (nat \<Rightarrow> rsmi_memory_type_t \<Rightarrow> rsmi_status_t \<times> nat) \<Rightarrow> string \<Rightarrow> int \<Rightarrow> nat \<Rightarrow> out_item list" where
  "full_line label get text rank i =
     line_header label text rank i @ concat (map (type_items (get i)) memory_types)
     @ [Text ''\<newline>'']"

definition broken_line ::
  "string \<Rightarrow> (nat \<Rightarrow> rsmi_memory_type_t \<Rightarrow> rsmi_status_t \<times> nat) \<Rightarrow> string \<Rightarrow> int \<Rightarrow> nat \<Rightarrow> out_item list" where
  "broken_line label get text rank i =
     line_header label text rank i
     @ concat (map (type_items (get i)) (takeWhile (type_ok (get i)) memory_types))"

definition memory_report ::
  "string \<Rightarrow> (nat \<Rightarrow> rsmi_memory_type_t \<Rightarrow> rsmi_status_t \<times> nat) \<Rightarrow> string \<Rightarrow> int \<Rightarrow> nat list \<Rightarrow> out_item list" where
  "memory_report label get text rank devices =
     concat (map (full_line label get text rank) (takeWhile (device_ok get) devices))
     @ (case dropWhile (device_ok get) devices of
          [] \<Rightarrow> []
        | i # later \<Rightarrow> broken_line label get text rank i)"

text \<open>
  The same for \<open>print_amd_gpu_memory_percentage_used\<close>, where a memory type needs two
  queries, the total and then the usage, and is written when both succeed.
\<close>

definition percentage_used :: "nat \<Rightarrow> nat \<Rightarrow> out_item" where
  "percentage_used used whole =
     (if whole = 0 then (if used = 0 then Float_nan else Float_inf)
      else Float ((real used * 100) / real whole))"

definition percentage_items :: "rsmi_library \<Rightarrow> nat \<Rightarrow> rsmi_memory_type_t \<Rightarrow> out_item list" where
  "percentage_items lib i mem_type =
     [Text '' '', Text (kDevMemoryTypeNameMap mem_type), Text '' '',
      percentage_used (snd (lib_memory_usage lib i mem_type)) (snd (lib_memory_total lib i mem_type))]"

definition percentage_ok :: "rsmi_library \<Rightarrow> nat \<Rightarrow> rsmi_memory_type_t \<Rightarrow> bool" where
  "percentage_ok lib i mem_type =
     (fst (lib_memory_total lib i mem_type) = RSMI_STATUS_SUCCESS
      \<and> fst (lib_memory_usage lib i mem_type) = RSMI_STATUS_SUCCESS)"

definition percentage_device_ok :: "rsmi_library \<Rightarrow> nat \<Rightarrow> bool" where
  "percentage_device_ok lib i = list_all (percentage_ok lib i) memory_types"

definition percentage_full_line :: "rsmi_library \<Rightarrow> string \<Rightarrow> int \<Rightarrow> nat \<Rightarrow> out_item list" where
  "percentage_full_line lib text rank i =
     line_header ''  % memory used:'' text rank i
     @ concat (map (percentage_items lib i) memory_types) @ [Text ''\<newline>'']"

definition percentage_broken_line :: "rsmi_library \<Rightarrow> string \<Rightarrow> int \<Rightarrow> nat \<Rightarrow> out_item list" where
  "percentage_broken_line lib text rank i =
     line_header ''  % memory used:'' text rank i
     @ concat (map (percentage_items lib i) (takeWhile (percentage_ok lib i) memory_types))"

definition percentage_report :: "rsmi_library \<Rightarrow> string \<Rightarrow> int \<Rightarrow> nat list \<Rightarrow> out_item list" where
  "percentage_report lib text rank devices =
     concat (map (percentage_full_line lib text rank) (takeWhile (percentage_device_ok lib) devices))
     @ (case dropWhile (percentage_device_ok lib) devices of
          [] \<Rightarrow> []
        | i # later \<Rightarrow> percentage_broken_line lib text rank i)"

text \<open>
  A library with three devices where a query fails on device 1 in every report: the
  memory-busy query, the usage query for the second memory type, and the total query
  for the third memory type. The queries of device 2 all succeed.
\<close>

definition partly_failing_library :: rsmi_library where
  "partly_failing_library =
     \<lparr>lib_init = 0, lib_shut_down = 0, lib_num_monitor_devices = 3,
      lib_memory_busy_percent = (\<lambda>i. if i = 1 then (1, 0) else (0, 50)),
      lib_memory_usage =
        (\<lambda>i t. if i = 1 \<and> t = RSMI_MEM_TYPE_VIS_VRAM then (1, 0) else (0, 1024)),
      lib_memory_total =
        (\<lambda>i t. if i = 1 \<and> t = RSMI_MEM_TYPE_GTT then (1, 0) else (0, 4096))\<rparr>"

text \<open>The state of a program after a successful setup, with nothing printed yet.\<close>

definition ready_state :: smi_state where
  "ready_state = \<lparr>initialised = True, library_calls = [Rsmi_init], cout = []\<rparr>"

subsection \<open>Sums, vectors and the form of one cell\<close>

text \<open>The sum over all index triples below \<open>n\<close>, in the order of the loop nest.\<close>

definition sum3 :: "nat \<Rightarrow> (nat \<Rightarrow> nat \<Rightarrow> nat \<Rightarrow> real) \<Rightarrow> real" where
  "sum3 n f = (\<Sum>i0\<leftarrow>[0..<n]. \<Sum>i1\<leftarrow>[0..<n]. \<Sum>i2\<leftarrow>[0..<n]. f i0 i1 i2)"

text \<open>
  The sum over the entries of \<open>x\<close> of \<open>v i * x i\<close>: the global sum of \<open>v\<close> multiplied
  pointwise with \<open>x\<close>.
\<close>

definition dot :: "real list \<Rightarrow> real list \<Rightarrow> real" where
  "dot v x = (\<Sum>i<length x. v ! i * x ! i)"

text \<open>The field \<open>a * u1 + b * u2\<close>, entry by entry.\<close>

definition lincomb :: "real \<Rightarrow> real list \<Rightarrow> real \<Rightarrow> real list \<Rightarrow> real list" where
  "lincomb a u1 b u2 = map2 (\<lambda>x y. a * x + b * y) u1 u2"

text \<open>A flux \<open>(fw0, fw1, fw2)\<close> against a reference gradient.\<close>

definition flux_dot :: "real \<times> real \<times> real \<Rightarrow> real list \<Rightarrow> real" where
  "flux_dot fw g = (case fw of (fw0, fw1, fw2) \<Rightarrow> fw0 * g ! 0 + fw1 * g ! 1 + fw2 * g ! 2)"

text \<open>
  The form of one cell: over the quadrature points, the flux of the coefficient \<open>w\<close>
  against the reference gradient of \<open>v\<close>.
\<close>

definition cell_form ::
  "nat \<Rightarrow> (nat \<Rightarrow> nat \<Rightarrow> nat \<Rightarrow> real) \<Rightarrow> real list list list list \<Rightarrow> real list list list list \<Rightarrow>
   nat \<Rightarrow> (nat \<Rightarrow> nat \<Rightarrow> nat \<Rightarrow> nat) \<Rightarrow> real list list list list \<Rightarrow> real list list list list \<Rightarrow>
   real list \<Rightarrow> real list \<Rightarrow> real list \<Rightarrow> real list \<Rightarrow> real" where
  "cell_form nq weights Dg Vg nd ix Dw Vw coordinate_dofs c w v =
     sum3 nq (\<lambda>iq0 iq1 iq2.
       flux_dot (quadrature_point Dg Vg nd ix Dw Vw (weights iq0 iq1 iq2) coordinate_dofs w c
                   iq0 iq1 iq2)
                (coefficient_section nd ix Dw Vw v iq0 iq1 iq2))"

text \<open>
  The field dofmap of a mesh is in range for vectors of \<open>ndofs\<close> entries: it has
  \<open>space_dim\<close> entries for each of the \<open>num_cells\<close> cells, all below \<open>ndofs\<close>.
\<close>

definition dofmap_in_range :: "nat \<Rightarrow> nat \<Rightarrow> nat list \<Rightarrow> nat \<Rightarrow> bool" where
  "dofmap_in_range space_dim num_cells dofmap ndofs =
     (num_cells * space_dim \<le> length dofmap
      \<and> list_all (\<lambda>d. d < ndofs) (take (num_cells * space_dim) dofmap))"

subsection \<open>What a call assembles\<close>

text \<open>The cell tensor that the thread of a cell scatters, for the kernel of the operator.\<close>

definition cell_tensor :: "MatFreeLaplace \<Rightarrow> (nat \<Rightarrow> real list) \<Rightarrow> real list \<Rightarrow> nat \<Rightarrow> real list" where
  "cell_tensor op A_uninit wglobal cell_id =
     (case op_tabulate_tensor op of
        Kernel_Q1 \<Rightarrow>
          cell_tensor_Q1 (A_uninit cell_id) wglobal (op_constants op) (op_x op)
            (op_x_dofmap op) (op_dofmap op) cell_id
      | Kernel_Q2 \<Rightarrow>
          cell_tensor_Q2 wglobal (op_constants op) (op_x op) (op_x_dofmap op) (op_dofmap op) cell_id
      | Kernel_unassigned \<Rightarrow> [])"

text \<open>The additions of a list of events, in the order of the list.\<close>

definition add_events :: "(nat \<times> real) list \<Rightarrow> real list \<Rightarrow> real list" where
  "add_events events = fold (\<lambda>e Aglobal. atomicAdd Aglobal (fst e) (snd e)) events"

text \<open>The number of threads of a launch: whole blocks of 256 that cover the cells.\<close>

definition num_threads :: "MatFreeLaplace \<Rightarrow> nat" where
  "num_threads op = (op_num_cells op + 256 - 1) div 256 * 256"

subsection \<open>Row sums of the basis tables\<close>

text \<open>
  The sum of the entries of row \<open>iq\<close> of a table with two, or three, dofs per
  direction. For exact tables the rows of a value table sum to one and the rows of a
  derivative table to zero.
\<close>

definition row_sum2 :: "real list list list list \<Rightarrow> nat \<Rightarrow> real" where
  "row_sum2 T iq = T ! 0 ! 0 ! iq ! 0 + T ! 0 ! 0 ! iq ! 1"

definition row_sum3 :: "real list list list list \<Rightarrow> nat \<Rightarrow> real" where
  "row_sum3 T iq = T ! 0 ! 0 ! iq ! 0 + T ! 0 ! 0 ! iq ! 1 + T ! 0 ! 0 ! iq ! 2"


section \<open>Properties of the kernels\<close>

subsection \<open>The flux of one quadrature point\<close>

lemma upt_0_2: "[0..<2] = [0, 1]"
  by (simp add: upt_rec)

lemma upt_0_3: "[0..<3] = [0, 1, 2]"
  by (simp add: upt_rec)

lemma upt_0_4: "[0..<4] = [0, 1, 2, 3]"
  by (simp add: upt_rec)

text \<open>
  The block of temporaries computes the flux pulled back to the reference cell.
\<close>

lemma intermediates_pulled_back:
  "intermediates c0 J0 J1 J2 J3 J4 J5 J6 J7 J8 g0 g1 g2 weight
   = pulled_back_flux c0 [J0, J1, J2, J3, J4, J5, J6, J7, J8] [g0, g1, g2] weight"
  unfolding intermediates_def pulled_back_flux_def physical_gradient_def inverse_jacobian_def
    jacobian_det_def Let_def
  by (simp add: algebra_simps diff_divide_distrib add_divide_distrib)

lemma cofactor_row_diagonal:
  "d \<noteq> 0 \<Longrightarrow> a * x + b * y + c * z = d \<Longrightarrow> a / d * x + b / d * y + c / d * z = (1::real)"
  by (simp add: field_simps)

lemma cofactor_row_off_diagonal:
  assumes "a * x + b * y + c * z = (0::real)"
  shows "a / d * x + b / d * y + c / d * z = 0"
proof -
  have "a / d * x + b / d * y + c / d * z = (a * x + b * y + c * z) / d"
    by (simp add: add_divide_distrib)
  then show ?thesis
    using assms by simp
qed

text \<open>Where the determinant is not zero, \<open>inverse_jacobian\<close> is the inverse.\<close>

lemma inverse_jacobian_inverse:
  assumes "jacobian_det [J0, J1, J2, J3, J4, J5, J6, J7, J8] \<noteq> 0"
  shows "matrix_product (inverse_jacobian [J0, J1, J2, J3, J4, J5, J6, J7, J8])
           [J0, J1, J2, J3, J4, J5, J6, J7, J8] = identity_matrix"
proof -
  let ?d = "jacobian_det [J0, J1, J2, J3, J4, J5, J6, J7, J8]"
  have d: "?d = J0 * (J4 * J8 - J5 * J7) - J1 * (J3 * J8 - J5 * J6) + J2 * (J3 * J7 - J4 * J6)"
    by (simp add: jacobian_det_def)
  have e00: "(J4 * J8 - J5 * J7) / ?d * J0 + (J2 * J7 - J1 * J8) / ?d * J3
             + (J1 * J5 - J2 * J4) / ?d * J6 = 1"
    by (rule cofactor_row_diagonal[OF assms]) (simp add: d algebra_simps)
  have e01: "(J4 * J8 - J5 * J7) / ?d * J1 + (J2 * J7 - J1 * J8) / ?d * J4
             + (J1 * J5 - J2 * J4) / ?d * J7 = 0"
    by (rule cofactor_row_off_diagonal) (simp add: algebra_simps)
  have e02: "(J4 * J8 - J5 * J7) / ?d * J2 + (J2 * J7 - J1 * J8) / ?d * J5
             + (J1 * J5 - J2 * J4) / ?d * J8 = 0"
    by (rule cofactor_row_off_diagonal) (simp add: algebra_simps)
  have e10: "(J5 * J6 - J3 * J8) / ?d * J0 + (J0 * J8 - J2 * J6) / ?d * J3
             + (J2 * J3 - J0 * J5) / ?d * J6 = 0"
    by (rule cofactor_row_off_diagonal) (simp add: algebra_simps)
  have e11: "(J5 * J6 - J3 * J8) / ?d * J1 + (J0 * J8 - J2 * J6) / ?d * J4
             + (J2 * J3 - J0 * J5) / ?d * J7 = 1"
    by (rule cofactor_row_diagonal[OF assms]) (simp add: d algebra_simps)
  have e12: "(J5 * J6 - J3 * J8) / ?d * J2 + (J0 * J8 - J2 * J6) / ?d * J5
             + (J2 * J3 - J0 * J5) / ?d * J8 = 0"
    by (rule cofactor_row_off_diagonal) (simp add: algebra_simps)
  have e20: "(J3 * J7 - J4 * J6) / ?d * J0 + (J1 * J6 - J0 * J7) / ?d * J3
             + (J0 * J4 - J1 * J3) / ?d * J6 = 0"
    by (rule cofactor_row_off_diagonal) (simp add: algebra_simps)
  have e21: "(J3 * J7 - J4 * J6) / ?d * J1 + (J1 * J6 - J0 * J7) / ?d * J4
             + (J0 * J4 - J1 * J3) / ?d * J7 = 0"
    by (rule cofactor_row_off_diagonal) (simp add: algebra_simps)
  have e22: "(J3 * J7 - J4 * J6) / ?d * J2 + (J1 * J6 - J0 * J7) / ?d * J5
             + (J0 * J4 - J1 * J3) / ?d * J8 = 1"
    by (rule cofactor_row_diagonal[OF assms]) (simp add: d algebra_simps)
  show ?thesis
    unfolding matrix_product_def inverse_jacobian_def identity_matrix_def
    using e00 e01 e02 e10 e11 e12 e20 e21 e22 by simp
qed

lemma jacobian_section_entries:
  "jacobian_section Dg Vg coordinate_dofs iq0 iq1 iq2
   = map (\<lambda>k. jacobian_section Dg Vg coordinate_dofs iq0 iq1 iq2 ! k) [0, 1, 2, 3, 4, 5, 6, 7, 8]"
  by (simp add: jacobian_section_def)

lemma coefficient_section_entries:
  "coefficient_section nd ix Dw Vw w iq0 iq1 iq2
   = map (\<lambda>k. coefficient_section nd ix Dw Vw w iq0 iq1 iq2 ! k) [0, 1, 2]"
  by (simp add: coefficient_section_def)

lemma quadrature_point_pulled_back:
  "quadrature_point Dg Vg nd ix Dw Vw weight coordinate_dofs w c iq0 iq1 iq2
   = pulled_back_flux (c ! 0) (jacobian_section Dg Vg coordinate_dofs iq0 iq1 iq2)
       (coefficient_section nd ix Dw Vw w iq0 iq1 iq2) weight"
proof -
  let ?J = "jacobian_section Dg Vg coordinate_dofs iq0 iq1 iq2"
  let ?g = "coefficient_section nd ix Dw Vw w iq0 iq1 iq2"
  have J: "[?J ! 0, ?J ! 1, ?J ! 2, ?J ! 3, ?J ! 4, ?J ! 5, ?J ! 6, ?J ! 7, ?J ! 8] = ?J"
    using jacobian_section_entries[of Dg Vg coordinate_dofs iq0 iq1 iq2] by simp
  have g: "[?g ! 0, ?g ! 1, ?g ! 2] = ?g"
    using coefficient_section_entries[of nd ix Dw Vw w iq0 iq1 iq2] by simp
  show ?thesis
    unfolding quadrature_point_def Let_def intermediates_pulled_back J g ..
qed

text \<open>
  The degree-1 kernel at the centre point \<open>(1, 1, 1)\<close> of its quadrature rule, for the
  cube of side 2 and the coefficient that is 0 on the face \<open>ic0 = 0\<close> and 1 on the face
  \<open>ic0 = 1\<close>. The value table is \<open>{0.5, 0.5}\<close> there, so the Jacobian is twice the
  identity and the reference gradient is \<open>(1, 0, 0)\<close>.
\<close>

lemma jacobian_cube_2:
  "jacobian_section Q1_FE_TF0 Q1_FE_TF1 (cube_x 2) 1 1 1 = [2, 0, 0, 0, 2, 0, 0, 0, 2]"
  by (simp add: jacobian_section_def acc3_def loop3_def upt_0_2 Q1_FE_TF0_def Q1_FE_TF1_def
        cube_x_def)

lemma coefficient_cube_2:
  "coefficient_section 2 (\<lambda>i0 i1 i2. 4 * i0 + 2 * i1 + i2) Q1_FE_TF0 Q1_FE_TF1
     [0, 0, 0, 0, 1, 1, 1, 1] 1 1 1 = [1, 0, 0]"
  by (simp add: coefficient_section_def acc3_def loop3_def upt_0_2 Q1_FE_TF0_def Q1_FE_TF1_def)

lemma weights_461_13: "weights_461 ! 13 = 0.0877914951989026"
  by (simp add: weights_461_def)

text \<open>
  C4 (amended). The claim: with a non-zero Jacobian determinant, each weighted-flux
  scalar is the corresponding physical gradient component times \<open>c[0]\<close>, the absolute
  value of the determinant and the quadrature weight. The code contracts the physical
  gradient with the inverse Jacobian a second time: with \<open>K\<close> the inverse Jacobian
  (cofactors over the signed determinant, the inverse where the determinant is not
  zero) and \<open>p\<close> the physical gradient, the scalar for the reference direction \<open>d\<close> is
  \<open>(K d 0 * p 0 + K d 1 * p 1 + K d 2 * p 2)\<close> times \<open>c[0]\<close>, the absolute value of the
  determinant and the weight. This holds in both kernels, whose blocks of temporaries
  are the same.
\<close>

theorem weighted_flux_is_pulled_back:
  assumes "jacobian_det (jacobian_section Dg Vg coordinate_dofs iq0 iq1 iq2) \<noteq> 0"
  shows "quadrature_point Dg Vg nd ix Dw Vw weight coordinate_dofs w c iq0 iq1 iq2
         = pulled_back_flux (c ! 0) (jacobian_section Dg Vg coordinate_dofs iq0 iq1 iq2)
             (coefficient_section nd ix Dw Vw w iq0 iq1 iq2) weight
         \<and> matrix_product (inverse_jacobian (jacobian_section Dg Vg coordinate_dofs iq0 iq1 iq2))
             (jacobian_section Dg Vg coordinate_dofs iq0 iq1 iq2) = identity_matrix"
proof -
  let ?J = "jacobian_section Dg Vg coordinate_dofs iq0 iq1 iq2"
  have J: "[?J ! 0, ?J ! 1, ?J ! 2, ?J ! 3, ?J ! 4, ?J ! 5, ?J ! 6, ?J ! 7, ?J ! 8] = ?J"
    using jacobian_section_entries[of Dg Vg coordinate_dofs iq0 iq1 iq2] by simp
  have "matrix_product (inverse_jacobian ?J) ?J = identity_matrix"
    using inverse_jacobian_inverse[of "?J ! 0" "?J ! 1" "?J ! 2" "?J ! 3" "?J ! 4" "?J ! 5"
        "?J ! 6" "?J ! 7" "?J ! 8"] assms
    unfolding J by simp
  then show ?thesis
    by (simp add: quadrature_point_pulled_back)
qed

theorem weighted_flux_is_pulled_back_witness:
  "jacobian_det (jacobian_section Q1_FE_TF0 Q1_FE_TF1 (cube_x 2) 1 1 1) \<noteq> 0
   \<and> quadrature_point Q1_FE_TF0 Q1_FE_TF1 2 (\<lambda>i0 i1 i2. 4 * i0 + 2 * i1 + i2) Q1_FE_TF0 Q1_FE_TF1
       (weights_461 ! 13) (cube_x 2) [0, 0, 0, 0, 1, 1, 1, 1] [1] 1 1 1
     = pulled_back_flux ([1] ! 0) (jacobian_section Q1_FE_TF0 Q1_FE_TF1 (cube_x 2) 1 1 1)
         (coefficient_section 2 (\<lambda>i0 i1 i2. 4 * i0 + 2 * i1 + i2) Q1_FE_TF0 Q1_FE_TF1
            [0, 0, 0, 0, 1, 1, 1, 1] 1 1 1) (weights_461 ! 13)
   \<and> matrix_product (inverse_jacobian (jacobian_section Q1_FE_TF0 Q1_FE_TF1 (cube_x 2) 1 1 1))
       (jacobian_section Q1_FE_TF0 Q1_FE_TF1 (cube_x 2) 1 1 1) = identity_matrix"
proof -
  have h: "jacobian_det (jacobian_section Q1_FE_TF0 Q1_FE_TF1 (cube_x 2) 1 1 1) \<noteq> 0"
    unfolding jacobian_cube_2 by (simp add: jacobian_det_def)
  show ?thesis
    using h weighted_flux_is_pulled_back[OF h] by blast
qed

text \<open>
  At that point the code's first flux scalar is twice the weight; the claim's formula
  gives four times the weight.
\<close>

theorem flux_is_not_physical_gradient:
  "quadrature_point Q1_FE_TF0 Q1_FE_TF1 2 (\<lambda>i0 i1 i2. 4 * i0 + 2 * i1 + i2) Q1_FE_TF0 Q1_FE_TF1
     (weights_461 ! 13) (cube_x 2) [0, 0, 0, 0, 1, 1, 1, 1] [1] 1 1 1
   \<noteq> specified_flux ([1] ! 0) (jacobian_section Q1_FE_TF0 Q1_FE_TF1 (cube_x 2) 1 1 1)
       (coefficient_section 2 (\<lambda>i0 i1 i2. 4 * i0 + 2 * i1 + i2) Q1_FE_TF0 Q1_FE_TF1
          [0, 0, 0, 0, 1, 1, 1, 1] 1 1 1) (weights_461 ! 13)"
proof -
  have code: "quadrature_point Q1_FE_TF0 Q1_FE_TF1 2 (\<lambda>i0 i1 i2. 4 * i0 + 2 * i1 + i2)
                Q1_FE_TF0 Q1_FE_TF1 wt (cube_x 2) [0, 0, 0, 0, 1, 1, 1, 1] [1] 1 1 1
              = (2 * wt, 0, 0)" for wt
    unfolding quadrature_point_pulled_back jacobian_cube_2 coefficient_cube_2
    by (simp add: pulled_back_flux_def physical_gradient_def inverse_jacobian_def
          jacobian_det_def)
  have claim: "specified_flux ([1] ! 0) [2, 0, 0, 0, 2, 0, 0, 0, 2] [1, 0, 0] wt
               = (4 * wt, 0, 0)" for wt
    by (simp add: specified_flux_def physical_gradient_def inverse_jacobian_def jacobian_det_def)
  show ?thesis
    unfolding code jacobian_cube_2 coefficient_cube_2 claim
    by (simp add: weights_461_13)
qed


subsection \<open>Loop nests as sums\<close>

lemma fold_add: "fold (\<lambda>i s. s + f i) xs (a::real) = a + sum_list (map f xs)"
  by (induction xs arbitrary: a) (simp_all add: add.assoc)

lemma acc3_sum3: "acc3 n f = sum3 n f"
proof -
  have inner: "fold (\<lambda>i2 s. s + f i0 i1 i2) [0..<n] a = a + (\<Sum>i2\<leftarrow>[0..<n]. f i0 i1 i2)"
    for i0 i1 a
    by (rule fold_add)
  have mid: "fold (\<lambda>i1. fold (\<lambda>i2 s. s + f i0 i1 i2) [0..<n]) xs a
             = a + (\<Sum>i1\<leftarrow>xs. \<Sum>i2\<leftarrow>[0..<n]. f i0 i1 i2)" for i0 a xs
    by (induction xs arbitrary: a) (simp_all add: inner add.assoc)
  have outer: "fold (\<lambda>i0. fold (\<lambda>i1. fold (\<lambda>i2 s. s + f i0 i1 i2) [0..<n]) [0..<n]) xs a
               = a + (\<Sum>i0\<leftarrow>xs. \<Sum>i1\<leftarrow>[0..<n]. \<Sum>i2\<leftarrow>[0..<n]. f i0 i1 i2)" for a xs
    by (induction xs arbitrary: a) (simp_all add: mid add.assoc)
  show ?thesis
    by (simp add: acc3_def loop3_def sum3_def outer)
qed

lemma sum3_add: "sum3 n (\<lambda>i0 i1 i2. f i0 i1 i2 + g i0 i1 i2) = sum3 n f + sum3 n g"
  by (simp add: sum3_def sum_list_addf)

lemma sum3_scale: "sum3 n (\<lambda>i0 i1 i2. a * f i0 i1 i2) = a * sum3 n f"
  by (simp add: sum3_def sum_list_const_mult)

lemma sum3_zero: "sum3 n (\<lambda>i0 i1 i2. 0) = 0"
  by (simp add: sum3_def)

lemma sum_list_cong_upt:
  "(\<And>i. i < n \<Longrightarrow> f i = g i) \<Longrightarrow> sum_list (map f [0..<n]) = sum_list (map (g::nat \<Rightarrow> real) [0..<n])"
  by (rule arg_cong[where f = sum_list]) simp

lemma sum3_cong:
  assumes "\<And>i0 i1 i2. i0 < n \<Longrightarrow> i1 < n \<Longrightarrow> i2 < n \<Longrightarrow> f i0 i1 i2 = g i0 i1 i2"
  shows "sum3 n f = sum3 n g"
  unfolding sum3_def
  by (intro sum_list_cong_upt) (simp add: assms)

lemma sum_list_nonneg_upt:
  "(\<And>i. i < n \<Longrightarrow> 0 \<le> f i) \<Longrightarrow> 0 \<le> sum_list (map (f::nat \<Rightarrow> real) [0..<n])"
  by (rule sum_list_nonneg) auto

lemma sum_list_ge_term:
  assumes "\<And>i. i < n \<Longrightarrow> 0 \<le> f i" and "k < n"
  shows "(f::nat \<Rightarrow> real) k \<le> sum_list (map f [0..<n])"
proof -
  have "sum_list (map f [0..<n]) = (\<Sum>i<n. f i)"
    by (simp add: interv_sum_list_conv_sum_set_nat atLeast0LessThan)
  moreover have "f k \<le> (\<Sum>i<n. f i)"
    using assms by (intro member_le_sum) auto
  ultimately show ?thesis
    by simp
qed

lemma sum3_nonneg:
  assumes "\<And>i0 i1 i2. i0 < n \<Longrightarrow> i1 < n \<Longrightarrow> i2 < n \<Longrightarrow> 0 \<le> f i0 i1 i2"
  shows "0 \<le> sum3 n f"
  unfolding sum3_def
  by (intro sum_list_nonneg_upt) (simp add: assms)

lemma sum3_ge_term:
  assumes nonneg: "\<And>i0 i1 i2. i0 < n \<Longrightarrow> i1 < n \<Longrightarrow> i2 < n \<Longrightarrow> 0 \<le> f i0 i1 i2"
      and "k0 < n" "k1 < n" "k2 < n"
  shows "f k0 k1 k2 \<le> sum3 n f"
proof -
  have "f k0 k1 k2 \<le> (\<Sum>i2\<leftarrow>[0..<n]. f k0 k1 i2)"
    using assms by (intro sum_list_ge_term[where f = "f k0 k1"]) auto
  also have "\<dots> \<le> (\<Sum>i1\<leftarrow>[0..<n]. \<Sum>i2\<leftarrow>[0..<n]. f k0 i1 i2)"
    using assms
    by (intro sum_list_ge_term[where f = "\<lambda>i1. \<Sum>i2\<leftarrow>[0..<n]. f k0 i1 i2"] sum_list_nonneg_upt) auto
  also have "\<dots> \<le> sum3 n f"
    unfolding sum3_def using assms
    by (intro sum_list_ge_term[where f = "\<lambda>i0. \<Sum>i1\<leftarrow>[0..<n]. \<Sum>i2\<leftarrow>[0..<n]. f i0 i1 i2"]
          sum_list_nonneg_upt) auto
  finally show ?thesis .
qed

text \<open>A loop whose body adds \<open>h i\<close> to a quantity \<open>q\<close> of the state adds the sum.\<close>

lemma fold_additive:
  fixes q :: "'s \<Rightarrow> real"
  assumes step: "\<And>i A. i \<in> set xs \<Longrightarrow> P A \<Longrightarrow> P (f i A) \<and> q (f i A) = q A + h i"
      and start: "P A"
  shows "P (fold f xs A) \<and> q (fold f xs A) = q A + sum_list (map h xs)"
  using assms
proof (induction xs arbitrary: A)
  case Nil
  then show ?case by simp
next
  case (Cons x xs)
  have first: "P (f x A) \<and> q (f x A) = q A + h x"
    using Cons.prems by simp
  have "P (fold f xs (f x A)) \<and> q (fold f xs (f x A)) = q (f x A) + sum_list (map h xs)"
    using Cons.prems first by (intro Cons.IH) auto
  then show ?case
    using first by (simp add: add.assoc)
qed

lemma loop3_additive:
  fixes q :: "'s \<Rightarrow> real"
  assumes step: "\<And>i0 i1 i2 A. i0 < n \<Longrightarrow> i1 < n \<Longrightarrow> i2 < n \<Longrightarrow> P A \<Longrightarrow>
                   P (body i0 i1 i2 A) \<and> q (body i0 i1 i2 A) = q A + h i0 i1 i2"
      and start: "P A"
  shows "P (loop3 n body A) \<and> q (loop3 n body A) = q A + sum3 n h"
proof -
  have inner: "P (fold (body i0 i1) [0..<n] B)
               \<and> q (fold (body i0 i1) [0..<n] B) = q B + (\<Sum>i2\<leftarrow>[0..<n]. h i0 i1 i2)"
    if "i0 < n" "i1 < n" "P B" for i0 i1 B
  proof (rule fold_additive[where P = P and q = q and f = "body i0 i1" and h = "h i0 i1"])
    show "P B" by (rule that)
  next
    fix i A
    assume "i \<in> set [0..<n]" "P A"
    then show "P (body i0 i1 i A) \<and> q (body i0 i1 i A) = q A + h i0 i1 i"
      using that step by simp
  qed
  have mid: "P (fold (\<lambda>i1. fold (body i0 i1) [0..<n]) [0..<n] B)
             \<and> q (fold (\<lambda>i1. fold (body i0 i1) [0..<n]) [0..<n] B)
               = q B + (\<Sum>i1\<leftarrow>[0..<n]. \<Sum>i2\<leftarrow>[0..<n]. h i0 i1 i2)"
    if "i0 < n" "P B" for i0 B
  proof (rule fold_additive[where P = P and q = q and f = "\<lambda>i1. fold (body i0 i1) [0..<n]"
          and h = "\<lambda>i1. \<Sum>i2\<leftarrow>[0..<n]. h i0 i1 i2"])
    show "P B" by (rule that)
  next
    fix i A
    assume "i \<in> set [0..<n]" "P A"
    then show "P (fold (body i0 i) [0..<n] A)
               \<and> q (fold (body i0 i) [0..<n] A) = q A + (\<Sum>i2\<leftarrow>[0..<n]. h i0 i i2)"
      using that inner by simp
  qed
  have "P (fold (\<lambda>i0. fold (\<lambda>i1. fold (body i0 i1) [0..<n]) [0..<n]) [0..<n] A)
        \<and> q (fold (\<lambda>i0. fold (\<lambda>i1. fold (body i0 i1) [0..<n]) [0..<n]) [0..<n] A)
          = q A + (\<Sum>i0\<leftarrow>[0..<n]. \<Sum>i1\<leftarrow>[0..<n]. \<Sum>i2\<leftarrow>[0..<n]. h i0 i1 i2)"
  proof (rule fold_additive[where P = P and q = q
          and f = "\<lambda>i0. fold (\<lambda>i1. fold (body i0 i1) [0..<n]) [0..<n]"
          and h = "\<lambda>i0. \<Sum>i1\<leftarrow>[0..<n]. \<Sum>i2\<leftarrow>[0..<n]. h i0 i1 i2"])
    show "P A" by (rule start)
  next
    fix i B
    assume "i \<in> set [0..<n]" "P B"
    then show "P (fold (\<lambda>i1. fold (body i i1) [0..<n]) [0..<n] B)
               \<and> q (fold (\<lambda>i1. fold (body i i1) [0..<n]) [0..<n] B)
                 = q B + (\<Sum>i1\<leftarrow>[0..<n]. \<Sum>i2\<leftarrow>[0..<n]. h i i1 i2)"
      using mid by simp
  qed
  then show ?thesis
    by (simp add: loop3_def sum3_def)
qed

text \<open>A loop whose body changes nothing changes nothing.\<close>

lemma loop3_identity:
  assumes "\<And>i0 i1 i2. i0 < n \<Longrightarrow> i1 < n \<Longrightarrow> i2 < n \<Longrightarrow> body i0 i1 i2 A = A"
  shows "loop3 n body A = A"
proof -
  have one: "fold g xs A = A" if "\<And>i. i \<in> set xs \<Longrightarrow> g i A = A" for g and xs :: "nat list"
    using that by (induction xs) simp_all
  have inner: "fold (body i0 i1) [0..<n] A = A" if "i0 < n" "i1 < n" for i0 i1
    using that by (intro one) (simp add: assms)
  have mid: "fold (\<lambda>i1. fold (body i0 i1) [0..<n]) [0..<n] A = A" if "i0 < n" for i0
    by (rule one) (simp add: inner that)
  show ?thesis
    unfolding loop3_def by (rule one) (simp add: mid)
qed

subsection \<open>Sums against a vector\<close>

lemma dot_update:
  assumes "k < length x"
  shows "dot v (x[k := x ! k + t]) = dot v x + v ! k * t"
proof -
  have "(\<Sum>i<length x. v ! i * (x[k := x ! k + t]) ! i)
        = (\<Sum>i<length x. v ! i * x ! i + (if i = k then v ! k * t else 0))"
    by (rule sum.cong) (auto simp: nth_list_update algebra_simps)
  also have "\<dots> = (\<Sum>i<length x. v ! i * x ! i) + v ! k * t"
    using assms by (simp add: sum.distrib)
  finally show ?thesis
    by (simp add: dot_def)
qed

lemma dot_atomicAdd:
  "d < length Aglobal \<Longrightarrow> dot v (atomicAdd Aglobal d a) = dot v Aglobal + v ! d * a"
  by (simp add: atomicAdd_def dot_update)

lemma length_atomicAdd [simp]: "length (atomicAdd Aglobal d a) = length Aglobal"
  by (simp add: atomicAdd_def)

lemma dot_zero [simp]: "dot v (replicate n 0) = 0"
  by (simp add: dot_def)

lemma dot_unit:
  assumes "k < length x"
  shows "dot ((replicate (length x) 0)[k := 1]) x = x ! k"
proof -
  have "(\<Sum>i<length x. (replicate (length x) 0)[k := 1::real] ! i * x ! i)
        = (\<Sum>i<length x. if i = k then x ! k else 0)"
    by (rule sum.cong) (auto simp: nth_list_update)
  then show ?thesis
    using assms by (simp add: dot_def)
qed

lemma vector_eqI:
  assumes "length x = n" and "length y = n"
      and "\<And>v. length v = n \<Longrightarrow> dot v x = dot v y"
  shows "x = y"
proof (rule nth_equalityI)
  show "length x = length y"
    using assms by simp
next
  fix k
  assume k: "k < length x"
  have "dot ((replicate n 0)[k := 1]) x = dot ((replicate n 0)[k := 1]) y"
    by (rule assms(3)) simp
  then show "x ! k = y ! k"
    using dot_unit[of k x] dot_unit[of k y] k assms by simp
qed

lemma length_lincomb [simp]: "length (lincomb a u1 b u2) = min (length u1) (length u2)"
  by (simp add: lincomb_def)

lemma nth_lincomb:
  "i < length u1 \<Longrightarrow> i < length u2 \<Longrightarrow> lincomb a u1 b u2 ! i = a * u1 ! i + b * u2 ! i"
  by (simp add: lincomb_def)

lemma dot_lincomb:
  assumes "length x = length y"
  shows "dot v (lincomb a x b y) = a * dot v x + b * dot v y"
proof -
  have "(\<Sum>i<length y. v ! i * lincomb a x b y ! i)
        = (\<Sum>i<length y. a * (v ! i * x ! i) + b * (v ! i * y ! i))"
    using assms by (intro sum.cong) (auto simp: nth_lincomb algebra_simps)
  then show ?thesis
    using assms by (simp add: dot_def sum.distrib sum_distrib_left)
qed

subsection \<open>The cell tensor against a vector\<close>

lemma coefficient_section_sum3:
  "coefficient_section nd ix Dw Vw w iq0 iq1 iq2
   = [sum3 nd (\<lambda>ic0 ic1 ic2. w ! ix ic0 ic1 ic2
        * (Dw ! 0 ! 0 ! iq0 ! ic0 * Vw ! 0 ! 0 ! iq1 ! ic1 * Vw ! 0 ! 0 ! iq2 ! ic2)),
      sum3 nd (\<lambda>ic0 ic1 ic2. w ! ix ic0 ic1 ic2
        * (Vw ! 0 ! 0 ! iq0 ! ic0 * Dw ! 0 ! 0 ! iq1 ! ic1 * Vw ! 0 ! 0 ! iq2 ! ic2)),
      sum3 nd (\<lambda>ic0 ic1 ic2. w ! ix ic0 ic1 ic2
        * (Vw ! 0 ! 0 ! iq0 ! ic0 * Vw ! 0 ! 0 ! iq1 ! ic1 * Dw ! 0 ! 0 ! iq2 ! ic2))]"
  by (simp add: coefficient_section_def acc3_sum3)

text \<open>
  The three additions of the Tensor Computation section for one index triple: one
  entry of \<open>A\<close> grows by the sum of the three terms.
\<close>

lemma tensor_update_dot:
  assumes "k < length A"
      and A1: "A1 = A[k := A ! k + t0]"
      and A2: "A2 = A1[k := A1 ! k + t1]"
      and A3: "A3 = A2[k := A2 ! k + t2]"
  shows "length A3 = length A \<and> dot v A3 = dot v A + v ! k * (t0 + t1 + t2)"
proof -
  have 1: "dot v A1 = dot v A + v ! k * t0"
    unfolding A1 using assms(1) by (rule dot_update)
  have 2: "dot v A2 = dot v A1 + v ! k * t1"
    unfolding A2 using assms(1) by (intro dot_update) (simp add: A1)
  have 3: "dot v A3 = dot v A2 + v ! k * t2"
    unfolding A3 using assms(1) by (intro dot_update) (simp add: A1 A2)
  show ?thesis
    using 1 2 3 by (simp add: A1 A2 A3 algebra_simps)
qed

lemma tensor_computation_dot:
  assumes range: "\<And>i0 i1 i2. i0 < nd \<Longrightarrow> i1 < nd \<Longrightarrow> i2 < nd \<Longrightarrow> ix i0 i1 i2 < n"
      and len: "length A = n"
  shows "length (tensor_computation nd ix Dw Vw fw iq0 iq1 iq2 A) = n
         \<and> dot v (tensor_computation nd ix Dw Vw fw iq0 iq1 iq2 A)
           = dot v A + flux_dot fw (coefficient_section nd ix Dw Vw v iq0 iq1 iq2)"
proof -
  obtain fw0 fw1 fw2 where fw: "fw = (fw0, fw1, fw2)"
    by (cases fw) auto
  let ?T0 = "\<lambda>i0 i1 i2. Dw ! 0 ! 0 ! iq0 ! i0 * Vw ! 0 ! 0 ! iq1 ! i1 * Vw ! 0 ! 0 ! iq2 ! i2"
  let ?T1 = "\<lambda>i0 i1 i2. Vw ! 0 ! 0 ! iq0 ! i0 * Dw ! 0 ! 0 ! iq1 ! i1 * Vw ! 0 ! 0 ! iq2 ! i2"
  let ?T2 = "\<lambda>i0 i1 i2. Vw ! 0 ! 0 ! iq0 ! i0 * Vw ! 0 ! 0 ! iq1 ! i1 * Dw ! 0 ! 0 ! iq2 ! i2"
  let ?body = "\<lambda>i0 i1 i2 A.
        let A1 = A[ix i0 i1 i2 := A ! ix i0 i1 i2 + fw0 * ?T0 i0 i1 i2];
            A2 = A1[ix i0 i1 i2 := A1 ! ix i0 i1 i2 + fw1 * ?T1 i0 i1 i2];
            A3 = A2[ix i0 i1 i2 := A2 ! ix i0 i1 i2 + fw2 * ?T2 i0 i1 i2]
        in A3"
  let ?h = "\<lambda>i0 i1 i2. v ! ix i0 i1 i2
              * (fw0 * ?T0 i0 i1 i2 + fw1 * ?T1 i0 i1 i2 + fw2 * ?T2 i0 i1 i2)"
  have loop: "length (loop3 nd ?body A) = n
              \<and> dot v (loop3 nd ?body A) = dot v A + sum3 nd ?h"
  proof (rule loop3_additive[where P = "\<lambda>A. length A = n" and q = "dot v" and h = ?h])
    show "length A = n" by (rule len)
  next
    fix i0 i1 i2 and B :: "real list"
    assume "i0 < nd" "i1 < nd" "i2 < nd" "length B = n"
    then have "ix i0 i1 i2 < length B"
      using range by simp
    then show "length (?body i0 i1 i2 B) = n
               \<and> dot v (?body i0 i1 i2 B) = dot v B + ?h i0 i1 i2"
      using tensor_update_dot[OF _ refl refl refl, of "ix i0 i1 i2" B "fw0 * ?T0 i0 i1 i2"
              "fw1 * ?T1 i0 i1 i2" "fw2 * ?T2 i0 i1 i2" v] \<open>length B = n\<close>
      by (simp add: Let_def)
  qed
  have "?h = (\<lambda>i0 i1 i2. fw0 * (v ! ix i0 i1 i2 * ?T0 i0 i1 i2)
                + (fw1 * (v ! ix i0 i1 i2 * ?T1 i0 i1 i2)
                   + fw2 * (v ! ix i0 i1 i2 * ?T2 i0 i1 i2)))"
    by (intro ext) (simp add: algebra_simps)
  then have "sum3 nd ?h = flux_dot fw (coefficient_section nd ix Dw Vw v iq0 iq1 iq2)"
    by (simp add: sum3_add sum3_scale fw flux_dot_def coefficient_section_sum3)
  then show ?thesis
    using loop by (simp add: tensor_computation_def fw)
qed

text \<open>
  The quadrature loop adds to the cell tensor, against any vector \<open>v\<close> of local
  values, the form of the cell.
\<close>

lemma quadrature_loop_dot:
  assumes range: "\<And>i0 i1 i2. i0 < nd \<Longrightarrow> i1 < nd \<Longrightarrow> i2 < nd \<Longrightarrow> ix i0 i1 i2 < n"
      and len: "length A = n"
  shows "length (quadrature_loop nq weights Dg Vg nd ix Dw Vw coordinate_dofs w c A) = n
         \<and> dot v (quadrature_loop nq weights Dg Vg nd ix Dw Vw coordinate_dofs w c A)
           = dot v A + cell_form nq weights Dg Vg nd ix Dw Vw coordinate_dofs c w v"
  unfolding quadrature_loop_def cell_form_def
proof (rule loop3_additive[where P = "\<lambda>A. length A = n" and q = "dot v"])
  show "length A = n" by (rule len)
next
  fix iq0 iq1 iq2 and B :: "real list"
  assume "length B = n"
  then show "length (tensor_computation nd ix Dw Vw
                 (quadrature_point Dg Vg nd ix Dw Vw (weights iq0 iq1 iq2) coordinate_dofs w c
                    iq0 iq1 iq2) iq0 iq1 iq2 B) = n
             \<and> dot v (tensor_computation nd ix Dw Vw
                 (quadrature_point Dg Vg nd ix Dw Vw (weights iq0 iq1 iq2) coordinate_dofs w c
                    iq0 iq1 iq2) iq0 iq1 iq2 B)
               = dot v B + flux_dot (quadrature_point Dg Vg nd ix Dw Vw (weights iq0 iq1 iq2)
                                      coordinate_dofs w c iq0 iq1 iq2)
                             (coefficient_section nd ix Dw Vw v iq0 iq1 iq2)"
    using range by (intro tensor_computation_dot) auto
qed

subsection \<open>The form of a cell is symmetric and linear\<close>

lemma flux_dot_pulled_back:
  "flux_dot (pulled_back_flux c0 J g weight) h
   = c0 * \<bar>jacobian_det J\<bar> * weight
     * (physical_gradient J g ! 0 * physical_gradient J h ! 0
        + physical_gradient J g ! 1 * physical_gradient J h ! 1
        + physical_gradient J g ! 2 * physical_gradient J h ! 2)"
  by (simp add: flux_dot_def pulled_back_flux_def physical_gradient_def Let_def algebra_simps)

lemma flux_dot_symmetric:
  "flux_dot (pulled_back_flux c0 J g weight) h = flux_dot (pulled_back_flux c0 J h weight) g"
  by (simp add: flux_dot_pulled_back mult.commute)

lemma cell_form_symmetric:
  "cell_form nq weights Dg Vg nd ix Dw Vw coordinate_dofs c w v
   = cell_form nq weights Dg Vg nd ix Dw Vw coordinate_dofs c v w"
  unfolding cell_form_def quadrature_point_pulled_back
  by (rule sum3_cong) (rule flux_dot_symmetric)

lemma coefficient_section_lincomb:
  assumes range: "\<And>i0 i1 i2. i0 < nd \<Longrightarrow> i1 < nd \<Longrightarrow> i2 < nd \<Longrightarrow> ix i0 i1 i2 < n"
      and len: "length u1 = n" "length u2 = n"
  shows "coefficient_section nd ix Dw Vw (lincomb a u1 b u2) iq0 iq1 iq2
         = lincomb a (coefficient_section nd ix Dw Vw u1 iq0 iq1 iq2)
             b (coefficient_section nd ix Dw Vw u2 iq0 iq1 iq2)"
proof -
  have entry: "sum3 nd (\<lambda>ic0 ic1 ic2. lincomb a u1 b u2 ! ix ic0 ic1 ic2 * T ic0 ic1 ic2)
              = a * sum3 nd (\<lambda>ic0 ic1 ic2. u1 ! ix ic0 ic1 ic2 * T ic0 ic1 ic2)
                + b * sum3 nd (\<lambda>ic0 ic1 ic2. u2 ! ix ic0 ic1 ic2 * T ic0 ic1 ic2)" for T
  proof -
    have "sum3 nd (\<lambda>ic0 ic1 ic2. lincomb a u1 b u2 ! ix ic0 ic1 ic2 * T ic0 ic1 ic2)
          = sum3 nd (\<lambda>ic0 ic1 ic2. a * (u1 ! ix ic0 ic1 ic2 * T ic0 ic1 ic2)
                                  + b * (u2 ! ix ic0 ic1 ic2 * T ic0 ic1 ic2))"
      using range len by (intro sum3_cong) (simp add: nth_lincomb algebra_simps)
    then show ?thesis
      by (simp add: sum3_add sum3_scale)
  qed
  have three: "lincomb a [x0, x1, x2] b [y0, y1, y2] = [a * x0 + b * y0, a * x1 + b * y1, a * x2 + b * y2]"
    for x0 x1 x2 y0 y1 y2
    by (simp add: lincomb_def)
  show ?thesis
    by (simp only: coefficient_section_sum3 three entry)
qed

lemma physical_gradient_lincomb:
  "physical_gradient J (lincomb a [g0, g1, g2] b [h0, h1, h2])
   = lincomb a (physical_gradient J [g0, g1, g2]) b (physical_gradient J [h0, h1, h2])"
  by (simp add: physical_gradient_def lincomb_def Let_def algebra_simps)

lemma flux_dot_lincomb:
  "flux_dot (pulled_back_flux c0 J (lincomb a [g0, g1, g2] b [h0, h1, h2]) weight) k
   = a * flux_dot (pulled_back_flux c0 J [g0, g1, g2] weight) k
     + b * flux_dot (pulled_back_flux c0 J [h0, h1, h2] weight) k"
  unfolding flux_dot_pulled_back physical_gradient_lincomb
  by (simp add: physical_gradient_def lincomb_def Let_def algebra_simps)

lemma cell_form_lincomb:
  assumes range: "\<And>i0 i1 i2. i0 < nd \<Longrightarrow> i1 < nd \<Longrightarrow> i2 < nd \<Longrightarrow> ix i0 i1 i2 < n"
      and len: "length u1 = n" "length u2 = n"
  shows "cell_form nq weights Dg Vg nd ix Dw Vw coordinate_dofs c (lincomb a u1 b u2) v
         = a * cell_form nq weights Dg Vg nd ix Dw Vw coordinate_dofs c u1 v
           + b * cell_form nq weights Dg Vg nd ix Dw Vw coordinate_dofs c u2 v"
proof -
  have point: "flux_dot (pulled_back_flux c0 J
                   (coefficient_section nd ix Dw Vw (lincomb a u1 b u2) iq0 iq1 iq2) weight) k
               = a * flux_dot (pulled_back_flux c0 J
                       (coefficient_section nd ix Dw Vw u1 iq0 iq1 iq2) weight) k
                 + b * flux_dot (pulled_back_flux c0 J
                       (coefficient_section nd ix Dw Vw u2 iq0 iq1 iq2) weight) k"
    for c0 J weight k iq0 iq1 iq2
  proof -
    obtain g0 g1 g2 where g: "coefficient_section nd ix Dw Vw u1 iq0 iq1 iq2 = [g0, g1, g2]"
      by (simp add: coefficient_section_def)
    obtain h0 h1 h2 where h: "coefficient_section nd ix Dw Vw u2 iq0 iq1 iq2 = [h0, h1, h2]"
      by (simp add: coefficient_section_def)
    have "coefficient_section nd ix Dw Vw (lincomb a u1 b u2) iq0 iq1 iq2
          = lincomb a [g0, g1, g2] b [h0, h1, h2]"
      using coefficient_section_lincomb[where Dw = Dw and Vw = Vw and a = a and b = b
              and ?iq0.0 = iq0 and ?iq1.0 = iq1 and ?iq2.0 = iq2, OF range len]
      by (simp only: g h)
    then show ?thesis
      by (simp only: flux_dot_lincomb g h)
  qed
  show ?thesis
    unfolding cell_form_def quadrature_point_pulled_back point
    by (simp add: sum3_add sum3_scale)
qed

subsection \<open>Gather, scatter and launch\<close>

lemma length_gather_w [simp]: "length (gather_w space_dim wglobal dofmap cell_id) = space_dim"
  by (simp add: gather_w_def)

lemma nth_gather_w:
  "i < space_dim \<Longrightarrow>
     gather_w space_dim wglobal dofmap cell_id ! i = wglobal ! (dofmap ! (cell_id * space_dim + i))"
  by (simp add: gather_w_def)

lemma dofmap_in_rangeD:
  assumes "dofmap_in_range space_dim num_cells dofmap ndofs"
      and "cell_id < num_cells" and "i < space_dim"
  shows "dofmap ! (cell_id * space_dim + i) < ndofs"
proof -
  have "cell_id * space_dim + i < Suc cell_id * space_dim"
    using assms(3) by simp
  also have "\<dots> \<le> num_cells * space_dim"
    using assms(2) by (intro mult_le_mono1) simp
  finally have below: "cell_id * space_dim + i < num_cells * space_dim" .
  then have "take (num_cells * space_dim) dofmap ! (cell_id * space_dim + i)
             = dofmap ! (cell_id * space_dim + i)"
    by simp
  moreover have "take (num_cells * space_dim) dofmap ! (cell_id * space_dim + i) < ndofs"
    using assms(1) below by (simp add: dofmap_in_range_def list_all_length)
  ultimately show ?thesis
    by simp
qed

lemma scatter_add_events:
  "scatter space_dim dofmap cell_id A = add_events (cell_events space_dim dofmap cell_id A)"
  by (simp add: scatter_def add_events_def cell_events_def fold_map comp_def)

lemma length_add_events [simp]: "length (add_events events Aglobal) = length Aglobal"
  by (induction events arbitrary: Aglobal) (simp_all add: add_events_def)

lemma length_scatter [simp]: "length (scatter space_dim dofmap cell_id A Aglobal) = length Aglobal"
  by (simp add: scatter_add_events)

lemma scatter_dot:
  assumes range: "\<And>i. i < space_dim \<Longrightarrow> dofmap ! (cell_id * space_dim + i) < length Aglobal"
      and lenA: "length A = space_dim"
  shows "dot v (scatter space_dim dofmap cell_id A Aglobal)
         = dot v Aglobal + dot (gather_w space_dim v dofmap cell_id) A"
proof -
  let ?h = "\<lambda>i. v ! (dofmap ! (cell_id * space_dim + i)) * A ! i"
  have "length (scatter space_dim dofmap cell_id A Aglobal) = length Aglobal
        \<and> dot v (scatter space_dim dofmap cell_id A Aglobal)
          = dot v Aglobal + sum_list (map ?h [0..<space_dim])"
    unfolding scatter_def
  proof (rule fold_additive[where P = "\<lambda>B. length B = length Aglobal" and q = "dot v" and h = ?h])
    show "length Aglobal = length Aglobal" ..
  next
    fix i and B :: "real list"
    assume "i \<in> set [0..<space_dim]" "length B = length Aglobal"
    then show "length (atomicAdd B (dofmap ! (cell_id * space_dim + i)) (A ! i)) = length Aglobal
               \<and> dot v (atomicAdd B (dofmap ! (cell_id * space_dim + i)) (A ! i)) = dot v B + ?h i"
      using range by (simp add: dot_atomicAdd)
  qed
  moreover have "sum_list (map ?h [0..<space_dim]) = dot (gather_w space_dim v dofmap cell_id) A"
    by (simp add: dot_def lenA interv_sum_list_conv_sum_set_nat atLeast0LessThan nth_gather_w)
  ultimately show ?thesis
    by simp
qed

lemma scatter_frame:
  assumes "\<And>i. i < space_dim \<Longrightarrow> dofmap ! (cell_id * space_dim + i) \<noteq> j"
  shows "scatter space_dim dofmap cell_id A Aglobal ! j = Aglobal ! j"
proof -
  have "True \<and> scatter space_dim dofmap cell_id A Aglobal ! j
               = Aglobal ! j + sum_list (map (\<lambda>i. 0) [0..<space_dim])"
    unfolding scatter_def
  proof (rule fold_additive[where P = "\<lambda>B. True" and q = "\<lambda>B. B ! j" and h = "\<lambda>i. 0"])
    show True ..
  next
    fix i and B :: "real list"
    assume "i \<in> set [0..<space_dim]"
    then show "True \<and> atomicAdd B (dofmap ! (cell_id * space_dim + i)) (A ! i) ! j = B ! j + 0"
      using assms by (simp add: atomicAdd_def)
  qed
  then show ?thesis
    by simp
qed

text \<open>The blocks of a launch, one after the other, are the threads in the order of their index.\<close>

lemma map_shift_upt: "map (\<lambda>t. n + t) [0..<m] = [n..<n + m]"
  by (induction m) simp_all

lemma launch_sequential_flat:
  "launch_sequential grid_size block_size thread = fold thread [0..<grid_size * block_size]"
proof -
  let ?block = "\<lambda>blockIdx. fold (\<lambda>threadIdx. thread (blockIdx * block_size + threadIdx))
                              [0..<block_size]"
  have "fold ?block [0..<g] = fold thread [0..<g * block_size]" for g
  proof (induction g)
    case 0
    show ?case by simp
  next
    case (Suc g)
    have one: "?block g = fold thread [g * block_size..<g * block_size + block_size]"
      by (simp only: map_shift_upt[symmetric] fold_map comp_def)
    have split: "[0..<g * block_size + block_size]
                 = [0..<g * block_size] @ [g * block_size..<g * block_size + block_size]"
      by (rule upt_add_eq_append) simp
    have size: "Suc g * block_size = g * block_size + block_size"
      by simp
    have "fold ?block [0..<Suc g] = ?block g \<circ> fold ?block [0..<g]"
      by (simp add: fun_eq_iff)
    also have "\<dots> = fold thread [g * block_size..<g * block_size + block_size]
                      \<circ> fold thread [0..<g * block_size]"
      by (simp only: one Suc.IH)
    also have "\<dots> = fold thread [0..<g * block_size + block_size]"
      by (simp only: split fold_append)
    finally show ?case
      by (simp only: size)
  qed
  then show ?thesis
    by (simp add: launch_sequential_def)
qed

text \<open>The threads beyond the cell count fail the bounds check and do nothing.\<close>

lemma fold_idle_threads:
  assumes idle: "\<And>t B. num_cells \<le> t \<Longrightarrow> thread t B = B"
      and "num_cells \<le> thread_count"
  shows "fold thread [0..<thread_count] A = fold thread [0..<num_cells] A"
proof -
  have rest: "fold thread [num_cells..<num_cells + k] B = B" for k B
    by (induction k arbitrary: B) (simp_all add: idle)
  have "[0..<num_cells + (thread_count - num_cells)]
        = [0..<num_cells] @ [num_cells..<num_cells + (thread_count - num_cells)]"
    by (rule upt_add_eq_append) simp
  moreover have "num_cells + (thread_count - num_cells) = thread_count"
    using assms(2) by simp
  ultimately have "fold thread [0..<thread_count] A
                   = fold thread [num_cells..<num_cells + (thread_count - num_cells)]
                       (fold thread [0..<num_cells] A)"
    by (metis fold_append comp_apply)
  then show ?thesis
    by (simp only: rest)
qed

lemma grid_covers_cells: "(num_cells::nat) \<le> (num_cells + 256 - 1) div 256 * 256"
proof -
  define q where "q = (num_cells + 255) div 256 * 256"
  define r where "r = (num_cells + 255) mod 256"
  have "q + r = num_cells + 255"
    unfolding q_def r_def by (rule div_mult_mod_eq)
  moreover have "r < 256"
    unfolding r_def by (rule mod_less_divisor) simp
  ultimately have "num_cells \<le> q"
    by linarith
  moreover have "num_cells + 256 - 1 = num_cells + 255"
    by simp
  ultimately show ?thesis
    by (simp only: q_def)
qed

lemma fold_cong_upt:
  "(\<And>t. t < n \<Longrightarrow> f t = g t) \<Longrightarrow> fold f [0..<n] = fold g [0..<n]"
  by (intro ext fold_cong) auto

text \<open>
  A call with an assigned kernel and a successful launch returns the operator and the
  input as they were, and the output with the cell tensor of every cell scattered
  into it, cell after cell.
\<close>

lemma operator_call_assembles:
  assumes "op_tabulate_tensor op \<noteq> Kernel_unassigned"
  shows "operator_call op A_uninit hipSuccess inp out
         = Inr (op, inp,
                fold (\<lambda>cell_id. scatter (space_dim_of (op_tabulate_tensor op)) (op_dofmap op) cell_id
                                  (cell_tensor op A_uninit inp cell_id))
                  [0..<op_num_cells op] out)"
proof (cases "op_tabulate_tensor op")
  case Kernel_Q1
  let ?thread = "\<lambda>cell_id Ag. tabulate_tensor_Q1 (A_uninit cell_id) (op_num_cells op) Ag inp
                    (op_constants op) (op_x op) (op_x_dofmap op) (op_dofmap op) cell_id"
  have "fold ?thread [0..<(op_num_cells op + 256 - 1) div 256 * 256] out
        = fold ?thread [0..<op_num_cells op] out"
    by (rule fold_idle_threads) (simp_all add: tabulate_tensor_Q1_def grid_covers_cells)
  also have "fold ?thread [0..<op_num_cells op]
             = fold (\<lambda>cell_id. scatter 8 (op_dofmap op) cell_id (cell_tensor op A_uninit inp cell_id))
                 [0..<op_num_cells op]"
    by (rule fold_cong_upt) (simp add: tabulate_tensor_Q1_def cell_tensor_def Kernel_Q1 fun_eq_iff)
  finally show ?thesis
    by (simp add: operator_call_def Kernel_Q1 launch_sequential_flat space_dim_of_def)
next
  case Kernel_Q2
  let ?thread = "\<lambda>cell_id Ag. tabulate_tensor_Q2 (op_num_cells op) Ag inp
                    (op_constants op) (op_x op) (op_x_dofmap op) (op_dofmap op) cell_id"
  have "fold ?thread [0..<(op_num_cells op + 256 - 1) div 256 * 256] out
        = fold ?thread [0..<op_num_cells op] out"
    by (rule fold_idle_threads) (simp_all add: tabulate_tensor_Q2_def grid_covers_cells)
  also have "fold ?thread [0..<op_num_cells op]
             = fold (\<lambda>cell_id. scatter 27 (op_dofmap op) cell_id (cell_tensor op A_uninit inp cell_id))
                 [0..<op_num_cells op]"
    by (rule fold_cong_upt) (simp add: tabulate_tensor_Q2_def cell_tensor_def Kernel_Q2 fun_eq_iff)
  finally show ?thesis
    by (simp add: operator_call_def Kernel_Q2 launch_sequential_flat space_dim_of_def)
next
  case Kernel_unassigned
  then show ?thesis
    using assms by simp
qed

subsection \<open>The frame of a call\<close>

text \<open>
  C8. One call to apply mutates only the output vector: the operator with its
  constants, coordinate array and two dofmaps, and the input vector, are what they
  were when the call returns, and every output entry whose index is not in the field
  dofmap of any cell is unchanged. The call is one with an assigned kernel and a
  successful launch; the output keeps its length.
\<close>

theorem apply_changes_only_listed_output_entries:
  assumes "op_tabulate_tensor op \<noteq> Kernel_unassigned"
  shows "\<exists>out'. operator_call op A_uninit hipSuccess inp out = Inr (op, inp, out')
           \<and> length out' = length out
           \<and> (\<forall>j. (\<forall>cell_id < op_num_cells op. \<forall>i < space_dim_of (op_tabulate_tensor op).
                      op_dofmap op ! (cell_id * space_dim_of (op_tabulate_tensor op) + i) \<noteq> j)
                    \<longrightarrow> out' ! j = out ! j)"
proof -
  let ?sd = "space_dim_of (op_tabulate_tensor op)"
  let ?step = "\<lambda>cell_id. scatter ?sd (op_dofmap op) cell_id (cell_tensor op A_uninit inp cell_id)"
  let ?out = "fold ?step [0..<op_num_cells op] out"
  have len: "length (fold ?step cells B) = length B" for cells B
    by (induction cells arbitrary: B) simp_all
  have frame: "?out ! j = out ! j"
    if "\<forall>cell_id < op_num_cells op. \<forall>i < ?sd. op_dofmap op ! (cell_id * ?sd + i) \<noteq> j" for j
  proof -
    have "True \<and> ?out ! j = out ! j + sum_list (map (\<lambda>cell_id. 0) [0..<op_num_cells op])"
    proof (rule fold_additive[where P = "\<lambda>B. True" and q = "\<lambda>B. B ! j" and h = "\<lambda>cell_id. 0"])
      show True ..
    next
      fix cell_id and B :: "real list"
      assume "cell_id \<in> set [0..<op_num_cells op]"
      then show "True \<and> ?step cell_id B ! j = B ! j + 0"
        using that by (simp add: scatter_frame)
    qed
    then show ?thesis
      by simp
  qed
  show ?thesis
    using operator_call_assembles[OF assms, of A_uninit inp out] len frame by blast
qed

theorem apply_changes_only_listed_output_entries_witness:
  "op_tabulate_tensor unit_cube_Q1 \<noteq> Kernel_unassigned
   \<and> (\<exists>out'. operator_call unit_cube_Q1 (\<lambda>cell_id. replicate 8 0) hipSuccess
                (replicate 10 1) (replicate 10 0)
              = Inr (unit_cube_Q1, replicate 10 1, out')
        \<and> length out' = length (replicate 10 (0::real))
        \<and> (\<forall>j. (\<forall>cell_id < op_num_cells unit_cube_Q1.
                   \<forall>i < space_dim_of (op_tabulate_tensor unit_cube_Q1).
                     op_dofmap unit_cube_Q1
                       ! (cell_id * space_dim_of (op_tabulate_tensor unit_cube_Q1) + i) \<noteq> j)
                 \<longrightarrow> out' ! j = replicate 10 (0::real) ! j))"
proof -
  have h: "op_tabulate_tensor unit_cube_Q1 \<noteq> Kernel_unassigned"
    by (simp add: unit_cube_Q1_def MatFreeLaplace_new_def)
  show ?thesis
    using h apply_changes_only_listed_output_entries[OF h] by blast
qed

subsection \<open>Schedules\<close>

lemma atomicAdd_commute:
  "atomicAdd (atomicAdd A d1 v1) d2 v2 = atomicAdd (atomicAdd A d2 v2) d1 v1"
proof (cases "d1 = d2")
  case True
  then show ?thesis
    by (cases "d1 < length A")
       (simp_all add: atomicAdd_def add.commute add.left_commute list_update_beyond not_less)
next
  case False
  then show ?thesis
    by (simp add: atomicAdd_def list_update_swap)
qed

lemma add_events_permute:
  assumes "mset xs = mset ys"
  shows "add_events xs = add_events ys"
  unfolding add_events_def
  by (rule fold_multiset_equiv[OF _ assms]) (simp add: fun_eq_iff atomicAdd_commute)

lemma add_events_append: "add_events (xs @ ys) A = add_events ys (add_events xs A)"
  by (simp add: add_events_def)

lemma mset_concat_take_thread:
  assumes "t < length threads" and "threads ! t = e # rest"
  shows "mset (e # concat (threads[t := rest])) = mset (concat threads)"
proof -
  have split: "threads = take t threads @ (e # rest) # drop (Suc t) threads"
    using id_take_nth_drop[OF assms(1)] assms(2) by simp
  have "mset (concat threads)
        = mset (concat (take t threads @ (e # rest) # drop (Suc t) threads))"
    using arg_cong[OF split, of "\<lambda>ts. mset (concat ts)"] .
  then have whole: "mset (concat threads)
                    = mset (concat (take t threads)) + (add_mset e (mset rest)
                      + mset (concat (drop (Suc t) threads)))"
    by simp
  have "threads[t := rest] = take t threads @ rest # drop (Suc t) threads"
    using assms(1) by (rule upd_conv_take_nth_drop)
  then have "mset (concat (threads[t := rest]))
             = mset (concat (take t threads)) + (mset rest + mset (concat (drop (Suc t) threads)))"
    by simp
  then show ?thesis
    using whole by simp
qed

text \<open>
  Whatever the schedule, the additions done so far followed by the additions still
  to do give what the additions of all threads give, thread after thread.
\<close>

lemma run_schedule_invariant:
  "add_events (concat (fst (run_schedule sched threads A))) (snd (run_schedule sched threads A))
   = add_events (concat threads) A"
proof (induction sched arbitrary: threads A)
  case Nil
  show ?case by simp
next
  case (Cons t sched)
  show ?case
  proof (cases "t < length threads")
    case False
    then show ?thesis
      using Cons.IH[of threads A] by simp
  next
    case less: True
    show ?thesis
    proof (cases "threads ! t")
      case Nil
      then show ?thesis
        using Cons.IH[of threads A] less by simp
    next
      case (Cons e rest)
      have "add_events (concat (threads[t := rest])) (atomicAdd A (fst e) (snd e))
            = add_events (e # concat (threads[t := rest])) A"
        by (simp add: add_events_def)
      also have "\<dots> = add_events (concat threads) A"
        using add_events_permute[OF mset_concat_take_thread[OF less Cons]] by simp
      finally show ?thesis
        using Cons.IH[of "threads[t := rest]" "atomicAdd A (fst e) (snd e)"] less Cons
        by simp
    qed
  qed
qed

lemma all_finished_concat: "all_finished threads \<Longrightarrow> concat threads = []"
  by (induction threads) (simp_all add: all_finished_def)

lemma thread_events_idle:
  "op_num_cells op \<le> cell_id \<Longrightarrow> thread_events op A_uninit inp cell_id = []"
  by (simp add: thread_events_def)

lemma thread_events_cell:
  assumes "cell_id < op_num_cells op"
  shows "thread_events op A_uninit inp cell_id
         = cell_events (space_dim_of (op_tabulate_tensor op)) (op_dofmap op) cell_id
             (cell_tensor op A_uninit inp cell_id)"
  using assms
  by (cases "op_tabulate_tensor op")
     (simp_all add: thread_events_def cell_tensor_def space_dim_of_def cell_events_def)

lemma fold_concat_lists: "fold f (concat xss) = fold (fold f) xss"
  by (induction xss) simp_all

lemma add_events_threads:
  "add_events (concat (map (thread_events op A_uninit inp) [0..<num_threads op])) out
   = fold (\<lambda>cell_id. scatter (space_dim_of (op_tabulate_tensor op)) (op_dofmap op) cell_id
                       (cell_tensor op A_uninit inp cell_id))
       [0..<op_num_cells op] out"
proof -
  let ?run = "\<lambda>cell_id. add_events (thread_events op A_uninit inp cell_id)"
  have "add_events (concat (map (thread_events op A_uninit inp) [0..<num_threads op])) out
        = fold ?run [0..<num_threads op] out"
    by (simp add: add_events_def fold_concat_lists fold_map comp_def)
  also have "\<dots> = fold ?run [0..<op_num_cells op] out"
    unfolding num_threads_def
    by (rule fold_idle_threads) (simp_all add: thread_events_idle add_events_def grid_covers_cells)
  also have "fold ?run [0..<op_num_cells op]
             = fold (\<lambda>cell_id. scatter (space_dim_of (op_tabulate_tensor op)) (op_dofmap op) cell_id
                                 (cell_tensor op A_uninit inp cell_id))
                 [0..<op_num_cells op]"
    by (rule fold_cong_upt) (simp add: thread_events_cell scatter_add_events)
  finally show ?thesis .
qed

text \<open>
  C7. Every cell's thread adds its local tensor to the shared output by atomic
  additions. Under exact arithmetic, whatever the order in which the threads
  interleave their additions, once all threads have finished the output is the one
  of the sequential execution, cell by cell. The threads are those of the launch,
  with their additions in program order; the schedule is any list of thread indices.
\<close>

theorem parallel_scatter_equals_sequential:
  assumes "op_tabulate_tensor op \<noteq> Kernel_unassigned"
      and "all_finished
             (fst (run_schedule sched
                     (map (thread_events op A_uninit inp) [0..<num_threads op]) out))"
  shows "operator_call op A_uninit hipSuccess inp out
         = Inr (op, inp,
                snd (run_schedule sched
                       (map (thread_events op A_uninit inp) [0..<num_threads op]) out))"
proof -
  let ?threads = "map (thread_events op A_uninit inp) [0..<num_threads op]"
  have finished: "concat (fst (run_schedule sched ?threads out)) = []"
    by (rule all_finished_concat[OF assms(2)])
  have "snd (run_schedule sched ?threads out)
        = add_events (concat (fst (run_schedule sched ?threads out)))
            (snd (run_schedule sched ?threads out))"
    unfolding finished by (simp add: add_events_def)
  also have "\<dots> = add_events (concat ?threads) out"
    by (rule run_schedule_invariant)
  finally show ?thesis
    by (simp add: operator_call_assembles[OF assms(1)] add_events_threads)
qed

text \<open>
  The two cells of \<open>two_cubes_Q1\<close> taking turns, one addition at a time, finish with
  the output of the sequential execution.
\<close>

lemma upt_0_256:
  "[0..<256] = [0, 1] @ map (\<lambda>t. t + 2) [0..<254]"
proof -
  have "[0..<2 + 254] = [0..<2] @ [2..<2 + 254]"
    by (rule upt_add_eq_append) simp
  moreover have "[2..<2 + 254] = map (\<lambda>t. t + 2) [0..<254]"
    using map_add_upt[of 2 254] by simp
  ultimately show ?thesis
    by (simp add: upt_rec)
qed

lemma two_cubes_threads:
  "map (thread_events two_cubes_Q1 A_uninit inp) [0..<num_threads two_cubes_Q1]
   = [cell_events 8 (op_dofmap two_cubes_Q1) 0 (cell_tensor two_cubes_Q1 A_uninit inp 0),
      cell_events 8 (op_dofmap two_cubes_Q1) 1 (cell_tensor two_cubes_Q1 A_uninit inp 1)]
     @ replicate 254 []"
proof -
  have n: "num_threads two_cubes_Q1 = 256"
    by (simp add: num_threads_def two_cubes_Q1_def MatFreeLaplace_new_def)
  have cells: "op_num_cells two_cubes_Q1 = 2" and kernel: "op_tabulate_tensor two_cubes_Q1 = Kernel_Q1"
    by (simp_all add: two_cubes_Q1_def MatFreeLaplace_new_def)
  have idle: "map (\<lambda>t. thread_events two_cubes_Q1 A_uninit inp (t + 2)) [0..<254] = replicate 254 []"
    by (simp add: thread_events_idle cells map_replicate_const)
  have 0: "thread_events two_cubes_Q1 A_uninit inp 0
           = cell_events 8 (op_dofmap two_cubes_Q1) 0 (cell_tensor two_cubes_Q1 A_uninit inp 0)"
    using thread_events_cell[of 0 two_cubes_Q1 A_uninit inp] by (simp add: cells kernel space_dim_of_def)
  have 1: "thread_events two_cubes_Q1 A_uninit inp 1
           = cell_events 8 (op_dofmap two_cubes_Q1) 1 (cell_tensor two_cubes_Q1 A_uninit inp 1)"
    using thread_events_cell[of 1 two_cubes_Q1 A_uninit inp] by (simp add: cells kernel space_dim_of_def)
  show ?thesis
    unfolding n upt_0_256
    by (simp only: map_append list.map map_map comp_def idle 0 1 append.simps)
qed

theorem parallel_scatter_equals_sequential_witness:
  "op_tabulate_tensor two_cubes_Q1 \<noteq> Kernel_unassigned
   \<and> all_finished
       (fst (run_schedule [0, 1, 0, 1, 0, 1, 0, 1, 0, 1, 0, 1, 0, 1, 0, 1]
               (map (thread_events two_cubes_Q1 (\<lambda>cell_id. replicate 8 0) (replicate 12 1))
                  [0..<num_threads two_cubes_Q1])
               (replicate 12 0)))
   \<and> operator_call two_cubes_Q1 (\<lambda>cell_id. replicate 8 0) hipSuccess (replicate 12 1) (replicate 12 0)
     = Inr (two_cubes_Q1, replicate 12 1,
            snd (run_schedule [0, 1, 0, 1, 0, 1, 0, 1, 0, 1, 0, 1, 0, 1, 0, 1]
                   (map (thread_events two_cubes_Q1 (\<lambda>cell_id. replicate 8 0) (replicate 12 1))
                      [0..<num_threads two_cubes_Q1])
                   (replicate 12 0)))"
proof -
  have h1: "op_tabulate_tensor two_cubes_Q1 \<noteq> Kernel_unassigned"
    by (simp add: two_cubes_Q1_def MatFreeLaplace_new_def)
  have h2: "all_finished
       (fst (run_schedule [0, 1, 0, 1, 0, 1, 0, 1, 0, 1, 0, 1, 0, 1, 0, 1]
               (map (thread_events two_cubes_Q1 (\<lambda>cell_id. replicate 8 0) (replicate 12 1))
                  [0..<num_threads two_cubes_Q1])
               (replicate 12 0)))"
    unfolding two_cubes_threads
    by (simp add: cell_events_def all_finished_def upt_rec list_all_iff)
  show ?thesis
    by (intro conjI h1 h2 parallel_scatter_equals_sequential[OF h1 h2])
qed

subsection \<open>A constant coefficient in the degree-1 kernel\<close>

lemma upt_0_8: "[0..<8] = [0, 1, 2, 3, 4, 5, 6, 7]"
  by (simp add: upt_rec)

lemma below_3: "(i::nat) < 3 \<Longrightarrow> i = 0 \<or> i = 1 \<or> i = 2"
  by auto

lemma below_4: "(i::nat) < 4 \<Longrightarrow> i = 0 \<or> i = 1 \<or> i = 2 \<or> i = 3"
  by auto

lemma Q1_FE_TF0_rows:
  assumes "iq < 3"
  shows "Q1_FE_TF0 ! 0 ! 0 ! iq ! 0 = - 1" and "Q1_FE_TF0 ! 0 ! 0 ! iq ! Suc 0 = 1"
  using below_3[OF assms] by (auto simp: Q1_FE_TF0_def)

text \<open>
  The rows of the derivative table of the degree-1 kernel are \<open>{-1, 1}\<close>, so the
  reference gradient of a constant coefficient is exactly zero at every quadrature
  point, and so is the flux, whatever the geometry.
\<close>

lemma Q1_gradient_of_constant:
  assumes "iq0 < 3" "iq1 < 3" "iq2 < 3"
  shows "coefficient_section 2 (\<lambda>i0 i1 i2. 4 * i0 + 2 * i1 + i2) Q1_FE_TF0 Q1_FE_TF1
           [a, a, a, a, a, a, a, a] iq0 iq1 iq2 = [0, 0, 0]"
  by (simp add: coefficient_section_def acc3_def loop3_def upt_0_2 Q1_FE_TF0_rows[OF assms(1)]
        Q1_FE_TF0_rows[OF assms(2)] Q1_FE_TF0_rows[OF assms(3)])

lemma pulled_back_flux_of_zero: "pulled_back_flux c0 J [0, 0, 0] weight = (0, 0, 0)"
  by (simp add: pulled_back_flux_def physical_gradient_def Let_def)

lemma tensor_computation_of_zero: "tensor_computation nd ix Dw Vw (0, 0, 0) iq0 iq1 iq2 A = A"
  unfolding tensor_computation_def by (simp add: Let_def loop3_identity)

lemma cell_tensor_Q1_of_constant:
  assumes "gather_w 8 wglobal dofmap cell_id = [a, a, a, a, a, a, a, a]"
  shows "cell_tensor_Q1 A_uninit wglobal c coordinate_dofs_global geom_dofmap dofmap cell_id
         = A_uninit"
  unfolding cell_tensor_Q1_def Let_def quadrature_loop_def assms
  by (rule loop3_identity)
     (simp only: quadrature_point_pulled_back Q1_gradient_of_constant pulled_back_flux_of_zero
        tensor_computation_of_zero)

lemma unit_cube_Q1_fields [simp]:
  "op_num_cells unit_cube_Q1 = 1"
  "op_tabulate_tensor unit_cube_Q1 = Kernel_Q1"
  "op_dofmap unit_cube_Q1 = [0, 1, 2, 3, 4, 5, 6, 7]"
  "op_x_dofmap unit_cube_Q1 = [0, 1, 2, 3, 4, 5, 6, 7]"
  "op_constants unit_cube_Q1 = [1]"
  "op_x unit_cube_Q1 = cube_x 1"
  by (simp_all add: unit_cube_Q1_def MatFreeLaplace_new_def upt_rec)

text \<open>
  On the single unit cube with a constant coefficient, the output of the degree-1
  kernel is the output before the call plus the content that the stack buffer \<open>A\<close>
  had when the thread started.
\<close>

lemma unit_cube_Q1_constant_field:
  "operator_call unit_cube_Q1 A_uninit hipSuccess [a, a, a, a, a, a, a, a]
     [o0, o1, o2, o3, o4, o5, o6, o7]
   = Inr (unit_cube_Q1, [a, a, a, a, a, a, a, a],
          [o0 + A_uninit 0 ! 0, o1 + A_uninit 0 ! 1, o2 + A_uninit 0 ! 2, o3 + A_uninit 0 ! 3,
           o4 + A_uninit 0 ! 4, o5 + A_uninit 0 ! 5, o6 + A_uninit 0 ! 6, o7 + A_uninit 0 ! 7])"
proof -
  have gather: "gather_w 8 [a, a, a, a, a, a, a, a] [0, 1, 2, 3, 4, 5, 6, 7] 0
                = [a, a, a, a, a, a, a, a]"
    by (simp add: gather_w_def upt_rec)
  have tensor: "cell_tensor unit_cube_Q1 A_uninit [a, a, a, a, a, a, a, a] 0 = A_uninit 0"
    by (simp only: cell_tensor_def unit_cube_Q1_fields kernel_pointer.case
          cell_tensor_Q1_of_constant[OF gather])
  have "operator_call unit_cube_Q1 A_uninit hipSuccess [a, a, a, a, a, a, a, a]
          [o0, o1, o2, o3, o4, o5, o6, o7]
        = Inr (unit_cube_Q1, [a, a, a, a, a, a, a, a],
               scatter 8 [0, 1, 2, 3, 4, 5, 6, 7] 0 (A_uninit 0) [o0, o1, o2, o3, o4, o5, o6, o7])"
    by (subst operator_call_assembles) (simp_all add: space_dim_of_def tensor)
  moreover have "scatter 8 [0, 1, 2, 3, 4, 5, 6, 7] 0 (A_uninit 0) [o0, o1, o2, o3, o4, o5, o6, o7]
                 = [o0 + A_uninit 0 ! 0, o1 + A_uninit 0 ! 1, o2 + A_uninit 0 ! 2,
                    o3 + A_uninit 0 ! 3, o4 + A_uninit 0 ! 4, o5 + A_uninit 0 ! 5,
                    o6 + A_uninit 0 ! 6, o7 + A_uninit 0 ! 7]"
    by (simp add: scatter_def atomicAdd_def upt_0_8)
  ultimately show ?thesis
    by (simp only:)
qed

text \<open>
  C2. The claim: the buffer \<open>A\<close> of the degree-1 kernel holds zero in every entry when
  the quadrature loop starts, so that what is scattered is the sum of the cell's
  quadrature contributions. The degree-2 kernel zeroes its buffer; the degree-1
  kernel declares \<open>double A[8];\<close> and only adds to it. On the unit cube with the
  coefficient 1 every contribution is zero (a zeroed buffer stays zero), and a
  buffer that starts with 1 in its first entry is scattered as it is: the output,
  zero before the call, is \<open>[1, 0, 0, 0, 0, 0, 0, 0]\<close> after it.
\<close>

theorem Q1_scatters_uninitialised_buffer:
  "cell_tensor_Q1 [0, 0, 0, 0, 0, 0, 0, 0] [1, 1, 1, 1, 1, 1, 1, 1] [1] (cube_x 1)
     [0, 1, 2, 3, 4, 5, 6, 7] [0, 1, 2, 3, 4, 5, 6, 7] 0 = [0, 0, 0, 0, 0, 0, 0, 0]
   \<and> cell_tensor_Q1 [1, 0, 0, 0, 0, 0, 0, 0] [1, 1, 1, 1, 1, 1, 1, 1] [1] (cube_x 1)
       [0, 1, 2, 3, 4, 5, 6, 7] [0, 1, 2, 3, 4, 5, 6, 7] 0 = [1, 0, 0, 0, 0, 0, 0, 0]
   \<and> operator_call unit_cube_Q1 (\<lambda>cell_id. [1, 0, 0, 0, 0, 0, 0, 0]) hipSuccess
       [1, 1, 1, 1, 1, 1, 1, 1] [0, 0, 0, 0, 0, 0, 0, 0]
     = Inr (unit_cube_Q1, [1, 1, 1, 1, 1, 1, 1, 1], [1, 0, 0, 0, 0, 0, 0, 0])"
proof -
  have gather: "gather_w 8 [1, 1, 1, 1, 1, 1, 1, 1] [0, 1, 2, 3, 4, 5, 6, 7] 0
                = [1, 1, 1, 1, 1, 1, 1, 1]"
    by (simp add: gather_w_def upt_rec)
  have zero: "cell_tensor_Q1 [0, 0, 0, 0, 0, 0, 0, 0] [1, 1, 1, 1, 1, 1, 1, 1] [1] (cube_x 1)
                [0, 1, 2, 3, 4, 5, 6, 7] [0, 1, 2, 3, 4, 5, 6, 7] 0 = [0, 0, 0, 0, 0, 0, 0, 0]"
    by (rule cell_tensor_Q1_of_constant[OF gather])
  have one: "cell_tensor_Q1 [1, 0, 0, 0, 0, 0, 0, 0] [1, 1, 1, 1, 1, 1, 1, 1] [1] (cube_x 1)
               [0, 1, 2, 3, 4, 5, 6, 7] [0, 1, 2, 3, 4, 5, 6, 7] 0 = [1, 0, 0, 0, 0, 0, 0, 0]"
    by (rule cell_tensor_Q1_of_constant[OF gather])
  have out: "operator_call unit_cube_Q1 (\<lambda>cell_id. [1, 0, 0, 0, 0, 0, 0, 0]) hipSuccess
               [1, 1, 1, 1, 1, 1, 1, 1] [0, 0, 0, 0, 0, 0, 0, 0]
             = Inr (unit_cube_Q1, [1, 1, 1, 1, 1, 1, 1, 1], [1, 0, 0, 0, 0, 0, 0, 0])"
    by (simp add: unit_cube_Q1_constant_field)
  show ?thesis
    by (intro conjI zero one out)
qed

text \<open>
  C5. The claim: apply is linear in the coefficient field, for both degree variants.
  In the degree-1 kernel the uninitialised buffer \<open>A\<close> of C2 is added to the output
  of every call, whatever the field. On the unit cube with \<open>a = b = 1\<close> and
  \<open>u1 = u2 = 1\<close>, and a buffer that starts as \<open>[1, 0, 0, 0, 0, 0, 0, 0]\<close> in each
  call: the output for \<open>a * u1 + b * u2\<close> is \<open>[1, 0, ...]\<close>, and
  \<open>a * apply u1 + b * apply u2\<close> is \<open>[2, 0, ...]\<close>.
\<close>

theorem Q1_apply_not_linear_with_uninitialised_buffer:
  "lincomb 1 [1, 1, 1, 1, 1, 1, 1, 1] 1 [1, 1, 1, 1, 1, 1, 1, 1] = [2, 2, 2, 2, 2, 2, 2, 2]
   \<and> output_of (operator_call unit_cube_Q1 (\<lambda>cell_id. [1, 0, 0, 0, 0, 0, 0, 0]) hipSuccess
                  [2, 2, 2, 2, 2, 2, 2, 2] [0, 0, 0, 0, 0, 0, 0, 0])
     = Some [1, 0, 0, 0, 0, 0, 0, 0]
   \<and> output_of (operator_call unit_cube_Q1 (\<lambda>cell_id. [1, 0, 0, 0, 0, 0, 0, 0]) hipSuccess
                  [1, 1, 1, 1, 1, 1, 1, 1] [0, 0, 0, 0, 0, 0, 0, 0])
     = Some [1, 0, 0, 0, 0, 0, 0, 0]
   \<and> lincomb 1 [1, 0, 0, 0, 0, 0, 0, 0] 1 [1, 0, 0, 0, 0, 0, 0, 0] = [2, 0, 0, 0, 0, 0, 0, 0]"
  by (simp add: unit_cube_Q1_constant_field output_of_def lincomb_def)

text \<open>
  C6. The claim: the operator is self-adjoint, for both degree variants. With the
  same buffer in the degree-1 kernel on the unit cube, \<open>u = 0\<close> and \<open>v = 1\<close>: the sum
  of \<open>v\<close> times \<open>apply u\<close> is 1 and the sum of \<open>u\<close> times \<open>apply v\<close> is 0.
\<close>

theorem Q1_apply_not_symmetric_with_uninitialised_buffer:
  "output_of (operator_call unit_cube_Q1 (\<lambda>cell_id. [1, 0, 0, 0, 0, 0, 0, 0]) hipSuccess
                [0, 0, 0, 0, 0, 0, 0, 0] [0, 0, 0, 0, 0, 0, 0, 0])
     = Some [1, 0, 0, 0, 0, 0, 0, 0]
   \<and> output_of (operator_call unit_cube_Q1 (\<lambda>cell_id. [1, 0, 0, 0, 0, 0, 0, 0]) hipSuccess
                  [1, 1, 1, 1, 1, 1, 1, 1] [0, 0, 0, 0, 0, 0, 0, 0])
     = Some [1, 0, 0, 0, 0, 0, 0, 0]
   \<and> dot [1, 1, 1, 1, 1, 1, 1, 1] [1, 0, 0, 0, 0, 0, 0, 0] = 1
   \<and> dot [0, 0, 0, 0, 0, 0, 0, 0] [1, 0, 0, 0, 0, 0, 0, 0] = 0"
  by (simp add: unit_cube_Q1_constant_field output_of_def dot_def lessThan_nat_numeral
        lessThan_Suc)

subsection \<open>The unit cube in the degree-2 kernel\<close>

lemma upt_0_27:
  "[0..<27] = [0, 1, 2, 3, 4, 5, 6, 7, 8, 9, 10, 11, 12, 13, 14, 15, 16, 17, 18, 19, 20, 21, 22,
               23, 24, 25, 26]"
  by (simp add: upt_rec)

lemma Q2_FE_TF3_rows:
  assumes "iq < 4"
  shows "Q2_FE_TF3 ! 0 ! 0 ! iq ! 0 = - 1" and "Q2_FE_TF3 ! 0 ! 0 ! iq ! Suc 0 = 1"
  using below_4[OF assms] by (auto simp: Q2_FE_TF3_def)

text \<open>
  With a derivative table of rows \<open>{-1, 1}\<close>, the Jacobian of the cube of side \<open>h\<close> is
  diagonal: each diagonal entry is \<open>h\<close> times the row sums of the value table in the
  two other directions.
\<close>

lemma cube_jacobian:
  assumes "Dg ! 0 ! 0 ! iq0 ! 0 = - 1" "Dg ! 0 ! 0 ! iq0 ! Suc 0 = 1"
      and "Dg ! 0 ! 0 ! iq1 ! 0 = - 1" "Dg ! 0 ! 0 ! iq1 ! Suc 0 = 1"
      and "Dg ! 0 ! 0 ! iq2 ! 0 = - 1" "Dg ! 0 ! 0 ! iq2 ! Suc 0 = 1"
  shows "jacobian_section Dg Vg (cube_x h) iq0 iq1 iq2
         = [h * (row_sum2 Vg iq1 * row_sum2 Vg iq2), 0, 0,
            0, h * (row_sum2 Vg iq0 * row_sum2 Vg iq2), 0,
            0, 0, h * (row_sum2 Vg iq0 * row_sum2 Vg iq1)]"
  by (simp add: jacobian_section_def acc3_def loop3_def upt_0_2 cube_x_def assms row_sum2_def
        algebra_simps)

lemma gradient_of_ones_27:
  "coefficient_section 3 (\<lambda>i0 i1 i2. 9 * i0 + 3 * i1 + i2) Dw Vw (replicate 27 1) iq0 iq1 iq2
   = [row_sum3 Dw iq0 * (row_sum3 Vw iq1 * row_sum3 Vw iq2),
      row_sum3 Vw iq0 * (row_sum3 Dw iq1 * row_sum3 Vw iq2),
      row_sum3 Vw iq0 * (row_sum3 Vw iq1 * row_sum3 Dw iq2)]"
  by (simp add: coefficient_section_def acc3_def loop3_def upt_0_3 row_sum3_def algebra_simps)

text \<open>The flux for a diagonal Jacobian of that form.\<close>

lemma pulled_back_flux_cube:
  assumes "0 < r0" "0 < r1" "0 < r2"
  shows "pulled_back_flux c0 [r1 * r2, 0, 0, 0, r0 * r2, 0, 0, 0, r0 * r1] [g0, g1, g2] weight
         = (c0 * weight * (g0 * (r0 * r0)), c0 * weight * (g1 * (r1 * r1)),
            c0 * weight * (g2 * (r2 * r2)))"
proof -
  have det: "jacobian_det [r1 * r2, 0, 0, 0, r0 * r2, 0, 0, 0, r0 * r1]
             = (r0 * r1 * r2) * (r0 * r1 * r2)"
    by (simp add: jacobian_det_def algebra_simps)
  have pos: "0 < (r0 * r1 * r2) * (r0 * r1 * r2)"
    using assms by simp
  have nz: "r0 \<noteq> 0" "r1 \<noteq> 0" "r2 \<noteq> 0"
    using assms by simp_all
  show ?thesis
    unfolding pulled_back_flux_def physical_gradient_def inverse_jacobian_def Let_def det
    using pos nz by (simp add: abs_of_pos field_simps)
qed

section \<open>Properties of the telemetry wrapper\<close>

declare busy_loop.simps [simp del]
declare memory_loop.simps [simp del]
declare percentage_loop.simps [simp del]

lemma initialised_call_library [simp]: "initialised (call_library c s) = initialised s"
  by (simp add: call_library_def)

lemma initialised_write_cout [simp]: "initialised (write_cout items s) = initialised s"
  by (simp add: write_cout_def)

lemma cout_call_library [simp]: "cout (call_library c s) = cout s"
  by (simp add: call_library_def)

lemma cout_write_cout [simp]: "cout (write_cout items s) = cout s @ items"
  by (simp add: write_cout_def)

lemma library_calls_write_cout [simp]: "library_calls (write_cout items s) = library_calls s"
  by (simp add: write_cout_def)

lemma library_calls_call_library [simp]: "library_calls (call_library c s) = library_calls s @ [c]"
  by (simp add: call_library_def)

lemma num_monitored_devices_initialised:
  "initialised s \<Longrightarrow>
     num_monitored_devices lib s
     = (lib_num_monitor_devices lib, call_library Rsmi_num_monitor_devices s)"
  by (simp add: num_monitored_devices_def)

lemma num_monitored_devices_not_initialised:
  "\<not> initialised s \<Longrightarrow> num_monitored_devices lib s = (0, s)"
  by (simp add: num_monitored_devices_def)

subsection \<open>The flag guards the library before a successful setup\<close>

text \<open>
  While the flag is not set, no function of the module but \<open>initialise_rocm_smi\<close>
  calls the library, and the flag stays unset.
\<close>

lemma busy_loop_not_initialised: "\<not> initialised s \<Longrightarrow> busy_loop lib tag rank i s = s"
  by (subst busy_loop.simps) (simp add: num_monitored_devices_not_initialised)

lemma memory_loop_not_initialised:
  "\<not> initialised s \<Longrightarrow> memory_loop lib label get call tag rank i s = s"
  by (subst memory_loop.simps) (simp add: num_monitored_devices_not_initialised)

lemma percentage_loop_not_initialised: "\<not> initialised s \<Longrightarrow> percentage_loop lib tag rank i s = s"
  by (subst percentage_loop.simps) (simp add: num_monitored_devices_not_initialised)

lemma no_library_call_before_setup:
  assumes "\<not> initialised s" and "c \<noteq> Initialise"
  shows "library_calls (run_call lib tag rank c s) = library_calls s
         \<and> \<not> initialised (run_call lib tag rank c s)"
  using assms
  by (cases c)
     (simp_all add: shutdown_rocm_smi_def num_monitored_devices_def print_amd_gpu_memory_busy_def
        print_amd_gpu_memory_used_def print_amd_gpu_memory_total_def
        print_amd_gpu_memory_percentage_used_def)

lemma failed_setup_keeps_flag:
  assumes "\<not> initialised s" and "lib_init lib \<noteq> RSMI_STATUS_SUCCESS"
  shows "\<not> initialised (run_call lib tag rank Initialise s)
         \<and> library_calls (run_call lib tag rank Initialise s) = library_calls s @ [Rsmi_init]"
  using assms by (simp add: initialise_rocm_smi_def Let_def)

subsection \<open>The flag after teardown\<close>

text \<open>
  C9. The claim: in every sequence of telemetry calls the library is queried neither
  before a successful \<open>initialise_rocm_smi\<close> nor after \<open>shutdown_rocm_smi\<close>. The first
  half holds (\<open>no_library_call_before_setup\<close>). The second fails: \<open>shutdown_rocm_smi\<close>
  calls \<open>rsmi_shut_down\<close> and leaves \<open>initialised\<close> set, so the guard of a later query
  still passes. After initialise, shutdown and \<open>num_monitored_devices\<close>, the flag is
  set and \<open>rsmi_num_monitor_devices\<close> has been called on the library that was shut
  down.
\<close>

theorem library_queried_after_shutdown:
  "initialised (run_calls failing_library ''label'' 0 [Initialise, Shutdown, Num_monitored_devices] initial_state)
   \<and> library_calls (run_calls failing_library ''label'' 0 [Initialise, Shutdown, Num_monitored_devices] initial_state)
     = [Rsmi_init, Rsmi_shut_down, Rsmi_num_monitor_devices]
   \<and> queries_after_shut_down False
       (library_calls (run_calls failing_library ''label'' 0 [Initialise, Shutdown, Num_monitored_devices] initial_state))
     = [Rsmi_num_monitor_devices]"
  by (simp add: run_calls_def initialise_rocm_smi_def shutdown_rocm_smi_def num_monitored_devices_def
        failing_library_def initial_state_def RSMI_STATUS_SUCCESS_def call_library_def Let_def)

subsection \<open>A failing query ends the report\<close>

lemma busy_loop_report:
  "initialised s \<Longrightarrow>
     cout (busy_loop lib tag rank i s)
     = cout s @ concat (map (busy_line lib tag rank)
                          (takeWhile (busy_ok lib) [i..<lib_num_monitor_devices lib]))
     \<and> initialised (busy_loop lib tag rank i s)"
proof (induction "lib_num_monitor_devices lib - i" arbitrary: i s)
  case 0
  then have "\<not> i < lib_num_monitor_devices lib"
    by simp
  then show ?case
    using \<open>initialised s\<close>
    by (subst (1 2) busy_loop.simps) (simp add: num_monitored_devices_initialised)
next
  case (Suc k)
  then have less: "i < lib_num_monitor_devices lib"
    by simp
  then have range: "[i..<lib_num_monitor_devices lib] = i # [i + 1..<lib_num_monitor_devices lib]"
    by (simp add: upt_conv_Cons)
  note init = \<open>initialised s\<close>
  show ?case
  proof (cases "busy_ok lib i")
    case False
    then show ?thesis
      using init less
      by (subst (1 2) busy_loop.simps)
         (simp add: num_monitored_devices_initialised range busy_ok_def Let_def)
  next
    case ok: True
    let ?s3 = "write_cout (busy_line lib tag rank i)
                 (call_library (Rsmi_dev_memory_busy_percent_get i)
                    (call_library Rsmi_num_monitor_devices s))"
    have step: "busy_loop lib tag rank i s = busy_loop lib tag rank (i + 1) ?s3"
      using init less ok
      by (subst busy_loop.simps)
         (simp add: num_monitored_devices_initialised busy_ok_def busy_line_def Let_def)
    have k: "k = lib_num_monitor_devices lib - (i + 1)"
      using Suc.hyps(2) by simp
    have init3: "initialised ?s3"
      using init by simp
    have "cout (busy_loop lib tag rank (i + 1) ?s3)
          = cout ?s3 @ concat (map (busy_line lib tag rank)
              (takeWhile (busy_ok lib) [i + 1..<lib_num_monitor_devices lib]))
          \<and> initialised (busy_loop lib tag rank (i + 1) ?s3)"
      by (rule Suc.hyps(1)[OF k init3])
    then show ?thesis
      using ok by (simp add: step range)
  qed
qed

lemma memory_type_loop_cout:
  "cout (snd (memory_type_loop get call types s))
     = cout s @ concat (map (type_items get) (takeWhile (type_ok get) types))"
proof (induction types arbitrary: s)
  case Nil
  show ?case by simp
next
  case (Cons a types)
  show ?case
  proof (cases "type_ok get a")
    case True
    then show ?thesis
      using Cons.IH[of "write_cout (type_items get a) (call_library (call a) s)"]
      by (simp add: Let_def type_ok_def type_items_def)
  next
    case False
    then show ?thesis
      by (simp add: Let_def type_ok_def)
  qed
qed

lemma memory_type_loop_fst:
  "fst (memory_type_loop get call types s) = list_all (type_ok get) types"
proof (induction types arbitrary: s)
  case Nil
  show ?case by simp
next
  case (Cons a types)
  show ?case
  proof (cases "type_ok get a")
    case True
    then show ?thesis
      using Cons.IH[of "write_cout (type_items get a) (call_library (call a) s)"]
      by (simp add: Let_def type_ok_def type_items_def)
  next
    case False
    then show ?thesis
      by (simp add: Let_def type_ok_def)
  qed
qed

lemma memory_type_loop_initialised:
  "initialised (snd (memory_type_loop get call types s)) = initialised s"
proof (induction types arbitrary: s)
  case Nil
  show ?case by simp
next
  case (Cons a types)
  show ?case
  proof (cases "type_ok get a")
    case True
    then show ?thesis
      using Cons.IH[of "write_cout (type_items get a) (call_library (call a) s)"]
      by (simp add: Let_def type_ok_def type_items_def)
  next
    case False
    then show ?thesis
      by (simp add: Let_def type_ok_def)
  qed
qed

lemma memory_loop_report:
  "initialised s \<Longrightarrow>
     cout (memory_loop lib label get call tag rank i s)
     = cout s @ memory_report label get tag rank [i..<lib_num_monitor_devices lib]
     \<and> initialised (memory_loop lib label get call tag rank i s)"
proof (induction "lib_num_monitor_devices lib - i" arbitrary: i s)
  case 0
  then have "\<not> i < lib_num_monitor_devices lib"
    by simp
  then show ?case
    using \<open>initialised s\<close>
    by (subst (1 2) memory_loop.simps)
       (simp add: num_monitored_devices_initialised memory_report_def)
next
  case (Suc k)
  then have less: "i < lib_num_monitor_devices lib"
    by simp
  then have range: "[i..<lib_num_monitor_devices lib] = i # [i + 1..<lib_num_monitor_devices lib]"
    by (simp add: upt_conv_Cons)
  note init = \<open>initialised s\<close>
  let ?s2 = "write_cout (line_header label tag rank i) (call_library Rsmi_num_monitor_devices s)"
  let ?r = "memory_type_loop (get i) (call i) memory_types ?s2"
  have r_cout: "cout (snd ?r) = cout s @ line_header label tag rank i
                  @ concat (map (type_items (get i)) (takeWhile (type_ok (get i)) memory_types))"
    by (simp add: memory_type_loop_cout)
  have r_fst: "fst ?r = device_ok get i"
    by (simp add: memory_type_loop_fst device_ok_def)
  have r_init: "initialised (snd ?r)"
    using init by (simp add: memory_type_loop_initialised)
  have unfold: "memory_loop lib label get call tag rank i s
                = (if \<not> fst ?r then snd ?r
                   else memory_loop lib label get call tag rank (i + 1)
                          (write_cout [Text ''\<newline>''] (snd ?r)))"
    using init less
    by (subst memory_loop.simps)
       (simp add: num_monitored_devices_initialised line_header_def Let_def)
  show ?case
  proof (cases "device_ok get i")
    case False
    then show ?thesis
      using r_cout r_init
      by (simp add: unfold r_fst range memory_report_def broken_line_def)
  next
    case ok: True
    let ?s3 = "write_cout [Text ''\<newline>''] (snd ?r)"
    have all: "takeWhile (type_ok (get i)) memory_types = memory_types"
      using ok by (simp add: device_ok_def takeWhile_eq_all_conv list_all_iff)
    have k: "k = lib_num_monitor_devices lib - (i + 1)"
      using Suc.hyps(2) by simp
    have init3: "initialised ?s3"
      using r_init by simp
    have "cout (memory_loop lib label get call tag rank (i + 1) ?s3)
          = cout ?s3 @ memory_report label get tag rank [i + 1..<lib_num_monitor_devices lib]
          \<and> initialised (memory_loop lib label get call tag rank (i + 1) ?s3)"
      by (rule Suc.hyps(1)[OF k init3])
    then show ?thesis
      using ok r_cout all
      by (simp add: unfold r_fst range memory_report_def full_line_def)
  qed
qed

lemma percentage_type_loop_cout:
  "cout (snd (percentage_type_loop lib i types s))
     = cout s @ concat (map (percentage_items lib i) (takeWhile (percentage_ok lib i) types))"
proof (induction types arbitrary: s)
  case Nil
  show ?case by simp
next
  case (Cons a types)
  show ?case
  proof (cases "percentage_ok lib i a")
    case True
    then show ?thesis
      using Cons.IH[of "write_cout (percentage_items lib i a)
                          (call_library (Rsmi_dev_memory_usage_get i a)
                             (call_library (Rsmi_dev_memory_total_get i a) s))"]
      by (simp add: Let_def percentage_ok_def percentage_items_def percentage_used_def)
  next
    case False
    then show ?thesis
      by (simp add: Let_def percentage_ok_def)
  qed
qed

lemma percentage_type_loop_fst:
  "fst (percentage_type_loop lib i types s) = list_all (percentage_ok lib i) types"
proof (induction types arbitrary: s)
  case Nil
  show ?case by simp
next
  case (Cons a types)
  show ?case
  proof (cases "percentage_ok lib i a")
    case True
    then show ?thesis
      using Cons.IH[of "write_cout (percentage_items lib i a)
                          (call_library (Rsmi_dev_memory_usage_get i a)
                             (call_library (Rsmi_dev_memory_total_get i a) s))"]
      by (simp add: Let_def percentage_ok_def percentage_items_def percentage_used_def)
  next
    case False
    then show ?thesis
      by (simp add: Let_def percentage_ok_def)
  qed
qed

lemma percentage_type_loop_initialised:
  "initialised (snd (percentage_type_loop lib i types s)) = initialised s"
proof (induction types arbitrary: s)
  case Nil
  show ?case by simp
next
  case (Cons a types)
  show ?case
  proof (cases "percentage_ok lib i a")
    case True
    then show ?thesis
      using Cons.IH[of "write_cout (percentage_items lib i a)
                          (call_library (Rsmi_dev_memory_usage_get i a)
                             (call_library (Rsmi_dev_memory_total_get i a) s))"]
      by (simp add: Let_def percentage_ok_def percentage_items_def percentage_used_def)
  next
    case False
    then show ?thesis
      by (simp add: Let_def percentage_ok_def)
  qed
qed

lemma percentage_loop_report:
  "initialised s \<Longrightarrow>
     cout (percentage_loop lib tag rank i s)
     = cout s @ percentage_report lib tag rank [i..<lib_num_monitor_devices lib]
     \<and> initialised (percentage_loop lib tag rank i s)"
proof (induction "lib_num_monitor_devices lib - i" arbitrary: i s)
  case 0
  then have "\<not> i < lib_num_monitor_devices lib"
    by simp
  then show ?case
    using \<open>initialised s\<close>
    by (subst (1 2) percentage_loop.simps)
       (simp add: num_monitored_devices_initialised percentage_report_def)
next
  case (Suc k)
  then have less: "i < lib_num_monitor_devices lib"
    by simp
  then have range: "[i..<lib_num_monitor_devices lib] = i # [i + 1..<lib_num_monitor_devices lib]"
    by (simp add: upt_conv_Cons)
  note init = \<open>initialised s\<close>
  let ?s2 = "write_cout (line_header ''  % memory used:'' tag rank i)
               (call_library Rsmi_num_monitor_devices s)"
  let ?r = "percentage_type_loop lib i memory_types ?s2"
  have r_cout: "cout (snd ?r) = cout s @ line_header ''  % memory used:'' tag rank i
                  @ concat (map (percentage_items lib i)
                              (takeWhile (percentage_ok lib i) memory_types))"
    by (simp add: percentage_type_loop_cout)
  have r_fst: "fst ?r = percentage_device_ok lib i"
    by (simp add: percentage_type_loop_fst percentage_device_ok_def)
  have r_init: "initialised (snd ?r)"
    using init by (simp add: percentage_type_loop_initialised)
  have unfold: "percentage_loop lib tag rank i s
                = (if \<not> fst ?r then snd ?r
                   else percentage_loop lib tag rank (i + 1)
                          (write_cout [Text ''\<newline>''] (snd ?r)))"
    using init less
    by (subst percentage_loop.simps)
       (simp add: num_monitored_devices_initialised line_header_def Let_def)
  show ?case
  proof (cases "percentage_device_ok lib i")
    case False
    then show ?thesis
      using r_cout r_init
      by (simp add: unfold r_fst range percentage_report_def percentage_broken_line_def)
  next
    case ok: True
    let ?s3 = "write_cout [Text ''\<newline>''] (snd ?r)"
    have all: "takeWhile (percentage_ok lib i) memory_types = memory_types"
      using ok by (simp add: percentage_device_ok_def takeWhile_eq_all_conv list_all_iff)
    have k: "k = lib_num_monitor_devices lib - (i + 1)"
      using Suc.hyps(2) by simp
    have init3: "initialised ?s3"
      using r_init by simp
    have "cout (percentage_loop lib tag rank (i + 1) ?s3)
          = cout ?s3 @ percentage_report lib tag rank [i + 1..<lib_num_monitor_devices lib]
          \<and> initialised (percentage_loop lib tag rank (i + 1) ?s3)"
      by (rule Suc.hyps(1)[OF k init3])
    then show ?thesis
      using ok r_cout all
      by (simp add: unfold r_fst range percentage_report_def percentage_full_line_def)
  qed
qed

text \<open>
  C10 (amended). The claim: a failing query suppresses one diagnostic line only, and the
  lines of the remaining devices and memory types are still produced. Each of the
  four print functions returns at its first failing query. What holds: the call is
  not fatal (it returns, the flag stays set and what was printed before the call is
  kept), and it prints exactly the lines of the devices before the first failing
  one; the three per-memory-type reports (memory used, total memory, percentage
  used) print in addition the beginning of the failing device's line, up to the
  failing memory type and without the end of line. Nothing is printed for a later
  memory type or device.
\<close>

theorem failing_query_ends_report:
  assumes "initialised s"
  shows "cout (print_amd_gpu_memory_busy lib tag rank s)
           = cout s @ concat (map (busy_line lib tag rank)
                                (takeWhile (busy_ok lib) [0..<lib_num_monitor_devices lib]))
         \<and> initialised (print_amd_gpu_memory_busy lib tag rank s)
         \<and> cout (print_amd_gpu_memory_used lib tag rank s)
           = cout s @ memory_report '' memory used:'' (lib_memory_usage lib) tag rank
                        [0..<lib_num_monitor_devices lib]
         \<and> initialised (print_amd_gpu_memory_used lib tag rank s)
         \<and> cout (print_amd_gpu_memory_total lib tag rank s)
           = cout s @ memory_report '' total memory:'' (lib_memory_total lib) tag rank
                        [0..<lib_num_monitor_devices lib]
         \<and> initialised (print_amd_gpu_memory_total lib tag rank s)
         \<and> cout (print_amd_gpu_memory_percentage_used lib tag rank s)
           = cout s @ percentage_report lib tag rank [0..<lib_num_monitor_devices lib]
         \<and> initialised (print_amd_gpu_memory_percentage_used lib tag rank s)"
  using assms busy_loop_report[of s lib tag rank 0]
    memory_loop_report[of s lib "'' memory used:''" "lib_memory_usage lib" Rsmi_dev_memory_usage_get tag rank 0]
    memory_loop_report[of s lib "'' total memory:''" "lib_memory_total lib" Rsmi_dev_memory_total_get tag rank 0]
    percentage_loop_report[of s lib tag rank 0]
  by (simp add: print_amd_gpu_memory_busy_def print_amd_gpu_memory_used_def
        print_amd_gpu_memory_total_def print_amd_gpu_memory_percentage_used_def)

text \<open>
  With three devices and a failing query on device 1 in every report: each report has
  the line of device 0, the per-memory-type reports have the beginning of the line of
  device 1, and none has anything of device 2.
\<close>

theorem failing_query_ends_report_witness:
  "initialised ready_state
   \<and> cout (print_amd_gpu_memory_busy partly_failing_library ''t'' 0 ready_state)
     = [Text ''t'', Text '' MPI Rank '', SInt 0, Text '' GPU '', UInt 0,
        Text '' Memory Busy %: '', UInt 50, Text ''\<newline>'']
   \<and> cout (print_amd_gpu_memory_used partly_failing_library ''t'' 0 ready_state)
     = [Text ''t'', Text '' MPI Rank '', SInt 0, Text '' GPU '', UInt 0, Text '' memory used:'',
        Text '' '', Text ''VRAM memory'', Text '' '', UInt 1024,
        Text '' '', Text ''Visible VRAM memory'', Text '' '', UInt 1024,
        Text '' '', Text ''GTT memory'', Text '' '', UInt 1024, Text ''\<newline>'',
        Text ''t'', Text '' MPI Rank '', SInt 0, Text '' GPU '', UInt 1, Text '' memory used:'',
        Text '' '', Text ''VRAM memory'', Text '' '', UInt 1024]
   \<and> cout (print_amd_gpu_memory_total partly_failing_library ''t'' 0 ready_state)
     = [Text ''t'', Text '' MPI Rank '', SInt 0, Text '' GPU '', UInt 0, Text '' total memory:'',
        Text '' '', Text ''VRAM memory'', Text '' '', UInt 4096,
        Text '' '', Text ''Visible VRAM memory'', Text '' '', UInt 4096,
        Text '' '', Text ''GTT memory'', Text '' '', UInt 4096, Text ''\<newline>'',
        Text ''t'', Text '' MPI Rank '', SInt 0, Text '' GPU '', UInt 1, Text '' total memory:'',
        Text '' '', Text ''VRAM memory'', Text '' '', UInt 4096,
        Text '' '', Text ''Visible VRAM memory'', Text '' '', UInt 4096]
   \<and> cout (print_amd_gpu_memory_percentage_used partly_failing_library ''t'' 0 ready_state)
     = [Text ''t'', Text '' MPI Rank '', SInt 0, Text '' GPU '', UInt 0, Text ''  % memory used:'',
        Text '' '', Text ''VRAM memory'', Text '' '', Float 25,
        Text '' '', Text ''Visible VRAM memory'', Text '' '', Float 25,
        Text '' '', Text ''GTT memory'', Text '' '', Float 25, Text ''\<newline>'',
        Text ''t'', Text '' MPI Rank '', SInt 0, Text '' GPU '', UInt 1, Text ''  % memory used:'',
        Text '' '', Text ''VRAM memory'', Text '' '', Float 25]"
proof -
  have h: "initialised ready_state"
    by (simp add: ready_state_def)
  show ?thesis
    using h failing_query_ends_report[OF h, of partly_failing_library "''t''" 0]
    by (simp add: upt_0_3 ready_state_def partly_failing_library_def busy_ok_def busy_line_def
          memory_report_def full_line_def broken_line_def line_header_def device_ok_def
          type_ok_def type_items_def memory_types_def percentage_report_def
          percentage_full_line_def percentage_broken_line_def percentage_device_ok_def
          percentage_ok_def percentage_items_def percentage_used_def RSMI_STATUS_SUCCESS_def)
qed

text \<open>
  The claim fails where the query of device 0 fails and the query of device 1 would
  succeed: nothing is printed, so the line of device 1 is not produced.
\<close>

theorem remaining_lines_not_produced:
  "busy_ok failing_library 1
   \<and> cout (print_amd_gpu_memory_busy failing_library ''t'' 0 (initial_state\<lparr>initialised := True\<rparr>)) = []"
proof -
  have h: "initialised (initial_state\<lparr>initialised := True\<rparr>)"
    by simp
  have "takeWhile (busy_ok failing_library) [0..<lib_num_monitor_devices failing_library] = []"
    by (simp add: failing_library_def busy_ok_def RSMI_STATUS_SUCCESS_def upt_rec)
  then show ?thesis
    using busy_loop_report[OF h, of failing_library "''t''" 0 0]
    by (simp add: print_amd_gpu_memory_busy_def initial_state_def busy_ok_def failing_library_def
          RSMI_STATUS_SUCCESS_def)
qed

subsection \<open>The rounded tables of the degree-2 kernel\<close>

text \<open>
  The table entries are decimal literals of sixteen digits. The rows of the value
  tables sum to one, and the rows of the derivative table \<open>FE_TF0\<close> to zero, only up
  to the last digit.
\<close>

lemma Q2_FE_TF0_row_0: "row_sum3 Q2_FE_TF0 0 = - (1 / 10 ^ 16)"
  by (simp add: row_sum3_def Q2_FE_TF0_def)

lemma Q2_FE_TF0_row_sums:
  assumes "iq < 4"
  shows "\<bar>row_sum3 Q2_FE_TF0 iq\<bar> \<le> 1 / 10 ^ 15"
  using below_4[OF assms] by (auto simp: row_sum3_def Q2_FE_TF0_def)

lemma Q2_FE_TF1_row_sums:
  assumes "iq < 4"
  shows "0 < row_sum3 Q2_FE_TF1 iq" and "\<bar>row_sum3 Q2_FE_TF1 iq\<bar> \<le> 101 / 100"
  using below_4[OF assms] by (auto simp: row_sum3_def Q2_FE_TF1_def)

lemma Q2_FE_TF2_row_sums:
  assumes "iq < 4"
  shows "0 < row_sum2 Q2_FE_TF2 iq" and "\<bar>row_sum2 Q2_FE_TF2 iq\<bar> \<le> 101 / 100"
  using below_4[OF assms] by (auto simp: row_sum2_def Q2_FE_TF2_def)

lemma Q2_FE_TF0_entries:
  assumes "iq < 4" and "i < 3"
  shows "\<bar>Q2_FE_TF0 ! 0 ! 0 ! iq ! i\<bar> \<le> 7 / 2"
  using below_4[OF assms(1)] below_3[OF assms(2)] by (auto simp: Q2_FE_TF0_def)

lemma Q2_FE_TF1_entries:
  assumes "iq < 4" and "i < 3"
  shows "\<bar>Q2_FE_TF1 ! 0 ! 0 ! iq ! i\<bar> \<le> 1"
  using below_4[OF assms(1)] below_3[OF assms(2)] by (auto simp: Q2_FE_TF1_def)

lemma weights_be1_bounds:
  assumes "iq0 < 4" "iq1 < 4" "iq2 < 4"
  shows "0 < weights_be1 ! (16 * iq0 + 4 * iq1 + iq2)"
    and "weights_be1 ! (16 * iq0 + 4 * iq1 + iq2) \<le> 35 / 1000"
proof -
  have all: "list_all (\<lambda>w. 0 < w \<and> w \<le> 35 / 1000) weights_be1"
    by (simp add: weights_be1_def)
  have "16 * iq0 + 4 * iq1 + iq2 < length weights_be1"
    using assms by (simp add: weights_be1_def)
  then have "0 < weights_be1 ! (16 * iq0 + 4 * iq1 + iq2)
             \<and> weights_be1 ! (16 * iq0 + 4 * iq1 + iq2) \<le> 35 / 1000"
    using all by (simp add: list_all_length)
  then show "0 < weights_be1 ! (16 * iq0 + 4 * iq1 + iq2)"
    and "weights_be1 ! (16 * iq0 + 4 * iq1 + iq2) \<le> 35 / 1000"
    by simp_all
qed

text \<open>
  The flux of the degree-2 kernel on the unit cube with the coefficient 1: the
  reference gradient is made of row sums, and does not vanish.
\<close>

lemma unit_cube_Q2_flux:
  assumes "iq0 < 4" "iq1 < 4" "iq2 < 4"
  shows "quadrature_point Q2_FE_TF3 Q2_FE_TF2 3 (\<lambda>i0 i1 i2. 9 * i0 + 3 * i1 + i2)
           Q2_FE_TF0 Q2_FE_TF1 weight (cube_x 1) (replicate 27 1) [1] iq0 iq1 iq2
         = (weight * (row_sum3 Q2_FE_TF0 iq0 * (row_sum3 Q2_FE_TF1 iq1 * row_sum3 Q2_FE_TF1 iq2)
                      * (row_sum2 Q2_FE_TF2 iq0 * row_sum2 Q2_FE_TF2 iq0)),
            weight * (row_sum3 Q2_FE_TF1 iq0 * (row_sum3 Q2_FE_TF0 iq1 * row_sum3 Q2_FE_TF1 iq2)
                      * (row_sum2 Q2_FE_TF2 iq1 * row_sum2 Q2_FE_TF2 iq1)),
            weight * (row_sum3 Q2_FE_TF1 iq0 * (row_sum3 Q2_FE_TF1 iq1 * row_sum3 Q2_FE_TF0 iq2)
                      * (row_sum2 Q2_FE_TF2 iq2 * row_sum2 Q2_FE_TF2 iq2)))"
proof -
  have J: "jacobian_section Q2_FE_TF3 Q2_FE_TF2 (cube_x 1) iq0 iq1 iq2
           = [row_sum2 Q2_FE_TF2 iq1 * row_sum2 Q2_FE_TF2 iq2, 0, 0,
              0, row_sum2 Q2_FE_TF2 iq0 * row_sum2 Q2_FE_TF2 iq2, 0,
              0, 0, row_sum2 Q2_FE_TF2 iq0 * row_sum2 Q2_FE_TF2 iq1]"
    using cube_jacobian[OF Q2_FE_TF3_rows[OF assms(1)] Q2_FE_TF3_rows[OF assms(2)]
            Q2_FE_TF3_rows[OF assms(3)], of Q2_FE_TF2 1]
    by simp
  show ?thesis
    unfolding quadrature_point_pulled_back J gradient_of_ones_27
    by (simp add: pulled_back_flux_cube Q2_FE_TF2_row_sums assms)
qed

subsection \<open>The cell tensors against a vector\<close>

lemma zeros_27: "map (\<lambda>i. 0::real) [0..<27] = replicate 27 0"
  by (simp add: map_replicate_const)

lemma cell_tensor_Q2_dot:
  "length (cell_tensor_Q2 wglobal c coordinate_dofs_global geom_dofmap dofmap cell_id) = 27
   \<and> dot v (cell_tensor_Q2 wglobal c coordinate_dofs_global geom_dofmap dofmap cell_id)
     = cell_form 4 (\<lambda>iq0 iq1 iq2. weights_be1 ! (16 * iq0 + 4 * iq1 + iq2)) Q2_FE_TF3 Q2_FE_TF2
         3 (\<lambda>i0 i1 i2. 9 * i0 + 3 * i1 + i2) Q2_FE_TF0 Q2_FE_TF1
         (gather_coordinate_dofs coordinate_dofs_global geom_dofmap cell_id) c
         (gather_w 27 wglobal dofmap cell_id) v"
proof -
  have "length (quadrature_loop 4 (\<lambda>iq0 iq1 iq2. weights_be1 ! (16 * iq0 + 4 * iq1 + iq2))
                  Q2_FE_TF3 Q2_FE_TF2 3 (\<lambda>i0 i1 i2. 9 * i0 + 3 * i1 + i2) Q2_FE_TF0 Q2_FE_TF1
                  (gather_coordinate_dofs coordinate_dofs_global geom_dofmap cell_id)
                  (gather_w 27 wglobal dofmap cell_id) c (replicate 27 0)) = 27
        \<and> dot v (quadrature_loop 4 (\<lambda>iq0 iq1 iq2. weights_be1 ! (16 * iq0 + 4 * iq1 + iq2))
                  Q2_FE_TF3 Q2_FE_TF2 3 (\<lambda>i0 i1 i2. 9 * i0 + 3 * i1 + i2) Q2_FE_TF0 Q2_FE_TF1
                  (gather_coordinate_dofs coordinate_dofs_global geom_dofmap cell_id)
                  (gather_w 27 wglobal dofmap cell_id) c (replicate 27 0))
          = dot v (replicate 27 0)
            + cell_form 4 (\<lambda>iq0 iq1 iq2. weights_be1 ! (16 * iq0 + 4 * iq1 + iq2))
                Q2_FE_TF3 Q2_FE_TF2 3 (\<lambda>i0 i1 i2. 9 * i0 + 3 * i1 + i2) Q2_FE_TF0 Q2_FE_TF1
                (gather_coordinate_dofs coordinate_dofs_global geom_dofmap cell_id) c
                (gather_w 27 wglobal dofmap cell_id) v"
    by (rule quadrature_loop_dot) simp_all
  then show ?thesis
    by (simp add: cell_tensor_Q2_def zeros_27)
qed

text \<open>
  The degree-1 cell tensor is the content the buffer started with plus the form of
  the cell.
\<close>

lemma cell_tensor_Q1_dot:
  assumes "length A_uninit = 8"
  shows "length (cell_tensor_Q1 A_uninit wglobal c coordinate_dofs_global geom_dofmap dofmap cell_id)
           = 8
         \<and> dot v (cell_tensor_Q1 A_uninit wglobal c coordinate_dofs_global geom_dofmap dofmap cell_id)
           = dot v A_uninit
             + cell_form 3 (\<lambda>iq0 iq1 iq2. weights_461 ! (9 * iq0 + 3 * iq1 + iq2))
                 Q1_FE_TF0 Q1_FE_TF1 2 (\<lambda>i0 i1 i2. 4 * i0 + 2 * i1 + i2) Q1_FE_TF0 Q1_FE_TF1
                 (gather_coordinate_dofs coordinate_dofs_global geom_dofmap cell_id) c
                 (gather_w 8 wglobal dofmap cell_id) v"
  unfolding cell_tensor_Q1_def Let_def
  using assms by (intro quadrature_loop_dot) simp_all

subsection \<open>The output of the degree-2 kernel on the unit cube\<close>

lemma unit_cube_Q2_fields [simp]:
  "op_num_cells unit_cube_Q2 = 1"
  "op_tabulate_tensor unit_cube_Q2 = Kernel_Q2"
  "op_dofmap unit_cube_Q2 = [0..<27]"
  "op_x_dofmap unit_cube_Q2 = [0..<8]"
  "op_constants unit_cube_Q2 = [1]"
  "op_x unit_cube_Q2 = cube_x 1"
  by (simp_all add: unit_cube_Q2_def MatFreeLaplace_new_def)

lemma gather_w_identity: "length v = n \<Longrightarrow> gather_w n v [0..<n] 0 = v"
  by (rule nth_equalityI) (simp_all add: gather_w_def)

lemma gather_cube: "gather_coordinate_dofs (cube_x h) [0..<8] 0 = cube_x h"
  by (simp add: gather_coordinate_dofs_def upt_0_8 cube_x_def)

lemma unit_cube_Q2_output:
  "\<exists>out. operator_call unit_cube_Q2 A_uninit hipSuccess (replicate 27 1) (replicate 27 0)
           = Inr (unit_cube_Q2, replicate 27 1, out)
         \<and> length out = 27
         \<and> (\<forall>v. length v = 27 \<longrightarrow>
                dot v out
                = cell_form 4 (\<lambda>iq0 iq1 iq2. weights_be1 ! (16 * iq0 + 4 * iq1 + iq2))
                    Q2_FE_TF3 Q2_FE_TF2 3 (\<lambda>i0 i1 i2. 9 * i0 + 3 * i1 + i2) Q2_FE_TF0 Q2_FE_TF1
                    (cube_x 1) [1] (replicate 27 1) v)"
proof -
  let ?A = "cell_tensor_Q2 (replicate 27 1) [1] (cube_x 1) [0..<8] [0..<27] 0"
  let ?out = "scatter 27 [0..<27] 0 ?A (replicate 27 0)"
  have call: "operator_call unit_cube_Q2 A_uninit hipSuccess (replicate 27 1) (replicate 27 0)
              = Inr (unit_cube_Q2, replicate 27 1, ?out)"
    by (subst operator_call_assembles) (simp_all add: space_dim_of_def cell_tensor_def)
  have len: "length ?out = 27"
    by simp
  have form: "dot v ?out
              = cell_form 4 (\<lambda>iq0 iq1 iq2. weights_be1 ! (16 * iq0 + 4 * iq1 + iq2))
                  Q2_FE_TF3 Q2_FE_TF2 3 (\<lambda>i0 i1 i2. 9 * i0 + 3 * i1 + i2) Q2_FE_TF0 Q2_FE_TF1
                  (cube_x 1) [1] (replicate 27 1) v"
    if "length v = 27" for v
  proof -
    have "dot v ?out = dot v (replicate 27 0) + dot (gather_w 27 v [0..<27] 0) ?A"
      by (rule scatter_dot) (simp_all add: cell_tensor_Q2_dot)
    then show ?thesis
      using that by (simp add: gather_w_identity cell_tensor_Q2_dot gather_cube)
  qed
  show ?thesis
    using call len form by blast
qed

text \<open>
  Against the coefficient itself the form is a sum of squares with positive weights;
  the term of the first quadrature point is positive, because the first row of the
  derivative table sums to \<open>-1e-16\<close>.
\<close>

lemma unit_cube_Q2_energy_positive:
  "0 < cell_form 4 (\<lambda>iq0 iq1 iq2. weights_be1 ! (16 * iq0 + 4 * iq1 + iq2))
         Q2_FE_TF3 Q2_FE_TF2 3 (\<lambda>i0 i1 i2. 9 * i0 + 3 * i1 + i2) Q2_FE_TF0 Q2_FE_TF1
         (cube_x 1) [1] (replicate 27 1) (replicate 27 1)"
proof -
  let ?W = "\<lambda>iq0 iq1 iq2. weights_be1 ! (16 * iq0 + 4 * iq1 + iq2)"
  let ?sD = "row_sum3 Q2_FE_TF0" and ?sV = "row_sum3 Q2_FE_TF1" and ?r = "row_sum2 Q2_FE_TF2"
  let ?f = "\<lambda>iq0 iq1 iq2.
      flux_dot (quadrature_point Q2_FE_TF3 Q2_FE_TF2 3 (\<lambda>i0 i1 i2. 9 * i0 + 3 * i1 + i2)
                  Q2_FE_TF0 Q2_FE_TF1 (?W iq0 iq1 iq2) (cube_x 1) (replicate 27 1) [1] iq0 iq1 iq2)
               (coefficient_section 3 (\<lambda>i0 i1 i2. 9 * i0 + 3 * i1 + i2) Q2_FE_TF0 Q2_FE_TF1
                  (replicate 27 1) iq0 iq1 iq2)"
  let ?s = "\<lambda>iq0 iq1 iq2.
      (?sD iq0 * (?sV iq1 * ?sV iq2) * ?r iq0)\<^sup>2 + (?sV iq0 * (?sD iq1 * ?sV iq2) * ?r iq1)\<^sup>2
      + (?sV iq0 * (?sV iq1 * ?sD iq2) * ?r iq2)\<^sup>2"
  have closed: "?f iq0 iq1 iq2 = ?W iq0 iq1 iq2 * ?s iq0 iq1 iq2"
    if "iq0 < 4" "iq1 < 4" "iq2 < 4" for iq0 iq1 iq2
    unfolding unit_cube_Q2_flux[OF that] gradient_of_ones_27
    by (simp add: flux_dot_def power2_eq_square algebra_simps)
  have nonneg: "0 \<le> ?f iq0 iq1 iq2" if "iq0 < 4" "iq1 < 4" "iq2 < 4" for iq0 iq1 iq2
    unfolding closed[OF that] using weights_be1_bounds(1)[OF that] by (intro mult_nonneg_nonneg) simp_all
  have "?sD 0 * (?sV 0 * ?sV 0) * ?r 0 \<noteq> 0"
    using Q2_FE_TF1_row_sums(1)[of 0] Q2_FE_TF2_row_sums(1)[of 0] by (simp add: Q2_FE_TF0_row_0)
  then have s0: "0 < ?s 0 0 0"
    by (intro add_pos_nonneg) simp_all
  have w0: "0 < ?W 0 0 0"
    by (rule weights_be1_bounds(1)) simp_all
  have f0: "?f 0 0 0 = ?W 0 0 0 * ?s 0 0 0"
    by (rule closed) simp_all
  have "0 < ?W 0 0 0 * ?s 0 0 0"
    using w0 s0 by (rule mult_pos_pos)
  then have "0 < ?f 0 0 0"
    by (simp only: f0)
  also have "?f 0 0 0 \<le> sum3 4 ?f"
    by (rule sum3_ge_term) (simp_all add: nonneg)
  finally show ?thesis
    by (simp add: cell_form_def)
qed

text \<open>
  The degree-2 kernel on the unit cube with the coefficient 1 and the constant 1, from
  a zeroed output: the output is not all-zero.
\<close>

theorem Q2_unit_cube_output_not_zero:
  "output_of (operator_call unit_cube_Q2 (\<lambda>cell_id. []) hipSuccess (replicate 27 1) (replicate 27 0))
   \<noteq> Some (replicate 27 0)"
proof -
  obtain out where call: "operator_call unit_cube_Q2 (\<lambda>cell_id. []) hipSuccess (replicate 27 1)
                            (replicate 27 0) = Inr (unit_cube_Q2, replicate 27 1, out)"
    and len: "length out = 27"
    and form: "\<And>v. length v = 27 \<Longrightarrow>
                 dot v out
                 = cell_form 4 (\<lambda>iq0 iq1 iq2. weights_be1 ! (16 * iq0 + 4 * iq1 + iq2))
                     Q2_FE_TF3 Q2_FE_TF2 3 (\<lambda>i0 i1 i2. 9 * i0 + 3 * i1 + i2) Q2_FE_TF0 Q2_FE_TF1
                     (cube_x 1) [1] (replicate 27 1) v"
    using unit_cube_Q2_output[of "\<lambda>cell_id. []"] by blast
  have "0 < dot (replicate 27 1) out"
    using form[of "replicate 27 1"] unit_cube_Q2_energy_positive by simp
  then have "out \<noteq> replicate 27 0"
    by auto
  then show ?thesis
    by (simp add: call output_of_def)
qed

subsection \<open>How far from zero the degree-2 output is\<close>

lemma abs_mult_le:
  fixes a b :: real
  assumes "\<bar>a\<bar> \<le> A" and "\<bar>b\<bar> \<le> B"
  shows "\<bar>a * b\<bar> \<le> A * B"
proof -
  have "0 \<le> A"
    using assms(1) by linarith
  then have "\<bar>a\<bar> * \<bar>b\<bar> \<le> A * B"
    using assms by (intro mult_mono) simp_all
  then show ?thesis
    by (simp add: abs_mult)
qed

lemma sum_list_abs_le_upt:
  fixes f :: "nat \<Rightarrow> real"
  assumes "\<And>i. i < n \<Longrightarrow> \<bar>f i\<bar> \<le> B"
  shows "\<bar>sum_list (map f [0..<n])\<bar> \<le> real n * B"
  using assms
proof (induction n)
  case 0
  show ?case by simp
next
  case (Suc n)
  have "\<bar>sum_list (map f [0..<n])\<bar> \<le> real n * B"
    using Suc.prems by (intro Suc.IH) simp
  moreover have "\<bar>f n\<bar> \<le> B"
    using Suc.prems by simp
  ultimately show ?case
    by (simp add: algebra_simps)
qed

lemma sum3_abs_le:
  assumes "\<And>i0 i1 i2. i0 < n \<Longrightarrow> i1 < n \<Longrightarrow> i2 < n \<Longrightarrow> \<bar>f i0 i1 i2\<bar> \<le> B"
  shows "\<bar>sum3 n f\<bar> \<le> real n * (real n * (real n * B))"
  unfolding sum3_def
  by (intro sum_list_abs_le_upt) (simp add: assms)

text \<open>One flux component: a weight, a derivative row sum, and four row sums near one.\<close>

lemma flux_component_bound:
  fixes w d a b r :: real
  assumes "\<bar>w\<bar> \<le> 35 / 1000" "\<bar>d\<bar> \<le> 1 / 10 ^ 15" "\<bar>a\<bar> \<le> 101 / 100" "\<bar>b\<bar> \<le> 101 / 100"
      and "\<bar>r\<bar> \<le> 101 / 100"
  shows "\<bar>w * (d * (a * b) * (r * r))\<bar> \<le> 4 / 10 ^ 17"
proof -
  have "\<bar>w * (d * (a * b) * (r * r))\<bar>
        \<le> 35 / 1000 * (1 / 10 ^ 15 * (101 / 100 * (101 / 100)) * (101 / 100 * (101 / 100)))"
    using assms by (intro abs_mult_le)
  also have "\<dots> \<le> 4 / 10 ^ 17"
    by simp
  finally show ?thesis .
qed

lemma unit_cube_Q2_flux_bound:
  assumes "iq0 < 4" "iq1 < 4" "iq2 < 4"
  obtains fw0 fw1 fw2 where
    "quadrature_point Q2_FE_TF3 Q2_FE_TF2 3 (\<lambda>i0 i1 i2. 9 * i0 + 3 * i1 + i2)
       Q2_FE_TF0 Q2_FE_TF1 (weights_be1 ! (16 * iq0 + 4 * iq1 + iq2)) (cube_x 1)
       (replicate 27 1) [1] iq0 iq1 iq2 = (fw0, fw1, fw2)"
    and "\<bar>fw0\<bar> \<le> 4 / 10 ^ 17" and "\<bar>fw1\<bar> \<le> 4 / 10 ^ 17" and "\<bar>fw2\<bar> \<le> 4 / 10 ^ 17"
proof -
  let ?w = "weights_be1 ! (16 * iq0 + 4 * iq1 + iq2)"
  let ?sD = "row_sum3 Q2_FE_TF0" and ?sV = "row_sum3 Q2_FE_TF1" and ?r = "row_sum2 Q2_FE_TF2"
  have w: "\<bar>?w\<bar> \<le> 35 / 1000"
    using weights_be1_bounds[OF assms] by simp
  note D = Q2_FE_TF0_row_sums and V = Q2_FE_TF1_row_sums(2) and r = Q2_FE_TF2_row_sums(2)
  have 0: "\<bar>?w * (?sD iq0 * (?sV iq1 * ?sV iq2) * (?r iq0 * ?r iq0))\<bar> \<le> 4 / 10 ^ 17"
    by (intro flux_component_bound w D V r assms)
  have "\<bar>?w * (?sD iq1 * (?sV iq0 * ?sV iq2) * (?r iq1 * ?r iq1))\<bar> \<le> 4 / 10 ^ 17"
    by (intro flux_component_bound w D V r assms)
  then have 1: "\<bar>?w * (?sV iq0 * (?sD iq1 * ?sV iq2) * (?r iq1 * ?r iq1))\<bar> \<le> 4 / 10 ^ 17"
    by (simp add: mult.left_commute)
  have "\<bar>?w * (?sD iq2 * (?sV iq0 * ?sV iq1) * (?r iq2 * ?r iq2))\<bar> \<le> 4 / 10 ^ 17"
    by (intro flux_component_bound w D V r assms)
  then have 2: "\<bar>?w * (?sV iq0 * (?sV iq1 * ?sD iq2) * (?r iq2 * ?r iq2))\<bar> \<le> 4 / 10 ^ 17"
    by (simp add: mult.left_commute mult.commute)
  show thesis
    using that[OF unit_cube_Q2_flux[OF assms] 0 1 2] .
qed

text \<open>
  The reference gradient of a vector whose entries are at most one in absolute value:
  27 terms, each a product of three table entries.
\<close>

lemma Q2_gradient_bound:
  assumes "iq0 < 4" "iq1 < 4" "iq2 < 4"
      and v: "\<And>i. i < 27 \<Longrightarrow> \<bar>v ! i\<bar> \<le> 1"
  obtains G0 G1 G2 where
    "coefficient_section 3 (\<lambda>i0 i1 i2. 9 * i0 + 3 * i1 + i2) Q2_FE_TF0 Q2_FE_TF1 v iq0 iq1 iq2
     = [G0, G1, G2]"
    and "\<bar>G0\<bar> \<le> 189 / 2" and "\<bar>G1\<bar> \<le> 189 / 2" and "\<bar>G2\<bar> \<le> 189 / 2"
proof -
  note D = Q2_FE_TF0_entries and V = Q2_FE_TF1_entries
  have entry: "\<bar>v ! (9 * i0 + 3 * i1 + i2)\<bar> \<le> 1" if "i0 < 3" "i1 < 3" "i2 < 3" for i0 i1 i2
    using that by (intro v) simp
  have "\<bar>v ! (9 * i0 + 3 * i1 + i2)
         * (Q2_FE_TF0 ! 0 ! 0 ! iq0 ! i0 * Q2_FE_TF1 ! 0 ! 0 ! iq1 ! i1 * Q2_FE_TF1 ! 0 ! 0 ! iq2 ! i2)\<bar>
        \<le> 1 * (7 / 2 * 1 * 1)" if "i0 < 3" "i1 < 3" "i2 < 3" for i0 i1 i2
    by (intro abs_mult_le entry D V assms that)
  then have 0: "\<bar>sum3 3 (\<lambda>i0 i1 i2. v ! (9 * i0 + 3 * i1 + i2)
         * (Q2_FE_TF0 ! 0 ! 0 ! iq0 ! i0 * Q2_FE_TF1 ! 0 ! 0 ! iq1 ! i1 * Q2_FE_TF1 ! 0 ! 0 ! iq2 ! i2))\<bar>
        \<le> 189 / 2"
    using sum3_abs_le[of 3 _ "1 * (7 / 2 * 1 * 1)"] by fastforce
  have "\<bar>v ! (9 * i0 + 3 * i1 + i2)
         * (Q2_FE_TF1 ! 0 ! 0 ! iq0 ! i0 * Q2_FE_TF0 ! 0 ! 0 ! iq1 ! i1 * Q2_FE_TF1 ! 0 ! 0 ! iq2 ! i2)\<bar>
        \<le> 1 * (1 * (7 / 2) * 1)" if "i0 < 3" "i1 < 3" "i2 < 3" for i0 i1 i2
    by (intro abs_mult_le entry D V assms that)
  then have 1: "\<bar>sum3 3 (\<lambda>i0 i1 i2. v ! (9 * i0 + 3 * i1 + i2)
         * (Q2_FE_TF1 ! 0 ! 0 ! iq0 ! i0 * Q2_FE_TF0 ! 0 ! 0 ! iq1 ! i1 * Q2_FE_TF1 ! 0 ! 0 ! iq2 ! i2))\<bar>
        \<le> 189 / 2"
    using sum3_abs_le[of 3 _ "1 * (1 * (7 / 2) * 1)"] by fastforce
  have "\<bar>v ! (9 * i0 + 3 * i1 + i2)
         * (Q2_FE_TF1 ! 0 ! 0 ! iq0 ! i0 * Q2_FE_TF1 ! 0 ! 0 ! iq1 ! i1 * Q2_FE_TF0 ! 0 ! 0 ! iq2 ! i2)\<bar>
        \<le> 1 * (1 * 1 * (7 / 2))" if "i0 < 3" "i1 < 3" "i2 < 3" for i0 i1 i2
    by (intro abs_mult_le entry D V assms that)
  then have 2: "\<bar>sum3 3 (\<lambda>i0 i1 i2. v ! (9 * i0 + 3 * i1 + i2)
         * (Q2_FE_TF1 ! 0 ! 0 ! iq0 ! i0 * Q2_FE_TF1 ! 0 ! 0 ! iq1 ! i1 * Q2_FE_TF0 ! 0 ! 0 ! iq2 ! i2))\<bar>
        \<le> 189 / 2"
    using sum3_abs_le[of 3 _ "1 * (1 * 1 * (7 / 2))"] by fastforce
  show thesis
    using that[OF coefficient_section_sum3 0 1 2] .
qed

lemma flux_dot_bound:
  assumes "\<bar>fw0\<bar> \<le> F" "\<bar>fw1\<bar> \<le> F" "\<bar>fw2\<bar> \<le> F"
      and "\<bar>G0\<bar> \<le> M" "\<bar>G1\<bar> \<le> M" "\<bar>G2\<bar> \<le> M"
  shows "\<bar>flux_dot (fw0, fw1, fw2) [G0, G1, G2]\<bar> \<le> 3 * (F * M)"
proof -
  have "\<bar>fw0 * G0\<bar> \<le> F * M" "\<bar>fw1 * G1\<bar> \<le> F * M" "\<bar>fw2 * G2\<bar> \<le> F * M"
    using assms by (auto intro: abs_mult_le)
  then show ?thesis
    by (simp add: flux_dot_def)
qed

lemma unit_cube_Q2_form_bound:
  assumes "\<And>i. i < 27 \<Longrightarrow> \<bar>v ! i\<bar> \<le> 1"
  shows "\<bar>cell_form 4 (\<lambda>iq0 iq1 iq2. weights_be1 ! (16 * iq0 + 4 * iq1 + iq2))
           Q2_FE_TF3 Q2_FE_TF2 3 (\<lambda>i0 i1 i2. 9 * i0 + 3 * i1 + i2) Q2_FE_TF0 Q2_FE_TF1
           (cube_x 1) [1] (replicate 27 1) v\<bar> \<le> 1 / 10 ^ 12"
proof -
  have point: "\<bar>flux_dot
            (quadrature_point Q2_FE_TF3 Q2_FE_TF2 3 (\<lambda>i0 i1 i2. 9 * i0 + 3 * i1 + i2)
               Q2_FE_TF0 Q2_FE_TF1 (weights_be1 ! (16 * iq0 + 4 * iq1 + iq2)) (cube_x 1)
               (replicate 27 1) [1] iq0 iq1 iq2)
            (coefficient_section 3 (\<lambda>i0 i1 i2. 9 * i0 + 3 * i1 + i2) Q2_FE_TF0 Q2_FE_TF1 v
               iq0 iq1 iq2)\<bar> \<le> 3 * (4 / 10 ^ 17 * (189 / 2))"
    if q: "iq0 < 4" "iq1 < 4" "iq2 < 4" for iq0 iq1 iq2
  proof -
    obtain fw0 fw1 fw2 where
      fw: "quadrature_point Q2_FE_TF3 Q2_FE_TF2 3 (\<lambda>i0 i1 i2. 9 * i0 + 3 * i1 + i2)
             Q2_FE_TF0 Q2_FE_TF1 (weights_be1 ! (16 * iq0 + 4 * iq1 + iq2)) (cube_x 1)
             (replicate 27 1) [1] iq0 iq1 iq2 = (fw0, fw1, fw2)"
      and F: "\<bar>fw0\<bar> \<le> 4 / 10 ^ 17" "\<bar>fw1\<bar> \<le> 4 / 10 ^ 17" "\<bar>fw2\<bar> \<le> 4 / 10 ^ 17"
      using unit_cube_Q2_flux_bound[OF q] by metis
    obtain G0 G1 G2 where
      G: "coefficient_section 3 (\<lambda>i0 i1 i2. 9 * i0 + 3 * i1 + i2) Q2_FE_TF0 Q2_FE_TF1 v
            iq0 iq1 iq2 = [G0, G1, G2]"
      and M: "\<bar>G0\<bar> \<le> 189 / 2" "\<bar>G1\<bar> \<le> 189 / 2" "\<bar>G2\<bar> \<le> 189 / 2"
      using Q2_gradient_bound[OF q assms] by metis
    show ?thesis
      unfolding fw G by (rule flux_dot_bound[OF F M])
  qed
  have "\<bar>cell_form 4 (\<lambda>iq0 iq1 iq2. weights_be1 ! (16 * iq0 + 4 * iq1 + iq2))
           Q2_FE_TF3 Q2_FE_TF2 3 (\<lambda>i0 i1 i2. 9 * i0 + 3 * i1 + i2) Q2_FE_TF0 Q2_FE_TF1
           (cube_x 1) [1] (replicate 27 1) v\<bar>
        \<le> real 4 * (real 4 * (real 4 * (3 * (4 / 10 ^ 17 * (189 / 2)))))"
    unfolding cell_form_def by (rule sum3_abs_le) (rule point)
  also have "\<dots> \<le> 1 / 10 ^ 12"
    by simp
  finally show ?thesis .
qed

lemma unit_vector_entries: "i < n \<Longrightarrow> \<bar>(replicate n (0::real))[k := 1] ! i\<bar> \<le> 1"
  by (cases "k < n") (simp_all add: nth_list_update list_update_beyond)

text \<open>
  C1 (amended). The claim: on the single unit-cube cell with the coefficient 1 and the
  constant 1, from a zeroed output, the output is zero at every dof, for both kernels
  and under exact arithmetic. For the degree-1 kernel every quadrature contribution
  is exactly zero: the output is all-zero when the kernel's local buffer starts at
  zero. For the degree-2 kernel the output is not exactly zero, since the decimal
  table entries are rounded; every entry is within \<open>1e-12\<close> of zero.
\<close>

theorem unit_cube_constant_field_output:
  "operator_call unit_cube_Q1 (\<lambda>cell_id. [0, 0, 0, 0, 0, 0, 0, 0]) hipSuccess
     [1, 1, 1, 1, 1, 1, 1, 1] [0, 0, 0, 0, 0, 0, 0, 0]
   = Inr (unit_cube_Q1, [1, 1, 1, 1, 1, 1, 1, 1], [0, 0, 0, 0, 0, 0, 0, 0])
   \<and> (\<exists>out. operator_call unit_cube_Q2 A_uninit hipSuccess (replicate 27 1) (replicate 27 0)
              = Inr (unit_cube_Q2, replicate 27 1, out)
            \<and> length out = 27
            \<and> list_all (\<lambda>a. \<bar>a\<bar> \<le> 1 / 10 ^ 12) out)"
proof -
  have Q1: "operator_call unit_cube_Q1 (\<lambda>cell_id. [0, 0, 0, 0, 0, 0, 0, 0]) hipSuccess
              [1, 1, 1, 1, 1, 1, 1, 1] [0, 0, 0, 0, 0, 0, 0, 0]
            = Inr (unit_cube_Q1, [1, 1, 1, 1, 1, 1, 1, 1], [0, 0, 0, 0, 0, 0, 0, 0])"
    by (simp add: unit_cube_Q1_constant_field)
  obtain out where call: "operator_call unit_cube_Q2 A_uninit hipSuccess (replicate 27 1)
                            (replicate 27 0) = Inr (unit_cube_Q2, replicate 27 1, out)"
    and len: "length out = 27"
    and form: "\<And>v. length v = 27 \<Longrightarrow>
                 dot v out
                 = cell_form 4 (\<lambda>iq0 iq1 iq2. weights_be1 ! (16 * iq0 + 4 * iq1 + iq2))
                     Q2_FE_TF3 Q2_FE_TF2 3 (\<lambda>i0 i1 i2. 9 * i0 + 3 * i1 + i2) Q2_FE_TF0 Q2_FE_TF1
                     (cube_x 1) [1] (replicate 27 1) v"
    using unit_cube_Q2_output[of A_uninit] by blast
  have "\<bar>out ! k\<bar> \<le> 1 / 10 ^ 12" if "k < 27" for k
  proof -
    have "out ! k = dot ((replicate 27 0)[k := 1]) out"
      using dot_unit[of k out] that len by simp
    also have "\<dots> = cell_form 4 (\<lambda>iq0 iq1 iq2. weights_be1 ! (16 * iq0 + 4 * iq1 + iq2))
                     Q2_FE_TF3 Q2_FE_TF2 3 (\<lambda>i0 i1 i2. 9 * i0 + 3 * i1 + i2) Q2_FE_TF0 Q2_FE_TF1
                     (cube_x 1) [1] (replicate 27 1) ((replicate 27 0)[k := 1])"
      by (rule form) simp
    finally have entry: "out ! k
        = cell_form 4 (\<lambda>iq0 iq1 iq2. weights_be1 ! (16 * iq0 + 4 * iq1 + iq2))
            Q2_FE_TF3 Q2_FE_TF2 3 (\<lambda>i0 i1 i2. 9 * i0 + 3 * i1 + i2) Q2_FE_TF0 Q2_FE_TF1
            (cube_x 1) [1] (replicate 27 1) ((replicate 27 0)[k := 1])" .
    show ?thesis
      unfolding entry by (rule unit_cube_Q2_form_bound) (rule unit_vector_entries)
  qed
  then have "list_all (\<lambda>a. \<bar>a\<bar> \<le> 1 / 10 ^ 12) out"
    using len by (simp add: list_all_length)
  then show ?thesis
    using Q1 call len by blast
qed

section \<open>Construction with an unsupported degree\<close>

subsection \<open>The degree-1 kernel on the unit cube with the first coordinate as coefficient\<close>

lemma Q1_FE_TF1_row_sums:
  assumes "iq < 3"
  shows "0 < row_sum2 Q1_FE_TF1 iq"
  using below_3[OF assms] by (auto simp: row_sum2_def Q1_FE_TF1_def)

lemma weights_461_positive:
  assumes "iq0 < 3" "iq1 < 3" "iq2 < 3"
  shows "0 < weights_461 ! (9 * iq0 + 3 * iq1 + iq2)"
proof -
  have all: "list_all (\<lambda>w. 0 < w) weights_461"
    by (simp add: weights_461_def)
  have "9 * iq0 + 3 * iq1 + iq2 < length weights_461"
    using assms by (simp add: weights_461_def)
  then show ?thesis
    using all by (simp add: list_all_length)
qed

text \<open>
  The coefficient that is the first coordinate of the node: 0 at the four nodes with
  \<open>i0 = 0\<close> and 1 at the four nodes with \<open>i0 = 1\<close>. Its reference gradient has one
  component, which does not vanish.
\<close>

lemma Q1_gradient_of_first_coordinate:
  assumes "iq0 < 3" "iq1 < 3" "iq2 < 3"
  shows "coefficient_section 2 (\<lambda>i0 i1 i2. 4 * i0 + 2 * i1 + i2) Q1_FE_TF0 Vw
           [0, 0, 0, 0, 1, 1, 1, 1] iq0 iq1 iq2
         = [row_sum2 Vw iq1 * row_sum2 Vw iq2, 0, 0]"
  by (simp add: coefficient_section_def acc3_def loop3_def upt_0_2 Q1_FE_TF0_rows[OF assms(1)]
        Q1_FE_TF0_rows[OF assms(2)] Q1_FE_TF0_rows[OF assms(3)] row_sum2_def algebra_simps)

lemma unit_cube_Q1_flux:
  assumes "iq0 < 3" "iq1 < 3" "iq2 < 3"
  shows "quadrature_point Q1_FE_TF0 Q1_FE_TF1 2 (\<lambda>i0 i1 i2. 4 * i0 + 2 * i1 + i2)
           Q1_FE_TF0 Q1_FE_TF1 weight (cube_x 1) [0, 0, 0, 0, 1, 1, 1, 1] [1] iq0 iq1 iq2
         = (weight * (row_sum2 Q1_FE_TF1 iq1 * row_sum2 Q1_FE_TF1 iq2
                      * (row_sum2 Q1_FE_TF1 iq0 * row_sum2 Q1_FE_TF1 iq0)),
            0, 0)"
proof -
  have J: "jacobian_section Q1_FE_TF0 Q1_FE_TF1 (cube_x 1) iq0 iq1 iq2
           = [row_sum2 Q1_FE_TF1 iq1 * row_sum2 Q1_FE_TF1 iq2, 0, 0,
              0, row_sum2 Q1_FE_TF1 iq0 * row_sum2 Q1_FE_TF1 iq2, 0,
              0, 0, row_sum2 Q1_FE_TF1 iq0 * row_sum2 Q1_FE_TF1 iq1]"
    using cube_jacobian[OF Q1_FE_TF0_rows[OF assms(1)] Q1_FE_TF0_rows[OF assms(2)]
            Q1_FE_TF0_rows[OF assms(3)], of Q1_FE_TF1 1]
    by simp
  show ?thesis
    unfolding quadrature_point_pulled_back J Q1_gradient_of_first_coordinate[OF assms]
    by (simp add: pulled_back_flux_cube Q1_FE_TF1_row_sums assms)
qed

text \<open>
  Against the coefficient itself the form is a sum of squares with positive weights.
\<close>

lemma unit_cube_Q1_energy_positive:
  "0 < cell_form 3 (\<lambda>iq0 iq1 iq2. weights_461 ! (9 * iq0 + 3 * iq1 + iq2))
         Q1_FE_TF0 Q1_FE_TF1 2 (\<lambda>i0 i1 i2. 4 * i0 + 2 * i1 + i2) Q1_FE_TF0 Q1_FE_TF1
         (cube_x 1) [1] [0, 0, 0, 0, 1, 1, 1, 1] [0, 0, 0, 0, 1, 1, 1, 1]"
proof -
  let ?W = "\<lambda>iq0 iq1 iq2. weights_461 ! (9 * iq0 + 3 * iq1 + iq2)"
  let ?r = "row_sum2 Q1_FE_TF1"
  let ?f = "\<lambda>iq0 iq1 iq2.
      flux_dot (quadrature_point Q1_FE_TF0 Q1_FE_TF1 2 (\<lambda>i0 i1 i2. 4 * i0 + 2 * i1 + i2)
                  Q1_FE_TF0 Q1_FE_TF1 (?W iq0 iq1 iq2) (cube_x 1) [0, 0, 0, 0, 1, 1, 1, 1] [1]
                  iq0 iq1 iq2)
               (coefficient_section 2 (\<lambda>i0 i1 i2. 4 * i0 + 2 * i1 + i2) Q1_FE_TF0 Q1_FE_TF1
                  [0, 0, 0, 0, 1, 1, 1, 1] iq0 iq1 iq2)"
  have closed: "?f iq0 iq1 iq2 = ?W iq0 iq1 iq2 * (?r iq0 * ?r iq1 * ?r iq2)\<^sup>2"
    if "iq0 < 3" "iq1 < 3" "iq2 < 3" for iq0 iq1 iq2
    unfolding unit_cube_Q1_flux[OF that] Q1_gradient_of_first_coordinate[OF that]
    by (simp add: flux_dot_def power2_eq_square algebra_simps)
  have pos: "0 < ?f iq0 iq1 iq2" if "iq0 < 3" "iq1 < 3" "iq2 < 3" for iq0 iq1 iq2
  proof -
    have "?r iq0 * ?r iq1 * ?r iq2 \<noteq> 0"
      using Q1_FE_TF1_row_sums[OF that(1)] Q1_FE_TF1_row_sums[OF that(2)]
        Q1_FE_TF1_row_sums[OF that(3)] by simp
    then have "0 < (?r iq0 * ?r iq1 * ?r iq2)\<^sup>2"
      by simp
    then have "0 < ?W iq0 iq1 iq2 * (?r iq0 * ?r iq1 * ?r iq2)\<^sup>2"
      using weights_461_positive[OF that] by (rule_tac mult_pos_pos)
    then show ?thesis
      by (simp only: closed[OF that])
  qed
  have "0 < ?f 0 0 0"
    by (rule pos) simp_all
  also have "?f 0 0 0 \<le> sum3 3 ?f"
    by (rule sum3_ge_term) (simp_all add: less_imp_le[OF pos])
  finally show ?thesis
    by (simp add: cell_form_def)
qed

text \<open>
  The object that the constructor leaves for degree 3 in storage whose pointer member
  holds the address of the degree-1 kernel is the degree-1 operator.
\<close>

lemma degree_3_in_Q1_storage:
  "MatFreeLaplace_new Kernel_Q1 3 1 [1] (cube_x 1) [0..<8] [0..<8] = unit_cube_Q1"
  by (simp add: MatFreeLaplace_new_def unit_cube_Q1_def)

lemma unit_cube_Q1_output:
  assumes "length (A_uninit 0) = 8" and "length inp = 8"
  shows "\<exists>out. operator_call unit_cube_Q1 A_uninit hipSuccess inp (replicate 8 0)
                 = Inr (unit_cube_Q1, inp, out)
         \<and> length out = 8
         \<and> (\<forall>v. length v = 8 \<longrightarrow>
                dot v out
                = dot v (A_uninit 0)
                  + cell_form 3 (\<lambda>iq0 iq1 iq2. weights_461 ! (9 * iq0 + 3 * iq1 + iq2))
                      Q1_FE_TF0 Q1_FE_TF1 2 (\<lambda>i0 i1 i2. 4 * i0 + 2 * i1 + i2) Q1_FE_TF0 Q1_FE_TF1
                      (cube_x 1) [1] inp v)"
proof -
  let ?A = "cell_tensor_Q1 (A_uninit 0) inp [1] (cube_x 1) [0..<8] [0..<8] 0"
  let ?out = "scatter 8 [0..<8] 0 ?A (replicate 8 0)"
  have call: "operator_call unit_cube_Q1 A_uninit hipSuccess inp (replicate 8 0)
              = Inr (unit_cube_Q1, inp, ?out)"
    by (subst operator_call_assembles) (simp_all add: space_dim_of_def cell_tensor_def upt_0_8)
  have len: "length ?out = 8"
    by simp
  have form: "dot v ?out
              = dot v (A_uninit 0)
                + cell_form 3 (\<lambda>iq0 iq1 iq2. weights_461 ! (9 * iq0 + 3 * iq1 + iq2))
                    Q1_FE_TF0 Q1_FE_TF1 2 (\<lambda>i0 i1 i2. 4 * i0 + 2 * i1 + i2) Q1_FE_TF0 Q1_FE_TF1
                    (cube_x 1) [1] inp v"
    if "length v = 8" for v
  proof -
    have "dot v ?out = dot v (replicate 8 0) + dot (gather_w 8 v [0..<8] 0) ?A"
      by (rule scatter_dot) (simp_all add: cell_tensor_Q1_dot[OF assms(1)])
    then show ?thesis
      using that assms
      by (simp add: gather_w_identity cell_tensor_Q1_dot[OF assms(1)] gather_cube dot_zero)
  qed
  show ?thesis
    using call len form by blast
qed

subsection \<open>What the constructor leaves, and what apply does with it\<close>

text \<open>
  C3 (amended). The claim: construction with a degree other than 1 or 2 does not fail
  detectably, and the resulting operator is a silent no-op: a later apply leaves the
  output unchanged and signals no error. The first part holds: the constructor has
  no failing path. For such a degree it does not assign the kernel pointer, which
  keeps the content that the storage of the object had. \<open>operator()\<close> tests neither
  the degree nor the pointer and launches through it. So where the storage held the
  address of a kernel, the object is the very object that the constructor builds for
  that kernel's degree, and apply does what the operator of that degree does; it is
  no no-op. What a launch through any other content does is left to the runtime.
\<close>

theorem unsupported_degree_keeps_stale_kernel_pointer:
  assumes "degree \<noteq> 1" and "degree \<noteq> 2"
  shows "op_tabulate_tensor
           (MatFreeLaplace_new tabulate_tensor_uninit degree num_cells constants x x_dofmap dofmap)
         = tabulate_tensor_uninit
         \<and> MatFreeLaplace_new Kernel_Q1 degree num_cells constants x x_dofmap dofmap
           = MatFreeLaplace_new tabulate_tensor_uninit 1 num_cells constants x x_dofmap dofmap
         \<and> MatFreeLaplace_new Kernel_Q2 degree num_cells constants x x_dofmap dofmap
           = MatFreeLaplace_new tabulate_tensor_uninit 2 num_cells constants x x_dofmap dofmap
         \<and> operator_call (MatFreeLaplace_new Kernel_Q1 degree num_cells constants x x_dofmap dofmap)
             A_uninit last_error inp out
           = operator_call
               (MatFreeLaplace_new tabulate_tensor_uninit 1 num_cells constants x x_dofmap dofmap)
               A_uninit last_error inp out
         \<and> operator_call (MatFreeLaplace_new Kernel_Q2 degree num_cells constants x x_dofmap dofmap)
             A_uninit last_error inp out
           = operator_call
               (MatFreeLaplace_new tabulate_tensor_uninit 2 num_cells constants x x_dofmap dofmap)
               A_uninit last_error inp out"
  using assms by (simp add: MatFreeLaplace_new_def)

theorem unsupported_degree_keeps_stale_kernel_pointer_witness:
  "(3::int) \<noteq> 1 \<and> (3::int) \<noteq> 2
   \<and> op_tabulate_tensor (MatFreeLaplace_new Kernel_Q1 3 1 [1] (cube_x 1) [0..<8] [0..<8])
     = Kernel_Q1
   \<and> MatFreeLaplace_new Kernel_Q1 3 1 [1] (cube_x 1) [0..<8] [0..<8]
     = MatFreeLaplace_new Kernel_Q1 1 1 [1] (cube_x 1) [0..<8] [0..<8]
   \<and> operator_call (MatFreeLaplace_new Kernel_Q1 3 1 [1] (cube_x 1) [0..<8] [0..<8])
       (\<lambda>cell_id. replicate 8 0) hipSuccess [0, 0, 0, 0, 1, 1, 1, 1] (replicate 8 0)
     = operator_call (MatFreeLaplace_new Kernel_Q1 1 1 [1] (cube_x 1) [0..<8] [0..<8])
         (\<lambda>cell_id. replicate 8 0) hipSuccess [0, 0, 0, 0, 1, 1, 1, 1] (replicate 8 0)"
proof -
  have h1: "(3::int) \<noteq> 1" and h2: "(3::int) \<noteq> 2"
    by simp_all
  show ?thesis
    using h1 h2
      unsupported_degree_keeps_stale_kernel_pointer[OF h1 h2, of Kernel_Q1 1 "[1]" "cube_x 1"
        "[0..<8]" "[0..<8]" "\<lambda>cell_id. replicate 8 0" hipSuccess "[0, 0, 0, 0, 1, 1, 1, 1]"
        "replicate 8 0"]
    by blast
qed

text \<open>
  The claim fails for an operator built with degree 3 in storage that an operator of
  degree 1 has left: on the unit cube, with the first coordinate as coefficient, a
  zeroed local buffer and a zeroed output, apply returns without an error and the
  output is not the zero vector it was.
\<close>

theorem unsupported_degree_apply_changes_output:
  "output_of (operator_call (MatFreeLaplace_new Kernel_Q1 3 1 [1] (cube_x 1) [0..<8] [0..<8])
                (\<lambda>cell_id. replicate 8 0) hipSuccess [0, 0, 0, 0, 1, 1, 1, 1] (replicate 8 0))
   \<noteq> None
   \<and> output_of (operator_call (MatFreeLaplace_new Kernel_Q1 3 1 [1] (cube_x 1) [0..<8] [0..<8])
                  (\<lambda>cell_id. replicate 8 0) hipSuccess [0, 0, 0, 0, 1, 1, 1, 1] (replicate 8 0))
     \<noteq> Some (replicate 8 0)"
proof -
  obtain out where call: "operator_call unit_cube_Q1 (\<lambda>cell_id. replicate 8 0) hipSuccess
                            [0, 0, 0, 0, 1, 1, 1, 1] (replicate 8 0)
                          = Inr (unit_cube_Q1, [0, 0, 0, 0, 1, 1, 1, 1], out)"
    and form: "\<And>v. length v = 8 \<Longrightarrow>
                 dot v out
                 = dot v (replicate 8 0)
                   + cell_form 3 (\<lambda>iq0 iq1 iq2. weights_461 ! (9 * iq0 + 3 * iq1 + iq2))
                       Q1_FE_TF0 Q1_FE_TF1 2 (\<lambda>i0 i1 i2. 4 * i0 + 2 * i1 + i2) Q1_FE_TF0 Q1_FE_TF1
                       (cube_x 1) [1] [0, 0, 0, 0, 1, 1, 1, 1] v"
    using unit_cube_Q1_output[of "\<lambda>cell_id. replicate 8 0" "[0, 0, 0, 0, 1, 1, 1, 1]"] by auto
  have "0 < dot [0, 0, 0, 0, 1, 1, 1, 1] out"
    using form[of "[0, 0, 0, 0, 1, 1, 1, 1]"] unit_cube_Q1_energy_positive
    by (simp add: dot_zero)
  then have "out \<noteq> replicate 8 0"
    by (auto simp: dot_zero)
  then show ?thesis
    unfolding degree_3_in_Q1_storage call by (simp add: output_of_def)
qed

end
